theory Spec2Isabelle
  imports Complex_Main
begin

section \<open>Conventions\<close>

text \<open>
  The program is Python. The value of a float is a rational (\<open>rat\<close>). The learning
  model, the allocator, the refinement engine and the selection compute with them
  exactly; the feedback learner and the sentiment aggregation, whose branches compare
  computed floats with thresholds, take the float operations as a parameter (an
  \<open>arith\<close>), of which exact arithmetic is one instance. Dictionaries are association lists
  where iteration order matters and maps where it does not, files are values of a state
  that every function takes and returns, and exceptions are the left summand of a sum
  type.
\<close>

datatype error =
    KeyError string
  | TypeError string
  | AttributeError string
  | ValueError string
  | ZeroDivisionError

text \<open>\<open>str(e)\<close> of an exception.\<close>

definition str_of_error :: "error \<Rightarrow> string" where
  "str_of_error e =
     (case e of KeyError k \<Rightarrow> [CHR 0x27] @ k @ [CHR 0x27] | TypeError m \<Rightarrow> m
      | AttributeError m \<Rightarrow> m | ValueError m \<Rightarrow> m
      | ZeroDivisionError \<Rightarrow> ''division by zero'')"

text \<open>
  Python's \<open>round(x, n)\<close> rounds to the nearest multiple of \<open>10^-n\<close>, ties to the even
  one.
\<close>

definition round_half_even :: "rat \<Rightarrow> int" where
  "round_half_even x =
     (let f = \<lfloor>x\<rfloor>; r = x - of_int f
      in if r < 1/2 then f else if 1/2 < r then f + 1 else if even f then f else f + 1)"

definition py_round :: "rat \<Rightarrow> nat \<Rightarrow> rat" where
  "py_round x n = of_int (round_half_even (x * 10 ^ n)) / 10 ^ n"

section \<open>JSON values, dictionaries and strings\<close>

text \<open>
  What \<open>json.loads\<close> gives and \<open>json.dumps\<close> takes. A Python dictionary with string
  keys is an association list in insertion order; \<open>dict_set\<close> is \<open>d[k] = v\<close> (an
  existing key keeps its place), \<open>dict_update\<close> is \<open>d.update(other)\<close>.
\<close>

datatype json =
    JNull
  | JBool bool
  | JNum rat
  | JStr string
  | JArr "json list"
  | JObj "(string \<times> json) list"

type_synonym dict = "(string \<times> json) list"

definition dict_get :: "dict \<Rightarrow> string \<Rightarrow> json option" where
  "dict_get d k = map_of d k"

definition dict_get_default :: "dict \<Rightarrow> string \<Rightarrow> json \<Rightarrow> json" where
  "dict_get_default d k v = (case map_of d k of Some x \<Rightarrow> x | None \<Rightarrow> v)"

fun dict_set :: "('k \<times> 'v) list \<Rightarrow> 'k \<Rightarrow> 'v \<Rightarrow> ('k \<times> 'v) list" where
  "dict_set [] k v = [(k, v)]"
| "dict_set ((k', v') # d) k v = (if k' = k then (k, v) # d else (k', v') # dict_set d k v)"

definition dict_update :: "dict \<Rightarrow> dict \<Rightarrow> dict" where
  "dict_update d other = foldl (\<lambda>acc (k, v). dict_set acc k v) d other"

text \<open>A number as Python's arithmetic reads it: \<open>True\<close> is 1 and \<open>False\<close> is 0.\<close>

definition py_number :: "json \<Rightarrow> rat option" where
  "py_number j =
     (case j of JNum x \<Rightarrow> Some x | JBool b \<Rightarrow> Some (if b then 1 else 0) | _ \<Rightarrow> None)"


text \<open>An allocation (ticker to percentage) as the JSON object it is.\<close>

definition alloc_json :: "(string \<times> rat) list \<Rightarrow> json" where
  "alloc_json a = JObj (map (\<lambda>(k, v). (k, JNum v)) a)"

subsection \<open>Strings\<close>

fun starts_with :: "string \<Rightarrow> string \<Rightarrow> bool" where
  "starts_with s [] = True"
| "starts_with [] (p # ps) = False"
| "starts_with (c # cs) (p # ps) = (c = p \<and> starts_with cs ps)"

text \<open>\<open>sub in s\<close>.\<close>

fun contains :: "string \<Rightarrow> string \<Rightarrow> bool" where
  "contains [] sub = (sub = [])"
| "contains (c # cs) sub = (starts_with (c # cs) sub \<or> contains cs sub)"

text \<open>
  \<open>s.split(sep)[1]\<close> up to the next separator is what follows the first occurrence of
  \<open>sep\<close>; \<open>s.split(sep)[0]\<close> is what precedes it (all of \<open>s\<close> when there is none).
\<close>

fun after_first :: "string \<Rightarrow> string \<Rightarrow> string" where
  "after_first [] sep = []"
| "after_first (c # cs) sep =
     (if starts_with (c # cs) sep then drop (length sep) (c # cs) else after_first cs sep)"

fun before_first :: "string \<Rightarrow> string \<Rightarrow> string" where
  "before_first [] sep = []"
| "before_first (c # cs) sep =
     (if starts_with (c # cs) sep then [] else c # before_first cs sep)"

definition is_space :: "char \<Rightarrow> bool" where
  "is_space c = (c \<in> {CHR '' '', CHR 0x09, CHR 0x0A, CHR 0x0B, CHR 0x0C, CHR 0x0D,
                       CHR 0x1C, CHR 0x1D, CHR 0x1E, CHR 0x1F})"

definition strip :: "string \<Rightarrow> string" where
  "strip s = rev (dropWhile is_space (rev (dropWhile is_space s)))"

text \<open>Decimal digits of a natural number, as \<open>str\<close> and f-strings print an integer.\<close>

fun show_nat :: "nat \<Rightarrow> string" where
  "show_nat n =
     (if n < 10 then [char_of (48 + n)] else show_nat (n div 10) @ [char_of (48 + n mod 10)])"

declare show_nat.simps [simp del]

section \<open>Float arithmetic\<close>

text \<open>
  The operations on floats that the feedback learner and the sentiment aggregation use:
  \<open>+\<close>, \<open>-\<close>, \<open>*\<close>, \<open>/\<close>, the builtin \<open>sum\<close> of a list, \<open>round(x, n)\<close>, and the value that a
  decimal literal of the source denotes. Each is a function of the values of its
  arguments; which function it is depends on the machine's floats and on the version of
  the interpreter (\<open>sum\<close>), so the definitions below take them as a record and hold for
  every one. Comparisons of floats compare their values. Division is only called with a
  divisor that the code has checked to be positive or that is the length of a list that
  is not empty.
\<close>

record arith =
  fadd :: "rat \<Rightarrow> rat \<Rightarrow> rat"
  fsub :: "rat \<Rightarrow> rat \<Rightarrow> rat"
  fmul :: "rat \<Rightarrow> rat \<Rightarrow> rat"
  fdiv :: "rat \<Rightarrow> rat \<Rightarrow> rat"
  fsum :: "rat list \<Rightarrow> rat"
  fround :: "rat \<Rightarrow> nat \<Rightarrow> rat"
  flit :: "rat \<Rightarrow> rat"

text \<open>Exact arithmetic, for the examples (whose values are chosen away from any tie).\<close>

definition exact_arith :: arith where
  "exact_arith =
     \<lparr>fadd = (+), fsub = (-), fmul = (*), fdiv = (/), fsum = sum_list, fround = py_round,
      flit = (\<lambda>x. x)\<rparr>"

section \<open>The feedback learner (phase2\_feedback.py)\<close>

subsection \<open>Configuration\<close>

record feedback_config =
  min_confidence_threshold :: rat
  evaluation_days :: int
  learning_rate :: rat
  min_evaluations_for_learning :: int
  version :: int
  last_updated :: "string option"

definition DEFAULT_CONFIG :: "arith \<Rightarrow> feedback_config" where
  "DEFAULT_CONFIG ar =
     \<lparr>min_confidence_threshold = flit ar (3 / 5), evaluation_days = 3,
      learning_rate = flit ar (1 / 20), min_evaluations_for_learning = 5, version = 1,
      last_updated = None\<rparr>"

text \<open>
  One line of \<open>data/phase2_evaluations.jsonl\<close>, as \<open>evaluate_decision\<close> writes it.
  Time stamps are points of a linear clock (microseconds), dates are day numbers. The
  action and the confidence are copied from the decision, where they are whatever the
  caller of \<open>log_decision\<close> passed.
\<close>

record evaluation =
  decision_timestamp :: int
  evaluation_timestamp :: int
  e_sector :: string
  e_action :: json
  e_confidence :: json
  original_return :: rat
  final_return :: rat
  delta :: rat
  outperformed :: bool
  days_evaluated :: int

text \<open>
  One line of \<open>data/phase2_decisions.jsonl\<close>, as \<open>log_decision\<close> writes it. An
  allocation is a dictionary from ticker to weight, kept in insertion order. The only
  caller, \<open>run_phase2_refinement\<close>, passes the action, the confidence and the reasoning
  of the backend's reply as they are: they are JSON values of any kind.
\<close>

type_synonym allocation = "(string \<times> rat) list"

record decision =
  timestamp :: int
  date :: int
  d_sector :: string
  d_sentiment :: rat
  d_action :: json
  d_confidence :: json
  original_allocation :: allocation
  final_allocation :: allocation
  d_reasoning :: json
  evaluated :: bool

text \<open>
  The files the feedback learner reads and writes. \<open>None\<close> is a file that does not
  exist. A stored configuration that lacks a key reads as one that carries the default
  for it (\<open>{**DEFAULT_CONFIG, **config}\<close>).
\<close>

record feedback_files =
  config_file :: "feedback_config option"
  evaluations_file :: "evaluation list option"
  decisions_file :: "decision list option"

definition load_config :: "arith \<Rightarrow> feedback_files \<Rightarrow> feedback_config" where
  "load_config ar fs = (case config_file fs of Some c \<Rightarrow> c | None \<Rightarrow> DEFAULT_CONFIG ar)"

definition save_config :: "string \<Rightarrow> feedback_config \<Rightarrow> feedback_files \<Rightarrow> feedback_files" where
  "save_config now config fs = fs\<lparr>config_file := Some (config\<lparr>last_updated := Some now\<rparr>)\<rparr>"

subsection \<open>Performance statistics\<close>

text \<open>
  \<open>stats["adjust"]\<close> and \<open>stats["keep"]\<close>. The key \<open>win_rate\<close> is only set when the
  action has at least one evaluation; \<open>avg_delta\<close> starts at 0.
\<close>

record action_stats =
  count :: nat
  n_outperformed :: nat
  avg_delta :: rat
  deltas :: "rat list"
  win_rate :: "rat option"

record bucket_stats =
  b_count :: nat
  b_outperformed :: nat
  b_deltas :: "rat list"

record perf_stats =
  adjust :: action_stats
  keep :: action_stats
  by_confidence :: "int \<Rightarrow> bucket_stats"

definition empty_action_stats :: action_stats where
  "empty_action_stats = \<lparr>count = 0, n_outperformed = 0, avg_delta = 0, deltas = [], win_rate = None\<rparr>"

definition empty_bucket :: bucket_stats where
  "empty_bucket = \<lparr>b_count = 0, b_outperformed = 0, b_deltas = []\<rparr>"

definition empty_stats :: perf_stats where
  "empty_stats = \<lparr>adjust = empty_action_stats, keep = empty_action_stats,
                  by_confidence = (\<lambda>_. empty_bucket)\<rparr>"

definition tally :: "action_stats \<Rightarrow> evaluation \<Rightarrow> action_stats" where
  "tally s e =
     s\<lparr>count := count s + 1, deltas := deltas s @ [delta e],
       n_outperformed := (if outperformed e then n_outperformed s + 1 else n_outperformed s)\<rparr>"

text \<open>
  \<open>stats[action]\<close>: the dictionary has the keys \<open>adjust\<close>, \<open>keep\<close> and \<open>by_confidence\<close>.
  Any other action raises \<open>KeyError\<close> (a list or a dictionary cannot be hashed), and
  \<open>by_confidence\<close> leads to a dictionary to which 1 cannot be added.
\<close>

datatype tracked_action = Adjust | Keep

definition stats_key :: "json \<Rightarrow> error + tracked_action" where
  "stats_key action =
     (case action of
        JStr a \<Rightarrow>
          if a = ''adjust'' then Inr Adjust
          else if a = ''keep'' then Inr Keep
          else if a = ''by_confidence'' then Inl (TypeError ''unsupported operand type(s) for +='')
          else Inl (KeyError a)
      | JNull \<Rightarrow> Inl (KeyError ''None'')
      | JBool b \<Rightarrow> Inl (KeyError (if b then ''True'' else ''False''))
      | JNum x \<Rightarrow> Inl (KeyError ''number'')
      | JArr xs \<Rightarrow> Inl (TypeError ''unhashable type: list'')
      | JObj kvs \<Rightarrow> Inl (TypeError ''unhashable type: dict''))"

text \<open>
  \<open>int(confidence * 10) * 10\<close>: \<open>int\<close> truncates a float towards zero. A string is
  repeated ten times by \<open>*\<close> and then read by \<open>int\<close>, which takes it if it consists of
  decimal digits; \<open>None\<close>, a list and a dictionary raise.
\<close>

definition py_int :: "rat \<Rightarrow> int" where
  "py_int x = (if 0 \<le> x then \<lfloor>x\<rfloor> else \<lceil>x\<rceil>)"

definition is_digit :: "char \<Rightarrow> bool" where
  "is_digit c = (48 \<le> (of_char c :: nat) \<and> (of_char c :: nat) \<le> 57)"

definition int_of_digits :: "string \<Rightarrow> int" where
  "int_of_digits s = foldl (\<lambda>n c. 10 * n + (int (of_char c) - 48)) 0 s"

definition conf_bucket :: "arith \<Rightarrow> json \<Rightarrow> error + int" where
  "conf_bucket ar confidence =
     (case confidence of
        JNum c \<Rightarrow> Inr (py_int (fmul ar c 10) * 10)
      | JBool b \<Rightarrow> Inr (if b then 100 else 0)
      | JStr s \<Rightarrow>
          if s \<noteq> [] \<and> list_all is_digit s
          then Inr (int_of_digits (concat (replicate 10 s)) * 10)
          else Inl (ValueError ''invalid literal for int() with base 10'')
      | JNull \<Rightarrow> Inl (TypeError ''unsupported operand type(s) for *'')
      | JArr xs \<Rightarrow> Inl (TypeError ''int() argument must be a string or a number'')
      | JObj kvs \<Rightarrow> Inl (TypeError ''unsupported operand type(s) for *''))"

definition tally_bucket :: "bucket_stats \<Rightarrow> evaluation \<Rightarrow> bucket_stats" where
  "tally_bucket b e =
     b\<lparr>b_count := b_count b + 1, b_deltas := b_deltas b @ [delta e],
       b_outperformed := (if outperformed e then b_outperformed b + 1 else b_outperformed b)\<rparr>"

text \<open>
  One pass of the loop over the evaluation file: the action's statistics first, then
  the bucket of the confidence. An exception leaves the function, and the statistics
  with it.
\<close>

definition stats_step :: "arith \<Rightarrow> perf_stats \<Rightarrow> evaluation \<Rightarrow> error + perf_stats" where
  "stats_step ar st e =
     (case stats_key (e_action e) of
        Inl err \<Rightarrow> Inl err
      | Inr action \<Rightarrow>
          (let st1 = (case action of
                        Adjust \<Rightarrow> st\<lparr>adjust := tally (adjust st) e\<rparr>
                      | Keep \<Rightarrow> st\<lparr>keep := tally (keep st) e\<rparr>)
           in case conf_bucket ar (e_confidence e) of
                Inl err \<Rightarrow> Inl err
              | Inr bucket \<Rightarrow>
                  Inr (st1\<lparr>by_confidence := (by_confidence st1)
                             (bucket := tally_bucket (by_confidence st1 bucket) e)\<rparr>)))"

fun stats_loop :: "arith \<Rightarrow> perf_stats \<Rightarrow> evaluation list \<Rightarrow> error + perf_stats" where
  "stats_loop ar st [] = Inr st"
| "stats_loop ar st (e # es) =
     (case stats_step ar st e of Inl err \<Rightarrow> Inl err | Inr st' \<Rightarrow> stats_loop ar st' es)"

definition averages :: "arith \<Rightarrow> action_stats \<Rightarrow> action_stats" where
  "averages ar s =
     (if deltas s \<noteq> [] then
        s\<lparr>avg_delta := fdiv ar (fsum ar (deltas s)) (of_nat (length (deltas s))),
          win_rate := Some (fdiv ar (of_nat (n_outperformed s)) (of_nat (count s)))\<rparr>
      else s)"

definition get_performance_stats :: "arith \<Rightarrow> feedback_files \<Rightarrow> error + perf_stats option" where
  "get_performance_stats ar fs =
     (case evaluations_file fs of
        None \<Rightarrow> Inr None
      | Some es \<Rightarrow>
          (case stats_loop ar empty_stats es of
             Inl err \<Rightarrow> Inl err
           | Inr st \<Rightarrow>
               Inr (Some (st\<lparr>adjust := averages ar (adjust st), keep := averages ar (keep st)\<rparr>))))"

subsection \<open>Threshold adaptation\<close>

text \<open>\<open>adjust_stats.get("win_rate", 0)\<close>.\<close>

definition get_win_rate :: "action_stats \<Rightarrow> rat" where
  "get_win_rate s = (case win_rate s of Some w \<Rightarrow> w | None \<Rightarrow> 0)"

text \<open>
  \<open>learn_from_evaluations\<close> returns the configuration and leaves the files as they are
  after it; \<open>now\<close> is the clock reading that \<open>save_config\<close> stores.
\<close>

definition learn_from_evaluations ::
  "arith \<Rightarrow> string \<Rightarrow> feedback_files \<Rightarrow> error + (feedback_config \<times> feedback_files)" where
  "learn_from_evaluations ar now fs =
     (let config = load_config ar fs in
      case get_performance_stats ar fs of
        Inl err \<Rightarrow> Inl err
      | Inr None \<Rightarrow> Inr (config, fs)
      | Inr (Some stats) \<Rightarrow>
          (let adjust_stats = adjust stats in
           if int (count adjust_stats) < min_evaluations_for_learning config then Inr (config, fs)
           else
             (let old_threshold = min_confidence_threshold config;
                  config' =
                    (if flit ar (3 / 5) < get_win_rate adjust_stats \<and> 0 < avg_delta adjust_stats then
                       config\<lparr>min_confidence_threshold :=
                                max (flit ar (2 / 5)) (fsub ar old_threshold (learning_rate config))\<rparr>
                     else if get_win_rate adjust_stats < flit ar (2 / 5) \<or>
                             avg_delta adjust_stats < - (1 / 2) then
                       config\<lparr>min_confidence_threshold :=
                                min (flit ar (9 / 10)) (fadd ar old_threshold (learning_rate config))\<rparr>
                     else config);
                  config'' = config'\<lparr>last_updated := Some now\<rparr>
              in Inr (config'', save_config now config' fs))))"


subsection \<open>Logging and evaluating decisions\<close>

definition microseconds_per_day :: int where
  "microseconds_per_day = 86400000000"


definition stored_decisions :: "feedback_files \<Rightarrow> decision list" where
  "stored_decisions fs = (case decisions_file fs of None \<Rightarrow> [] | Some ds \<Rightarrow> ds)"

definition stored_evaluations :: "feedback_files \<Rightarrow> evaluation list" where
  "stored_evaluations fs = (case evaluations_file fs of None \<Rightarrow> [] | Some es \<Rightarrow> es)"


definition get_pending_evaluations :: "int \<Rightarrow> int \<Rightarrow> feedback_files \<Rightarrow> decision list" where
  "get_pending_evaluations min_days now fs =
     (case decisions_file fs of
        None \<Rightarrow> []
      | Some ds \<Rightarrow>
          (let cutoff = now - min_days * microseconds_per_day
           in filter (\<lambda>decision. \<not> evaluated decision \<and> timestamp decision < cutoff) ds))"

text \<open>
  The price history is an external collaborator: \<open>fetch ticker start end\<close> is the relative
  price change of the ticker between two dates, or \<open>None\<close> when it is not available
  (\<open>fetch_price_change\<close> catches every exception of the lookup).
\<close>

type_synonym price_feed = "string \<Rightarrow> int \<Rightarrow> int \<Rightarrow> rat option"

fun portfolio_loop ::
  "arith \<Rightarrow> price_feed \<Rightarrow> int \<Rightarrow> int \<Rightarrow> allocation \<Rightarrow> rat \<times> rat \<Rightarrow> rat \<times> rat" where
  "portfolio_loop ar fetch s e [] acc = acc"
| "portfolio_loop ar fetch s e ((ticker, weight) # rest) (total_return, total_weight) =
     (case fetch ticker s e of
        Some change \<Rightarrow>
          portfolio_loop ar fetch s e rest
            (fadd ar total_return (fmul ar change weight), fadd ar total_weight weight)
      | None \<Rightarrow> portfolio_loop ar fetch s e rest (total_return, total_weight))"

definition calculate_portfolio_return ::
  "arith \<Rightarrow> price_feed \<Rightarrow> allocation \<Rightarrow> int \<Rightarrow> int \<Rightarrow> rat option" where
  "calculate_portfolio_return ar fetch allocation start_date end_date =
     (case portfolio_loop ar fetch start_date end_date allocation (0, 0) of
        (total_return, total_weight) \<Rightarrow>
          if 0 < total_weight then Some (fmul ar (fdiv ar total_return total_weight) 100)
          else None)"

definition normalize :: "arith \<Rightarrow> allocation \<Rightarrow> allocation" where
  "normalize ar alloc =
     (let total = fsum ar (map snd alloc)
      in if 0 < total then map (\<lambda>(k, v). (k, fdiv ar v total)) alloc else alloc)"

text \<open>
  \<open>evaluate_decision\<close> reads the decision it is given and nothing else of the decisions
  file. \<open>build_evaluation\<close> is the part of it that computes the two returns and, when both
  are available, the evaluation; \<open>evaluate_decision\<close> then appends it to the evaluations
  file.
\<close>

definition build_evaluation ::
  "arith \<Rightarrow> price_feed \<Rightarrow> int \<Rightarrow> int \<Rightarrow> decision \<Rightarrow> evaluation option" where
  "build_evaluation ar fetch now days decision =
     (let start_date = date decision;
          end_date = start_date + days;
          original = normalize ar (original_allocation decision);
          final = normalize ar (final_allocation decision)
      in case (calculate_portfolio_return ar fetch original start_date end_date,
               calculate_portfolio_return ar fetch final start_date end_date) of
           (Some original_ret, Some final_ret) \<Rightarrow>
             Some \<lparr>decision_timestamp = timestamp decision, evaluation_timestamp = now,
                   e_sector = d_sector decision, e_action = d_action decision,
                   e_confidence = d_confidence decision,
                   original_return = fround ar original_ret 3,
                   final_return = fround ar final_ret 3,
                   delta = fround ar (fsub ar final_ret original_ret) 3,
                   outperformed = (original_ret < final_ret),
                   days_evaluated = days\<rparr>
         | _ \<Rightarrow> None)"

definition evaluate_decision ::
  "arith \<Rightarrow> price_feed \<Rightarrow> int \<Rightarrow> decision \<Rightarrow> int \<Rightarrow> feedback_files \<Rightarrow>
   evaluation option \<times> feedback_files" where
  "evaluate_decision ar fetch now decision days fs =
     (case build_evaluation ar fetch now days decision of
        None \<Rightarrow> (None, fs)
      | Some evaluation \<Rightarrow>
          (Some evaluation, fs\<lparr>evaluations_file := Some (stored_evaluations fs @ [evaluation])\<rparr>))"

definition mark_decisions_evaluated :: "int list \<Rightarrow> feedback_files \<Rightarrow> feedback_files" where
  "mark_decisions_evaluated timestamps fs =
     (case decisions_file fs of
        None \<Rightarrow> fs
      | Some ds \<Rightarrow>
          fs\<lparr>decisions_file :=
               Some (map (\<lambda>decision. if timestamp decision \<in> set timestamps
                                        then decision\<lparr>evaluated := True\<rparr> else decision) ds)\<rparr>)"

text \<open>
  The line that \<open>run_evaluations\<close> prints for a decision before it evaluates it formats
  the confidence with \<open>:.0%\<close>. A float, an integer and a boolean have that format; a
  string raises \<open>ValueError\<close>, and \<open>None\<close>, a list and a dictionary raise \<open>TypeError\<close>.
\<close>

definition format_percent :: "json \<Rightarrow> error + unit" where
  "format_percent v =
     (case v of
        JNum x \<Rightarrow> Inr ()
      | JBool b \<Rightarrow> Inr ()
      | JStr s \<Rightarrow> Inl (ValueError ''Unknown format code % for object of type str'')
      | _ \<Rightarrow> Inl (TypeError ''unsupported format string passed to __format__''))"

text \<open>
  The loop of \<open>run_evaluations\<close>. An exception leaves the loop and the function at once:
  the records appended so far stay in the evaluations file, and
  \<open>mark_decisions_evaluated\<close>, which comes after the loop, is not reached. The function
  therefore gives back the files together with its result or its exception.
\<close>

fun evaluations_loop ::
  "arith \<Rightarrow> price_feed \<Rightarrow> int \<Rightarrow> int \<Rightarrow> decision list \<Rightarrow> evaluation list \<times> feedback_files \<Rightarrow>
   (error + evaluation list) \<times> feedback_files" where
  "evaluations_loop ar fetch now days [] (results, fs) = (Inr results, fs)"
| "evaluations_loop ar fetch now days (decision # rest) (results, fs) =
     (case format_percent (d_confidence decision) of
        Inl err \<Rightarrow> (Inl err, fs)
      | Inr printed \<Rightarrow>
          (case evaluate_decision ar fetch now decision days fs of
             (Some result, fs') \<Rightarrow> evaluations_loop ar fetch now days rest (results @ [result], fs')
           | (None, fs') \<Rightarrow> evaluations_loop ar fetch now days rest (results, fs')))"

definition run_evaluations ::
  "arith \<Rightarrow> price_feed \<Rightarrow> int \<Rightarrow> feedback_files \<Rightarrow> (error + evaluation list) \<times> feedback_files" where
  "run_evaluations ar fetch now fs =
     (let config = load_config ar fs;
          pending = get_pending_evaluations (evaluation_days config) now fs
      in if pending = [] then (Inr [], fs)
         else (case evaluations_loop ar fetch now (evaluation_days config) pending ([], fs) of
                 (Inl err, fs') \<Rightarrow> (Inl err, fs')
               | (Inr results, fs') \<Rightarrow>
                   (Inr results, mark_decisions_evaluated (map timestamp pending) fs')))"

subsection \<open>Notions for stating the claims\<close>

text \<open>
  The evaluations whose action is \<open>adjust\<close>. For a time stamp \<open>t\<close>: the time stamps of the
  decisions that a run at \<open>now\<close> finds pending, the number of evaluation records that
  refer to \<open>t\<close>, and the number of logged decisions with time stamp \<open>t\<close> that are not yet
  flagged as evaluated.
\<close>

definition adjust_evaluations :: "evaluation list \<Rightarrow> evaluation list" where
  "adjust_evaluations es = filter (\<lambda>e. e_action e = JStr ''adjust'') es"




text \<open>
  A decision whose confidence has the format that the run prints, and the evaluations
  file after some records have been appended to it.
\<close>

definition prints :: "decision \<Rightarrow> bool" where
  "prints d = (format_percent (d_confidence d) = Inr ())"


subsection \<open>Example inputs\<close>

text \<open>
  An evaluation file as the program writes it when the threshold gate has turned one
  \<open>adjust\<close> down: five evaluations of applied adjustments, all of which outperformed by
  one point, and the evaluation of the decision that the gate recorded as
  \<open>keep_low_conf\<close>.
\<close>

definition example_evaluation :: "json \<Rightarrow> json \<Rightarrow> bool \<Rightarrow> rat \<Rightarrow> evaluation" where
  "example_evaluation action confidence won d =
     \<lparr>decision_timestamp = 0, evaluation_timestamp = 1, e_sector = ''XLK'', e_action = action,
      e_confidence = confidence, original_return = 0, final_return = d, delta = d,
      outperformed = won, days_evaluated = 3\<rparr>"

definition low_conf_files :: "feedback_files" where
  "low_conf_files =
     \<lparr>config_file = None,
      evaluations_file =
        Some (replicate 5 (example_evaluation (JStr ''adjust'') (JNum (3 / 4)) True 1) @
              [example_evaluation (JStr ''keep_low_conf'') (JNum (1 / 2)) False 0]),
      decisions_file = None\<rparr>"

text \<open>
  A decisions file with three decisions logged on day 0: one whose tickers the price
  feed knows, one whose ticker it does not know, and one that \<open>run_phase2_refinement\<close>
  logged for a reply with \<open>"action": "keep", "confidence": null\<close>. The allocations are
  percentages; the price changes are a quarter and an eighth.
\<close>

definition example_decision :: decision where
  "example_decision =
     \<lparr>timestamp = 0, date = 0, d_sector = ''XLK'', d_sentiment = 1 / 2, d_action = JStr ''adjust'',
      d_confidence = JNum (3 / 4), original_allocation = [(''AAPL'', 50), (''MSFT'', 50)],
      final_allocation = [(''AAPL'', 0), (''MSFT'', 100)], d_reasoning = JStr ''rotate'',
      evaluated = False\<rparr>"

definition unpriced_decision :: decision where
  "unpriced_decision =
     \<lparr>timestamp = 1, date = 0, d_sector = ''XLE'', d_sentiment = 1 / 4, d_action = JStr ''keep'',
      d_confidence = JNum (1 / 4), original_allocation = [(''ZZZZ'', 100)],
      final_allocation = [(''ZZZZ'', 100)], d_reasoning = JStr ''no data'', evaluated = False\<rparr>"

definition null_confidence_decision :: decision where
  "null_confidence_decision =
     \<lparr>timestamp = 2, date = 0, d_sector = ''XLF'', d_sentiment = 1 / 4, d_action = JStr ''keep'',
      d_confidence = JNull, original_allocation = [(''JPM'', 100)],
      final_allocation = [(''JPM'', 100)], d_reasoning = JStr ''unsure'', evaluated = False\<rparr>"

definition example_price_feed :: price_feed where
  "example_price_feed ticker start_date end_date =
     (if ticker = ''AAPL'' then Some (1 / 4) else if ticker = ''MSFT'' then Some (1 / 8) else None)"


definition null_confidence_log :: feedback_files where
  "null_confidence_log =
     \<lparr>config_file = None, evaluations_file = None,
      decisions_file = Some [example_decision, unpriced_decision, null_confidence_decision]\<rparr>"

definition example_record :: evaluation where
  "example_record =
     \<lparr>decision_timestamp = 0, evaluation_timestamp = 4 * microseconds_per_day, e_sector = ''XLK'',
      e_action = JStr ''adjust'', e_confidence = JNum (3 / 4), original_return = 75 / 4,
      final_return = 25 / 2, delta = - (25 / 4), outperformed = False, days_evaluated = 3\<rparr>"

section \<open>The learning model (daily\_learning.py, portfolio\_engine.py)\<close>

text \<open>
  The sectors of \<open>PortfolioEngine._load_config\<close> (and of the simulation in
  \<open>daily_learn\<close>).
\<close>

definition SECTORS :: "string list" where
  "SECTORS = [''XLK'', ''XLV'', ''XLF'', ''XLY'', ''XLP'', ''XLE'', ''ICLN'', ''XLI'', ''XLB'',
              ''XLU'', ''XLRE'', ''XLC'', ''CRYPTO'']"

text \<open>
  One entry of \<open>model['sector_sensitivity']\<close>. A key that \<open>.get\<close> finds missing reads as
  its default, which is what \<open>default_sensitivity\<close> carries.
\<close>

record sensitivity =
  sentiment_multiplier :: rat
  correct_predictions :: int
  total_predictions :: int

definition default_sensitivity :: sensitivity where
  "default_sensitivity = \<lparr>sentiment_multiplier = 1, correct_predictions = 0, total_predictions = 0\<rparr>"

subsection \<open>The daily update\<close>

text \<open>The \<open>if\<close>/\<open>elif\<close> chain that decides whether a prediction was correct.\<close>

datatype prediction_result = BullishCorrect | BearishCorrect | NeutralCorrect | Wrong

definition classify_prediction :: "rat \<Rightarrow> rat \<Rightarrow> prediction_result" where
  "classify_prediction predicted actual =
     (if 0.1 < predicted \<and> 0 < actual then BullishCorrect
      else if predicted < - 0.1 \<and> actual < 0 then BearishCorrect
      else if \<bar>predicted\<bar> \<le> 0.1 \<and> \<bar>actual\<bar> \<le> 1 then NeutralCorrect
      else Wrong)"

definition daily_update :: "sensitivity \<Rightarrow> bool \<Rightarrow> sensitivity" where
  "daily_update sens correct =
     (let sens1 = sens\<lparr>total_predictions := total_predictions sens + 1\<rparr>
      in if correct then
           sens1\<lparr>correct_predictions := correct_predictions sens1 + 1,
                 sentiment_multiplier := min 2 (sentiment_multiplier sens1 * 1.02)\<rparr>
         else sens1\<lparr>sentiment_multiplier := max 0.5 (sentiment_multiplier sens1 * 0.98)\<rparr>)"

text \<open>
  The state of the sector loop of \<open>daily_learn\<close>: the model's sensitivities, the
  predictions and outcomes of the learning entry, and the two counters.
\<close>

record sector_learning =
  sector_sensitivity :: "string \<rightharpoonup> sensitivity"
  predictions :: "(string \<times> rat) list"
  outcomes :: "(string \<times> rat) list"
  correct_count :: nat
  total_count :: nat

text \<open>
  One pass of the loop, for a sector and its score (\<open>sent_data.get('score', 0)\<close>).
  A sector without a price change is skipped.
\<close>

definition daily_sector_step ::
  "(string \<rightharpoonup> rat) \<Rightarrow> sector_learning \<Rightarrow> string \<times> rat \<Rightarrow> sector_learning" where
  "daily_sector_step price_changes st item =
     (case item of (sector, predicted) \<Rightarrow>
        (case price_changes sector of
           None \<Rightarrow> st
         | Some actual \<Rightarrow>
             (let correct = (classify_prediction predicted actual \<noteq> Wrong);
                  sens = (case sector_sensitivity st sector of
                            Some s \<Rightarrow> s | None \<Rightarrow> default_sensitivity)
              in st\<lparr>predictions := predictions st @ [(sector, predicted)],
                    outcomes := outcomes st @ [(sector, actual)],
                    total_count := total_count st + 1,
                    correct_count := (if correct then correct_count st + 1 else correct_count st),
                    sector_sensitivity :=
                      (sector_sensitivity st)(sector \<mapsto> daily_update sens correct)\<rparr>)))"

definition daily_learn_sectors ::
  "(string \<rightharpoonup> sensitivity) \<Rightarrow> (string \<times> rat) list \<Rightarrow> (string \<rightharpoonup> rat) \<Rightarrow> sector_learning" where
  "daily_learn_sectors model sector_sentiment price_changes =
     foldl (daily_sector_step price_changes)
       \<lparr>sector_sensitivity = model, predictions = [], outcomes = [],
        correct_count = 0, total_count = 0\<rparr>
       sector_sentiment"

subsection \<open>The weekly update\<close>

definition week_correct :: "rat \<Rightarrow> rat \<Rightarrow> bool" where
  "week_correct predicted_direction actual_change =
     ((0 < predicted_direction \<and> 0 < actual_change) \<or>
      (predicted_direction < 0 \<and> actual_change < 0) \<or>
      (\<bar>predicted_direction\<bar> < 0.1 \<and> \<bar>actual_change\<bar> < 1))"

definition weekly_update :: "sensitivity \<Rightarrow> bool \<Rightarrow> sensitivity" where
  "weekly_update sens correct =
     (let sens1 = sens\<lparr>total_predictions := total_predictions sens + 1\<rparr>
      in if correct then
           sens1\<lparr>correct_predictions := correct_predictions sens1 + 1,
                 sentiment_multiplier := min 2 (sentiment_multiplier sens1 * 1.05)\<rparr>
         else sens1\<lparr>sentiment_multiplier := max 0.5 (sentiment_multiplier sens1 * 0.95)\<rparr>)"

text \<open>
  \<open>learn_from_week\<close> goes through the configured sectors; a score or a price change
  that is missing reads as 0, and a sector that the model does not hold raises
  \<open>KeyError\<close>.
\<close>

definition get_or_zero :: "(string \<rightharpoonup> rat) \<Rightarrow> string \<Rightarrow> rat" where
  "get_or_zero m k = (case m k of Some v \<Rightarrow> v | None \<Rightarrow> 0)"

fun learn_from_week_loop ::
  "(string \<rightharpoonup> rat) \<Rightarrow> (string \<rightharpoonup> rat) \<Rightarrow> string list \<Rightarrow> (string \<rightharpoonup> sensitivity) \<Rightarrow>
   error + (string \<rightharpoonup> sensitivity)" where
  "learn_from_week_loop previous_sentiment price_changes [] model = Inr model"
| "learn_from_week_loop previous_sentiment price_changes (sector # rest) model =
     (let predicted_direction = get_or_zero previous_sentiment sector;
          actual_change = get_or_zero price_changes sector;
          correct = week_correct predicted_direction actual_change
      in case model sector of
           None \<Rightarrow> Inl (KeyError sector)
         | Some sens \<Rightarrow>
             learn_from_week_loop previous_sentiment price_changes rest
               (model(sector \<mapsto> weekly_update sens correct)))"

definition learn_from_week ::
  "(string \<rightharpoonup> rat) \<Rightarrow> (string \<rightharpoonup> rat) \<Rightarrow> (string \<rightharpoonup> sensitivity) \<Rightarrow>
   error + (string \<rightharpoonup> sensitivity)" where
  "learn_from_week previous_sentiment price_changes model =
     learn_from_week_loop previous_sentiment price_changes SECTORS model"

text \<open>\<open>model['sector_sensitivity'].get(sector, {...})\<close> with the default entry.\<close>

definition sensitivity_or_default :: "(string \<rightharpoonup> sensitivity) \<Rightarrow> string \<Rightarrow> sensitivity" where
  "sensitivity_or_default model sector =
     (case model sector of Some s \<Rightarrow> s | None \<Rightarrow> default_sensitivity)"

text \<open>The model that \<open>_create_initial_model\<close> builds: every sector at multiplier 1.\<close>

definition initial_sensitivities :: "string \<rightharpoonup> sensitivity" where
  "initial_sensitivities = (\<lambda>s. if s \<in> set SECTORS then Some default_sensitivity else None)"

definition multipliers_in_range :: "(string \<rightharpoonup> sensitivity) \<Rightarrow> bool" where
  "multipliers_in_range model =
     (\<forall>sector sens. model sector = Some sens \<longrightarrow>
        0.5 \<le> sentiment_multiplier sens \<and> sentiment_multiplier sens \<le> 2)"

section \<open>The scenario allocator (portfolio\_engine.py)\<close>

text \<open>
  \<open>sorted(xs, key=f, reverse=True)\<close>: Python sorts stably, and with \<open>reverse=True\<close>
  elements with equal keys keep their original order. \<open>sort_key\<close> is the stable
  insertion sort.
\<close>

definition sorted_reverse :: "('a \<Rightarrow> rat) \<Rightarrow> 'a list \<Rightarrow> 'a list" where
  "sorted_reverse key xs = rev (sort_key key (rev xs))"

text \<open>
  \<open>{k: (v/total)*100 for k, v in allocations.items()}\<close> with
  \<open>total = sum(allocations.values())\<close>; the division raises when the total is 0.
\<close>

definition normalize_to_100 :: "(string \<times> rat) list \<Rightarrow> error + (string \<times> rat) list" where
  "normalize_to_100 allocations =
     (let total = sum_list (map snd allocations)
      in if allocations \<noteq> [] \<and> total = 0 then Inl ZeroDivisionError
         else Inr (map (\<lambda>(k, v). (k, (v / total) * 100)) allocations))"

definition defensive_base :: "string list" where
  "defensive_base = [''XLU'', ''XLP'', ''XLV'', ''XLRE'', ''XLF'']"

definition defensive_weight :: "string \<Rightarrow> rat \<Rightarrow> rat" where
  "defensive_weight sector score =
     (let base = (if sector \<in> set defensive_base then 15 else 3)
      in if 0.4 < score then base + 5
         else if score < - 0.3 then max 1 (base - 5)
         else base)"

text \<open>
  \<open>sector_scores\<close> maps a sector to its score; a sector or a score that is missing reads
  as 0 (\<open>sector_scores.get(sector, {}).get('score', 0)\<close>). A scenario that is none of the
  six gives the empty dictionary.
\<close>

definition calculate_rebalance :: "string \<Rightarrow> (string \<rightharpoonup> rat) \<Rightarrow> error + (string \<times> rat) list" where
  "calculate_rebalance scenario sector_scores =
     (if scenario = ''spy_only'' then Inr [(''SPY'', 100)]
      else if scenario = ''benchmark'' then
        (let equal_weight = 100 / of_nat (length SECTORS)
         in Inr (map (\<lambda>s. (s, equal_weight)) SECTORS))
      else if scenario = ''momentum'' then
        (let base_weight = 100 / of_nat (length SECTORS)
         in normalize_to_100
              (map (\<lambda>sector. (sector,
                 max 2 (min 20 (base_weight + get_or_zero sector_scores sector * 50)))) SECTORS))
      else if scenario = ''aggressive'' then
        (let sorted_sectors = sorted_reverse (get_or_zero sector_scores) SECTORS;
             top_3 = take 3 sorted_sectors
         in Inr (map (\<lambda>sector. (sector, if sector \<in> set top_3 then 30 else 1)) SECTORS))
      else if scenario = ''defensive'' then
        normalize_to_100
          (map (\<lambda>sector. (sector, defensive_weight sector (get_or_zero sector_scores sector))) SECTORS)
      else if scenario = ''contrarian'' then
        (let base_weight = 100 / of_nat (length SECTORS)
         in normalize_to_100
              (map (\<lambda>sector. (sector,
                 max 2 (min 20 (base_weight + - get_or_zero sector_scores sector * 50)))) SECTORS))
      else Inr [])"

definition SCENARIOS :: "string list" where
  "SCENARIOS = [''benchmark'', ''momentum'', ''aggressive'', ''defensive'', ''contrarian'', ''spy_only'']"

text \<open>
  The scores of the determinism example: a tie at 0.8 between \<open>XLF\<close> and \<open>XLE\<close>, and
  the allocation the aggressive scenario gives for them.
\<close>

definition example_scores :: "string \<rightharpoonup> rat" where
  "example_scores = [''XLK'' \<mapsto> 0.9, ''XLF'' \<mapsto> 0.8, ''XLE'' \<mapsto> 0.8, ''XLU'' \<mapsto> - 0.5]"

definition example_aggressive :: "(string \<times> rat) list" where
  "example_aggressive =
     [(''XLK'', 30), (''XLV'', 1), (''XLF'', 30), (''XLY'', 1), (''XLP'', 1), (''XLE'', 30),
      (''ICLN'', 1), (''XLI'', 1), (''XLB'', 1), (''XLU'', 1), (''XLRE'', 1), (''XLC'', 1),
      (''CRYPTO'', 1)]"

section \<open>The refinement engine (refined\_strategy.py)\<close>

text \<open>
  What \<open>refine_allocation\<close> takes from its surroundings: \<open>json.loads\<close> (\<open>Inl\<close> is the
  message of its \<open>JSONDecodeError\<close>), the way an f-string prints a number, and the clock.
\<close>

record refine_env =
  json_loads :: "string \<Rightarrow> string + json"
  format_number :: "rat \<Rightarrow> string"
  clock :: string

text \<open>
  What \<open>requests.post\<close> does with the one request: it raises (a timeout, a refused
  connection; the string is \<open>str(e)\<close>), or it answers with a status code and a body that
  \<open>response.json()\<close> decodes or not.
\<close>

datatype response_body = BodyNotJson string | BodyJson json

datatype backend_reply = PostRaised string | Response nat response_body

text \<open>
  The effects: the prompts posted to the backend, and the lines of
  \<open>data/refined_strategy_log.jsonl\<close>.
\<close>

record refine_world =
  posts :: "string list"
  refined_log :: "dict list"

text \<open>The four assignments of every fallback, in the order of the source.\<close>

definition keep_with :: "dict \<Rightarrow> string \<Rightarrow> (string \<times> rat) list \<Rightarrow> dict" where
  "keep_with result reasoning current_allocation =
     dict_set
       (dict_set
          (dict_set (dict_set result ''action'' (JStr ''keep'')) ''reasoning'' (JStr reasoning))
          ''new_allocation'' (alloc_json current_allocation))
       ''confidence'' (JNum 0)"

text \<open>The removal of a code fence around the response.\<close>

definition extract_json_text :: "string \<Rightarrow> string" where
  "extract_json_text text =
     (if contains text ''```json'' then strip (before_first (after_first text ''```json'') ''```'')
      else if contains text ''```'' then strip (before_first (after_first text ''```'') ''```'')
      else text)"

text \<open>\<open>response.json().get("response", "").strip()\<close>.\<close>

definition response_text :: "json \<Rightarrow> error + string" where
  "response_text body =
     (case body of
        JObj kvs \<Rightarrow>
          (case dict_get_default kvs ''response'' (JStr []) of
             JStr s \<Rightarrow> Inr (strip s)
           | _ \<Rightarrow> Inl (AttributeError ''object has no attribute 'strip' ''))
      | _ \<Rightarrow> Inl (AttributeError ''object has no attribute 'get' ''))"

text \<open>
  \<open>result.update(decision)\<close> for a decision that is a list: each element has to be a
  sequence of two, the first of which becomes the key; the elements before a bad one have
  been applied when the exception is raised. A key that is not a string is left out of
  the model: no code reads one.
\<close>

fun update_from_pairs :: "dict \<Rightarrow> json list \<Rightarrow> dict \<times> error option" where
  "update_from_pairs result [] = (result, None)"
| "update_from_pairs result (JArr [JStr k, v] # rest) = update_from_pairs (dict_set result k v) rest"
| "update_from_pairs result (JArr [JArr k, v] # rest) = (result, Some (TypeError ''unhashable type: 'list' ''))"
| "update_from_pairs result (JArr [JObj k, v] # rest) = (result, Some (TypeError ''unhashable type: 'dict' ''))"
| "update_from_pairs result (JArr [k, v] # rest) = update_from_pairs result rest"
| "update_from_pairs result (JStr [a, b] # rest) = update_from_pairs (dict_set result [a] (JStr [b])) rest"
| "update_from_pairs result (JObj [(k1, v1), (k2, v2)] # rest) =
     update_from_pairs (dict_set result k1 (JStr k2)) rest"
| "update_from_pairs result (JArr xs # rest) =
     (result, Some (ValueError ''dictionary update sequence element has the wrong length; 2 is required''))"
| "update_from_pairs result (JStr s # rest) =
     (result, Some (ValueError ''dictionary update sequence element has the wrong length; 2 is required''))"
| "update_from_pairs result (JObj kvs # rest) =
     (result, Some (ValueError ''dictionary update sequence element has the wrong length; 2 is required''))"
| "update_from_pairs result (x # rest) =
     (result, Some (TypeError ''cannot convert dictionary update sequence element to a sequence''))"

definition result_update :: "dict \<Rightarrow> json \<Rightarrow> dict \<times> error option" where
  "result_update result decision =
     (case decision of
        JObj kvs \<Rightarrow> (dict_update result kvs, None)
      | JArr items \<Rightarrow> update_from_pairs result items
      | JStr s \<Rightarrow>
          (if s = [] then (result, None)
           else (result, Some (ValueError
                   ''dictionary update sequence element has the wrong length; 2 is required'')))
      | _ \<Rightarrow> (result, Some (TypeError ''object is not iterable'')))"

text \<open>\<open>sum(new_alloc.values())\<close>.\<close>

fun sum_values :: "rat \<Rightarrow> json list \<Rightarrow> error + rat" where
  "sum_values acc [] = Inr acc"
| "sum_values acc (v # vs) =
     (case py_number v of
        Some x \<Rightarrow> sum_values (acc + x) vs
      | None \<Rightarrow> Inl (TypeError ''unsupported operand type(s) for +''))"

definition allocation_total :: "json \<Rightarrow> error + rat" where
  "allocation_total new_alloc =
     (case new_alloc of
        JObj kvs \<Rightarrow> sum_values 0 (map snd kvs)
      | _ \<Rightarrow> Inl (AttributeError ''object has no attribute 'values' ''))"

text \<open>
  The inner \<open>try\<close> on the text of the response. An exception other than the
  \<open>JSONDecodeError\<close> of \<open>json.loads\<close> goes to the outer handler, after whatever
  \<open>result.update\<close> has written.
\<close>

definition handle_text :: "refine_env \<Rightarrow> string \<Rightarrow> (string \<times> rat) list \<Rightarrow> dict \<Rightarrow> dict" where
  "handle_text env text current_allocation result =
     (case json_loads env text of
        Inl msg \<Rightarrow>
          dict_set (keep_with result (''JSON parse error: '' @ msg) current_allocation)
            ''raw_response'' (JStr (take 500 text))
      | Inr decision \<Rightarrow>
          (case result_update result decision of
             (result1, Some e) \<Rightarrow>
               keep_with result1 (''Exception: '' @ str_of_error e) current_allocation
           | (result1, None) \<Rightarrow>
               (case decision of
                  JObj kvs \<Rightarrow>
                    (case allocation_total (dict_get_default kvs ''new_allocation'' (JObj [])) of
                       Inl e \<Rightarrow>
                         keep_with result1 (''Exception: '' @ str_of_error e) current_allocation
                     | Inr total_pct \<Rightarrow>
                         if 5 < \<bar>total_pct - 100\<bar> then
                           dict_set result1 ''warning''
                             (JStr (''Allocation sums to '' @ format_number env total_pct
                                    @ ''%, expected 100%''))
                         else result1)
                | _ \<Rightarrow>
                    keep_with result1
                      (''Exception: '' @ str_of_error (AttributeError ''object has no attribute 'get' ''))
                      current_allocation)))"

text \<open>The \<open>try\<close> around the request, with the outer handler.\<close>

definition handle_reply ::
  "refine_env \<Rightarrow> backend_reply \<Rightarrow> (string \<times> rat) list \<Rightarrow> dict \<Rightarrow> dict" where
  "handle_reply env reply current_allocation result =
     (case reply of
        PostRaised msg \<Rightarrow> keep_with result (''Exception: '' @ msg) current_allocation
      | Response status body \<Rightarrow>
          if status = 200 then
            (case body of
               BodyNotJson msg \<Rightarrow> keep_with result (''Exception: '' @ msg) current_allocation
             | BodyJson j \<Rightarrow>
                 (case response_text j of
                    Inl e \<Rightarrow> keep_with result (''Exception: '' @ str_of_error e) current_allocation
                  | Inr text \<Rightarrow> handle_text env (extract_json_text text) current_allocation result))
          else keep_with result (''Ollama error: '' @ show_nat status) current_allocation)"

definition initial_result ::
  "refine_env \<Rightarrow> (string \<rightharpoonup> json) \<Rightarrow> string \<Rightarrow> rat \<Rightarrow> (string \<times> rat) list \<Rightarrow> string \<Rightarrow> dict" where
  "initial_result env embeddings sector sentiment_score current_allocation scenario =
     (let tickers = map fst current_allocation;
          have_embeddings = filter (\<lambda>t. embeddings t \<noteq> None) tickers;
          missing_embeddings = filter (\<lambda>t. embeddings t = None) tickers
      in [(''sector'', JStr sector),
          (''sentiment_score'', JNum sentiment_score),
          (''scenario'', JStr scenario),
          (''original_allocation'', alloc_json current_allocation),
          (''embedding_coverage'',
             JStr (show_nat (length have_embeddings) @ ''/'' @ show_nat (length tickers))),
          (''missing_embeddings'', JArr (map JStr missing_embeddings)),
          (''timestamp'', JStr (clock env))])"

text \<open>
  \<open>refine_allocation\<close>. \<open>embeddings\<close> are the company profiles on file, \<open>prompt\<close> is what
  \<open>build_refinement_prompt\<close> gives for them and the recent news (it is called outside the
  \<open>try\<close>, so an exception of its own leaves \<open>refine_allocation\<close>), and \<open>reply\<close> is what
  the backend does with the request.
\<close>

definition refine_allocation ::
  "refine_env \<Rightarrow> (string \<rightharpoonup> json) \<Rightarrow> error + string \<Rightarrow> backend_reply \<Rightarrow>
   string \<Rightarrow> rat \<Rightarrow> (string \<times> rat) list \<Rightarrow> string \<Rightarrow> refine_world \<Rightarrow>
   error + dict \<times> refine_world" where
  "refine_allocation env embeddings prompt reply sector sentiment_score current_allocation scenario world =
     (let result = initial_result env embeddings sector sentiment_score current_allocation scenario;
          have_embeddings = filter (\<lambda>t. embeddings t \<noteq> None) (map fst current_allocation)
      in if have_embeddings = [] then
           Inr (keep_with result ''No embeddings available for refinement'' current_allocation, world)
         else
           (case prompt of
              Inl e \<Rightarrow> Inl e
            | Inr p \<Rightarrow>
                (let result' = handle_reply env reply current_allocation result
                 in Inr (result',
                         world\<lparr>posts := posts world @ [p],
                               refined_log := refined_log world @ [result']\<rparr>))))"

subsection \<open>No-op results and failed replies\<close>

text \<open>
  A result that keeps the allocation it was given: the action is \<open>keep\<close>, the confidence
  is 0, and \<open>new_allocation\<close> is the current allocation.
\<close>

definition is_keep_noop :: "(string \<times> rat) list \<Rightarrow> dict \<Rightarrow> bool" where
  "is_keep_noop current_allocation result =
     (dict_get result ''action'' = Some (JStr ''keep'') \<and>
      dict_get result ''confidence'' = Some (JNum 0) \<and>
      dict_get result ''new_allocation'' = Some (alloc_json current_allocation))"

text \<open>
  A reply that is no decision: the request raised, the status is not 200, the body is
  not JSON or holds no text, or the text does not parse.
\<close>

definition backend_failed :: "refine_env \<Rightarrow> backend_reply \<Rightarrow> bool" where
  "backend_failed env reply =
     (case reply of
        PostRaised msg \<Rightarrow> True
      | Response status body \<Rightarrow>
          status \<noteq> 200 \<or>
          (case body of
             BodyNotJson msg \<Rightarrow> True
           | BodyJson j \<Rightarrow>
               (case response_text j of
                  Inl e \<Rightarrow> True
                | Inr t \<Rightarrow>
                    (case json_loads env (extract_json_text t) of
                       Inl msg \<Rightarrow> True
                     | Inr decision \<Rightarrow> False))))"

subsection \<open>Example inputs\<close>

text \<open>
  An allocation over two tickers, one of which has a profile, and a backend that answers
  with the action \<open>keep\<close> and a new allocation of its own.
\<close>

definition example_allocation :: "(string \<times> rat) list" where
  "example_allocation = [(''AAPL'', 60), (''MSFT'', 40)]"

definition example_embeddings :: "string \<rightharpoonup> json" where
  "example_embeddings = [''AAPL'' \<mapsto> JObj [(''company_name'', JStr ''Apple Inc.'')]]"

definition keep_response_text :: string where
  \<open>keep_response_text =
     ''{"action": "keep", "reasoning": "Stable outlook", "new_allocation": {"AAPL": 50, "MSFT": 50}, "confidence": 0.9}''\<close>

definition keep_decision :: json where
  "keep_decision =
     JObj [(''action'', JStr ''keep''), (''reasoning'', JStr ''Stable outlook''),
           (''new_allocation'', JObj [(''AAPL'', JNum 50), (''MSFT'', JNum 50)]),
           (''confidence'', JNum 0.9)]"

definition adjust_response_text :: string where
  \<open>adjust_response_text =
     ''{"action": "adjust", "reasoning": "Shift to MSFT", "new_allocation": {"AAPL": 30, "MSFT": 70}, "confidence": 0.55}''\<close>

definition adjust_decision :: json where
  "adjust_decision =
     JObj [(''action'', JStr ''adjust''), (''reasoning'', JStr ''Shift to MSFT''),
           (''new_allocation'', JObj [(''AAPL'', JNum 30), (''MSFT'', JNum 70)]),
           (''confidence'', JNum 0.55)]"

definition example_env :: refine_env where
  "example_env =
     \<lparr>json_loads = (\<lambda>t. if t = keep_response_text then Inr keep_decision
                          else if t = adjust_response_text then Inr adjust_decision
                          else Inl ''Expecting value: line 1 column 1 (char 0)''),
      format_number = (\<lambda>x. show_nat (nat \<lfloor>x\<rfloor>)),
      clock = ''2026-02-05T09:00:00''\<rparr>"

definition keep_reply :: backend_reply where
  "keep_reply =
     Response 200 (BodyJson (JObj [(''model'', JStr ''llama3.1:8b''),
                                   (''response'', JStr keep_response_text)]))"


definition empty_world :: refine_world where
  "empty_world = \<lparr>posts = [], refined_log = []\<rparr>"

section \<open>The two callers of the refinement engine\<close>

subsection \<open>The modules of the repository\<close>




subsection \<open>\<open>run_both_phases\<close> (two\_phase\_strategy.py)\<close>

text \<open>
  One entry of what \<open>run_phase1\<close> returns for a sector: the sentiment, the stance, the
  allocation (ticker to percentage) and the reasoning.
\<close>

record phase1_entry =
  p1_sentiment :: rat
  p1_stance :: string
  p1_allocation :: "(string \<times> rat) list"
  p1_reasoning :: string










subsection \<open>\<open>run_phase2_refinement\<close> (ollama\_portfolio\_v2.py)\<close>


text \<open>
  The assets of a Phase-1 result. Anything but a list of dictionaries that is not empty
  ends the function with the Phase-1 result as it is: an empty list by the early return,
  the rest by the exception handler.
\<close>

fun as_dicts :: "json list \<Rightarrow> dict list option" where
  "as_dicts [] = Some []"
| "as_dicts (JObj kvs # rest) = map_option ((#) kvs) (as_dicts rest)"
| "as_dicts (x # rest) = None"








subsection \<open>Example inputs\<close>

text \<open>
  The Phase-1 allocation of a sector as each of the two callers holds it, and the state
  with no configuration file, so that the threshold is the default 0.6.
\<close>


definition example_phase1_results :: "(string \<times> phase1_entry) list" where
  "example_phase1_results =
     [(''XLK'', \<lparr>p1_sentiment = 0.5, p1_stance = ''aggressive'',
                 p1_allocation = example_allocation, p1_reasoning = ''Strong sentiment''\<rparr>)]"



section \<open>Phase-1 selection (ollama\_portfolio.py, ollama\_portfolio\_v2.py)\<close>

text \<open>A candidate asset of a sector, from \<open>sector_assets.json\<close>.\<close>

record stock =
  s_ticker :: string
  s_name :: string

text \<open>
  \<open>re.search(r'\{[\s\S]*\}', response)\<close>: the match runs from the first opening brace to
  the last closing brace after it.
\<close>

definition json_match :: "string \<Rightarrow> string option" where
  "json_match response =
     (let from_brace = dropWhile (\<lambda>c. c \<noteq> CHR ''{'') response;
          matched = rev (dropWhile (\<lambda>c. c \<noteq> CHR ''}'') (rev from_brace))
      in if matched = [] then None else Some matched)"

text \<open>\<open>str.upper\<close> on ASCII letters.\<close>

definition upper_char :: "char \<Rightarrow> char" where
  "upper_char c =
     (let n = (of_char c :: nat) in if 97 \<le> n \<and> n \<le> 122 then char_of (n - 32) else c)"

definition upper :: "string \<Rightarrow> string" where
  "upper s = map upper_char s"

text \<open>
  The elements of \<open>selected\<close> as the generator expressions go through them: a list of
  dictionaries (an empty string or dictionary has no element); anything else raises.
\<close>

definition selected_list :: "json \<Rightarrow> error + dict list" where
  "selected_list selected =
     (case selected of
        JArr xs \<Rightarrow>
          (case as_dicts xs of
             Some ds \<Rightarrow> Inr ds
           | None \<Rightarrow> Inl (AttributeError ''object has no attribute 'get' ''))
      | JStr s \<Rightarrow> if s = [] then Inr [] else Inl (AttributeError ''object has no attribute 'get' '')
      | JObj kvs \<Rightarrow> if kvs = [] then Inr [] else Inl (AttributeError ''object has no attribute 'get' '')
      | _ \<Rightarrow> Inl (TypeError ''object is not iterable''))"

text \<open>
  The loop that divides every weight by the total and sets the amount; \<open>asset['weight']\<close>
  and \<open>asset['amount']\<close> are assignments into the asset's dictionary.
\<close>

fun normalize_assets :: "rat \<Rightarrow> rat \<Rightarrow> dict list \<Rightarrow> error + dict list" where
  "normalize_assets total_weight budget [] = Inr []"
| "normalize_assets total_weight budget (asset # rest) =
     (case py_number (dict_get_default asset ''weight'' (JNum 0)) of
        None \<Rightarrow> Inl (TypeError ''unsupported operand type(s) for /'')
      | Some w \<Rightarrow>
          (let asset1 = dict_set asset ''weight'' (JNum (w / total_weight));
               asset2 = dict_set asset1 ''amount'' (JNum (py_round (w / total_weight * budget) 2))
           in case normalize_assets total_weight budget rest of
                Inl e \<Rightarrow> Inl e
              | Inr assets \<Rightarrow> Inr (asset2 # assets)))"

text \<open>
  \<open>[a for a in selected if a.get('ticker') in valid_tickers]\<close>: a ticker that is a list
  or a dictionary cannot be hashed.
\<close>

fun filter_valid :: "string list \<Rightarrow> dict list \<Rightarrow> error + dict list" where
  "filter_valid valid_tickers [] = Inr []"
| "filter_valid valid_tickers (asset # rest) =
     (case dict_get_default asset ''ticker'' JNull of
        JArr xs \<Rightarrow> Inl (TypeError ''unhashable type: 'list' '')
      | JObj kvs \<Rightarrow> Inl (TypeError ''unhashable type: 'dict' '')
      | ticker \<Rightarrow>
          (case filter_valid valid_tickers rest of
             Inl e \<Rightarrow> Inl e
           | Inr assets \<Rightarrow>
               Inr (if (\<exists>t \<in> set valid_tickers. ticker = JStr t) then asset # assets else assets)))"

text \<open>
  What both versions do with the decoded object: sum the weights, normalise when the sum
  is positive, then keep the assets whose ticker is a candidate.
\<close>

definition structured_assets :: "stock list \<Rightarrow> rat \<Rightarrow> json \<Rightarrow> error + dict list" where
  "structured_assets available_stocks budget data =
     (case data of
        JObj obj \<Rightarrow>
          (case selected_list (dict_get_default obj ''selected_assets'' (JArr [])) of
             Inl e \<Rightarrow> Inl e
           | Inr selected \<Rightarrow>
               (case sum_values 0 (map (\<lambda>a. dict_get_default a ''weight'' (JNum 0)) selected) of
                  Inl e \<Rightarrow> Inl e
                | Inr total_weight \<Rightarrow>
                    (case (if 0 < total_weight then normalize_assets total_weight budget selected
                           else Inr selected) of
                       Inl e \<Rightarrow> Inl e
                     | Inr selected1 \<Rightarrow>
                         filter_valid (map s_ticker available_stocks) selected1)))
      | _ \<Rightarrow> Inl (AttributeError ''object has no attribute 'get' ''))"

text \<open>
  The lenient fallback: the candidate tickers that occur in the upper-cased response,
  the first five of them with the weight \<open>1.0 / len(mentioned)\<close>. The candidates are
  gone through as a set, in an order of Python's choosing; the model takes the order of
  the catalogue, without repetitions.
\<close>

definition mentioned_tickers :: "stock list \<Rightarrow> string \<Rightarrow> string list" where
  "mentioned_tickers available_stocks response =
     filter (\<lambda>t. contains (upper response) t) (remdups (map s_ticker available_stocks))"

definition fallback_assets :: "bool \<Rightarrow> stock list \<Rightarrow> rat \<Rightarrow> string \<Rightarrow> dict list option" where
  "fallback_assets with_reason available_stocks budget response =
     (let mentioned = mentioned_tickers available_stocks response
      in if mentioned = [] then None
         else
           (let weight = 1 / of_nat (length mentioned)
            in Some (map (\<lambda>t. [(''ticker'', JStr t), (''weight'', JNum weight),
                                  (''amount'', JNum (py_round (weight * budget) 2))]
                                 @ (if with_reason then [(''reason'', JStr ''mentioned in response'')]
                                    else []))
                       (take 5 mentioned))))"

text \<open>
  \<open>parse_portfolio_response\<close> of ollama\_portfolio.py. Only the \<open>JSONDecodeError\<close> of
  \<open>json.loads\<close> (\<open>loads\<close>, \<open>Inl\<close> its message) leads to the fallback; any other exception
  leaves the function.
\<close>

definition parse_portfolio_response ::
  "(string \<Rightarrow> string + json) \<Rightarrow> string \<Rightarrow> stock list \<Rightarrow> rat \<Rightarrow> error + dict option" where
  "parse_portfolio_response loads response available_stocks budget =
     (let fallback =
        map_option
          (\<lambda>assets. [(''selected_assets'', JArr (map JObj assets)),
                      (''rationale'', JStr ''Extracted from unstructured response''),
                      (''risk_level'', JStr ''medium'')])
          (fallback_assets True available_stocks budget response)
      in case json_match response of
           None \<Rightarrow> Inr fallback
         | Some matched \<Rightarrow>
             (case loads matched of
                Inl msg \<Rightarrow> Inr fallback
              | Inr data \<Rightarrow>
                  (case structured_assets available_stocks budget data of
                     Inl e \<Rightarrow> Inl e
                   | Inr selected \<Rightarrow>
                       (case data of
                          JObj obj \<Rightarrow>
                            Inr (Some [(''selected_assets'', JArr (map JObj selected)),
                                       (''rationale'',
                                          dict_get_default obj ''rationale''
                                            (JStr ''No rationale provided'')),
                                       (''risk_level'',
                                          dict_get_default obj ''risk_level'' (JStr ''medium''))])
                        | _ \<Rightarrow> Inl (AttributeError ''object has no attribute 'get' '')))))"

text \<open>
  The parsing inside \<open>select_assets\<close> of ollama\_portfolio\_v2.py, on the text of the
  response. Its bare \<open>except\<close> sends every exception of the structured path to the
  fallback.
\<close>

definition select_assets_v2_parse ::
  "(string \<Rightarrow> string + json) \<Rightarrow> string \<Rightarrow> rat \<Rightarrow> string \<Rightarrow> stock list \<Rightarrow> rat \<Rightarrow> dict option" where
  "select_assets_v2_parse loads sector sentiment response stocks budget =
     (let fallback =
        map_option
          (\<lambda>assets. [(''sector'', JStr sector), (''sentiment'', JNum sentiment),
                      (''selected_assets'', JArr (map JObj assets)),
                      (''rationale'', JStr ''Extracted from response''),
                      (''risk_level'', JStr ''medium''), (''phase'', JNum 1)])
          (fallback_assets False stocks budget response)
      in case json_match response of
           None \<Rightarrow> fallback
         | Some matched \<Rightarrow>
             (case loads matched of
                Inl msg \<Rightarrow> fallback
              | Inr data \<Rightarrow>
                  (case structured_assets stocks budget data of
                     Inl e \<Rightarrow> fallback
                   | Inr selected \<Rightarrow>
                       (case data of
                          JObj obj \<Rightarrow>
                            Some [(''sector'', JStr sector), (''sentiment'', JNum sentiment),
                                  (''selected_assets'', JArr (map JObj selected)),
                                  (''rationale'', dict_get_default obj ''rationale'' (JStr ''N/A'')),
                                  (''risk_level'',
                                     dict_get_default obj ''risk_level'' (JStr ''medium'')),
                                  (''phase'', JNum 1)]
                        | _ \<Rightarrow> fallback))))"

text \<open>The weights of a list of assets.\<close>

definition asset_weights :: "dict list \<Rightarrow> rat list" where
  "asset_weights assets =
     map (\<lambda>a. case py_number (dict_get_default a ''weight'' (JNum 0)) of Some w \<Rightarrow> w | None \<Rightarrow> 0) assets"

subsection \<open>Example inputs\<close>

text \<open>
  A response that selects a candidate and a ticker that is no candidate, half each; and a
  response in prose that mentions six candidates.
\<close>

definition two_stocks :: "stock list" where
  "two_stocks = [\<lparr>s_ticker = ''AAPL'', s_name = ''Apple''\<rparr>, \<lparr>s_ticker = ''MSFT'', s_name = ''Microsoft''\<rparr>]"

definition half_invalid_text :: string where
  \<open>half_invalid_text =
     ''{"selected_assets": [{"ticker": "AAPL", "weight": 0.5}, {"ticker": "ZZZZ", "weight": 0.5}], "rationale": "Split"}''\<close>

definition half_invalid_data :: json where
  "half_invalid_data =
     JObj [(''selected_assets'',
              JArr [JObj [(''ticker'', JStr ''AAPL''), (''weight'', JNum 0.5)],
                    JObj [(''ticker'', JStr ''ZZZZ''), (''weight'', JNum 0.5)]]),
           (''rationale'', JStr ''Split'')]"

definition example_loads :: "string \<Rightarrow> string + json" where
  "example_loads t =
     (if t = half_invalid_text then Inr half_invalid_data
      else Inl ''Expecting value: line 1 column 1 (char 0)'')"

definition six_stocks :: "stock list" where
  "six_stocks =
     [\<lparr>s_ticker = ''AAPL'', s_name = ''Apple''\<rparr>, \<lparr>s_ticker = ''MSFT'', s_name = ''Microsoft''\<rparr>,
      \<lparr>s_ticker = ''NVDA'', s_name = ''Nvidia''\<rparr>, \<lparr>s_ticker = ''GOOGL'', s_name = ''Alphabet''\<rparr>,
      \<lparr>s_ticker = ''META'', s_name = ''Meta''\<rparr>, \<lparr>s_ticker = ''ORCL'', s_name = ''Oracle''\<rparr>]"

definition prose_text :: string where
  "prose_text = ''Buy AAPL, MSFT, NVDA, GOOGL, META and ORCL.''"

section \<open>Sentiment aggregation (harvester.py, llm\_sentiment.py)\<close>

text \<open>
  A sector of \<open>news_sources.json\<close> (\<open>us_sectors\<close>), and the dictionary of the sectors in
  the order of the file. A headline is the dictionary that the harvester builds: the title
  and the source are always there, \<open>sectors\<close> and \<open>sentiment\<close> from the moment they are
  assigned. Titles are read as ASCII text.
\<close>

record sector_info =
  sector_name :: string
  sector_keywords :: "string list"

type_synonym sector_config = "(string \<times> sector_info) list"

record headline =
  h_title :: string
  h_source :: string
  h_sectors :: "string list option"
  h_sentiment :: "rat option"
  llm_analyzed :: bool

text \<open>\<open>str.lower\<close> on ASCII letters.\<close>

definition lower_char :: "char \<Rightarrow> char" where
  "lower_char c =
     (let n = (of_char c :: nat) in if 65 \<le> n \<and> n \<le> 90 then char_of (n + 32) else c)"

definition lower :: "string \<Rightarrow> string" where
  "lower s = map lower_char s"

text \<open>
  \<open>classify_sectors\<close>: the outer loop goes through the sectors with the list \<open>matched\<close>,
  the inner loop stops at the first keyword that occurs in the lower-cased title.
\<close>

fun classify_loop :: "string \<Rightarrow> sector_config \<Rightarrow> string list \<Rightarrow> string list" where
  "classify_loop title_lower [] matched = matched"
| "classify_loop title_lower ((sector_code, info) # rest) matched =
     classify_loop title_lower rest
       (if list_ex (\<lambda>keyword. contains title_lower (lower keyword)) (sector_keywords info)
        then matched @ [sector_code] else matched)"

definition classify_sectors :: "headline \<Rightarrow> sector_config \<Rightarrow> string list" where
  "classify_sectors hl sectors =
     (let title_lower = lower (h_title hl);
          matched = classify_loop title_lower sectors []
      in if matched = [] then [''general''] else matched)"

text \<open>\<open>simple_sentiment\<close>: the four word lists and their loops, then the clamp.\<close>

definition strong_positive :: "string list" where
  "strong_positive =
     [''surge'', ''soar'', ''skyrocket'', ''boom'', ''breakout'', ''record high'',
      ''all-time high'', ''beat expectations'', ''blowout'', ''massive gain'']"

definition positive_words :: "string list" where
  "positive_words =
     [''rise'', ''gain'', ''up'', ''jump'', ''rally'', ''climb'', ''advance'', ''bullish'',
      ''optimistic'', ''growth'', ''profit'', ''beat'', ''upgrade'', ''buy'', ''outperform'',
      ''strong'', ''recovery'', ''expand'', ''success'', ''boost'', ''improve'', ''positive'',
      ''higher'', ''increase'', ''exceed'', ''momentum'', ''breakthrough'', ''innovation'',
      ''deal'', ''partnership'', ''acquisition'', ''launch'', ''stijg'', ''winst'', ''groei'',
      ''positief'']"

definition strong_negative :: "string list" where
  "strong_negative =
     [''crash'', ''plunge'', ''collapse'', ''tank'', ''disaster'', ''crisis'', ''bankruptcy'',
      ''fraud'', ''scandal'', ''all-time low'', ''miss badly'']"

definition negative_words :: "string list" where
  "negative_words =
     [''fall'', ''drop'', ''down'', ''decline'', ''sink'', ''slip'', ''bearish'', ''pessimistic'',
      ''loss'', ''miss'', ''cut'', ''downgrade'', ''sell'', ''underperform'', ''weak'',
      ''warning'', ''risk'', ''fear'', ''concern'', ''worry'', ''threat'', ''layoff'',
      ''recession'', ''inflation'', ''debt'', ''default'', ''lawsuit'', ''investigation'',
      ''probe'', ''lower'', ''decrease'', ''slowdown'', ''delay'', ''daal'', ''verlies'',
      ''negatief'', ''risico'']"

text \<open>
  \<open>for word in ws: if word in text_lower: score += step\<close>, and the same with \<open>-=\<close>; the
  steps are the literals 0.4 and 0.15.
\<close>

definition score_words ::
  "string \<Rightarrow> (rat \<Rightarrow> rat) \<Rightarrow> string list \<Rightarrow> rat \<Rightarrow> rat" where
  "score_words text_lower step ws score =
     foldl (\<lambda>s word. if contains text_lower word then step s else s) score ws"

definition simple_sentiment :: "arith \<Rightarrow> string \<Rightarrow> rat" where
  "simple_sentiment ar t =
     (let text_lower = lower t;
          score0 = score_words text_lower (\<lambda>s. fadd ar s (flit ar (2 / 5))) strong_positive 0;
          score1 = score_words text_lower (\<lambda>s. fadd ar s (flit ar (3 / 20))) positive_words score0;
          score2 = score_words text_lower (\<lambda>s. fsub ar s (flit ar (2 / 5))) strong_negative score1;
          score3 = score_words text_lower (\<lambda>s. fsub ar s (flit ar (3 / 20))) negative_words score2
      in max (min score3 1) (- 1))"

text \<open>
  \<open>sector_data\<close>: for a sector code the headlines and the scores collected so far, a
  dictionary in insertion order. \<open>append_score\<close> is the body of
  \<open>if sector in sector_data: ...append(hl); ...append(sentiment)\<close>: nothing happens for a
  code that is no key.
\<close>

record sector_entry =
  sd_headlines :: "headline list"
  sd_scores :: "rat list"

type_synonym sector_data = "(string \<times> sector_entry) list"

definition empty_entry :: sector_entry where
  "empty_entry = \<lparr>sd_headlines = [], sd_scores = []\<rparr>"

fun append_score :: "sector_data \<Rightarrow> string \<Rightarrow> headline \<Rightarrow> rat \<Rightarrow> sector_data" where
  "append_score [] sector hl s = []"
| "append_score ((code, d) # rest) sector hl s =
     (if code = sector
      then (code, d\<lparr>sd_headlines := sd_headlines d @ [hl], sd_scores := sd_scores d @ [s]\<rparr>) # rest
      else (code, d) # append_score rest sector hl s)"

text \<open>\<open>hl.get('sectors', ['general'])\<close> and \<open>h.get('sentiment', 0)\<close>.\<close>

definition sectors_or_general :: "headline \<Rightarrow> string list" where
  "sectors_or_general hl = (case h_sectors hl of Some ss \<Rightarrow> ss | None \<Rightarrow> [''general''])"

definition sentiment_or_zero :: "headline \<Rightarrow> rat" where
  "sentiment_or_zero hl = (case h_sentiment hl of Some s \<Rightarrow> s | None \<Rightarrow> 0)"

text \<open>
  The first loop of \<open>aggregate_sentiment\<close>. The headline receives its rounded sentiment
  before it is appended, and the score that is appended is the one before rounding. The
  loop returns the headlines as it leaves them, and the sector data.
\<close>

definition score_headline ::
  "arith \<Rightarrow> sector_data \<Rightarrow> headline \<Rightarrow> headline \<times> sector_data" where
  "score_headline ar sector_data hl =
     (let sentiment = simple_sentiment ar (h_title hl);
          hl1 = hl\<lparr>h_sentiment := Some (fround ar sentiment 2)\<rparr>
      in (hl1,
          foldl (\<lambda>data sector. append_score data sector hl1 sentiment) sector_data
            (sectors_or_general hl1)))"

fun aggregate_loop ::
  "arith \<Rightarrow> headline list \<Rightarrow> sector_data \<Rightarrow> headline list \<times> sector_data" where
  "aggregate_loop ar [] sector_data = ([], sector_data)"
| "aggregate_loop ar (hl # rest) sector_data =
     (let (hl1, data1) = score_headline ar sector_data hl;
          (rest1, data2) = aggregate_loop ar rest data1
      in (hl1 # rest1, data2))"

text \<open>
  The entry of \<open>results\<close> for a sector with at least one score. In the second loop every
  headline carries a sentiment (the first loop has set it).
\<close>

record sector_summary =
  r_score :: rat
  r_count :: nat
  r_signal :: string

record sector_result = sector_summary +
  r_top_positive :: "string list"
  r_top_negative :: "string list"

definition sector_result_of :: "arith \<Rightarrow> sector_entry \<Rightarrow> sector_result" where
  "sector_result_of ar d =
     (let avg = fdiv ar (fsum ar (sd_scores d)) (of_nat (length (sd_scores d)));
          top_headlines = take 5 (sorted_reverse (\<lambda>x. \<bar>sentiment_or_zero x\<bar>) (sd_headlines d))
      in \<lparr>r_score = fround ar avg 3,
          r_count = length (sd_scores d),
          r_signal = (if avg > 1 / 4 then ''BUY'' else if avg < - (1 / 4) then ''SELL'' else ''HOLD''),
          r_top_positive =
            take 2 (map (\<lambda>h. take 80 (h_title h))
                      (filter (\<lambda>h. sentiment_or_zero h > 0) top_headlines)),
          r_top_negative =
            take 2 (map (\<lambda>h. take 80 (h_title h))
                      (filter (\<lambda>h. sentiment_or_zero h < 0) top_headlines))\<rparr>)"

definition aggregate_results :: "arith \<Rightarrow> sector_data \<Rightarrow> (string \<times> sector_result) list" where
  "aggregate_results ar sector_data =
     List.map_filter
       (\<lambda>(sector, d). if sd_scores d \<noteq> [] then Some (sector, sector_result_of ar d) else None)
       sector_data"

text \<open>
  The sector data at the start: an empty entry for every code of the configuration, and
  one for \<open>general\<close> (the assignment replaces the entry of a sector of that name).
\<close>

definition initial_sector_data :: "sector_config \<Rightarrow> sector_data" where
  "initial_sector_data sectors =
     dict_set (map (\<lambda>code. (code, empty_entry)) (map fst sectors)) ''general'' empty_entry"

definition aggregate_sentiment ::
  "arith \<Rightarrow> headline list \<Rightarrow> sector_config \<Rightarrow> headline list \<times> (string \<times> sector_result) list" where
  "aggregate_sentiment ar headlines sectors =
     (let (headlines1, sector_data) = aggregate_loop ar headlines (initial_sector_data sectors)
      in (headlines1, aggregate_results ar sector_data))"

text \<open>
  The two steps of \<open>harvest_all\<close> that produce \<open>sector_sentiment\<close>: every headline is
  classified, then the sentiment is aggregated over the same sectors.
\<close>

definition classify_all :: "headline list \<Rightarrow> sector_config \<Rightarrow> headline list" where
  "classify_all unique_headlines sectors =
     map (\<lambda>hl. hl\<lparr>h_sectors := Some (classify_sectors hl sectors)\<rparr>) unique_headlines"

definition harvest_sentiment ::
  "arith \<Rightarrow> headline list \<Rightarrow> sector_config \<Rightarrow> headline list \<times> (string \<times> sector_result) list" where
  "harvest_sentiment ar unique_headlines sectors =
     aggregate_sentiment ar (classify_all unique_headlines sectors) sectors"

subsection \<open>\<open>save_llm_results\<close> (llm\_sentiment.py)\<close>

text \<open>
  Here the sentiment and the sectors of a headline are what the results of the analysis
  say, and these come from outside: they are JSON values of any kind, and so are the
  headlines of the harvest file once such results have been stored in them. What a
  \<open>for\<close> loop goes through: the elements of a list, the characters of a string, the keys
  of a dictionary; nothing else can be iterated.
\<close>

definition iter_json :: "json \<Rightarrow> error + json list" where
  "iter_json v =
     (case v of
        JArr xs \<Rightarrow> Inr xs
      | JStr s \<Rightarrow> Inr (map (\<lambda>c. JStr [c]) s)
      | JObj kvs \<Rightarrow> Inr (map (\<lambda>(k, x). JStr k) kvs)
      | _ \<Rightarrow> Inl (TypeError ''object is not iterable''))"

text \<open>
  Keys of a dictionary: a list or a dictionary cannot be one, and \<open>True\<close> and \<open>False\<close> are
  the same keys as 1 and 0.
\<close>

definition hashable :: "json \<Rightarrow> bool" where
  "hashable v = (case v of JArr xs \<Rightarrow> False | JObj kvs \<Rightarrow> False | _ \<Rightarrow> True)"

definition py_key :: "json \<Rightarrow> json" where
  "py_key v = (case v of JBool b \<Rightarrow> JNum (if b then 1 else 0) | _ \<Rightarrow> v)"

text \<open>
  \<open>x[:50]\<close> as the key of a dictionary: \<open>x\<close> has to be a string. The slice of a list is
  a list, which cannot be hashed; a number, a boolean and \<open>None\<close> cannot be subscripted; a
  dictionary raises on the slice as its key (a \<open>TypeError\<close> up to Python 3.11, a
  \<open>KeyError\<close> from 3.12 on; the model takes the first).
\<close>

definition title_key :: "json \<Rightarrow> error + string" where
  "title_key v =
     (case v of
        JStr s \<Rightarrow> Inr (take 50 s)
      | JArr xs \<Rightarrow> Inl (TypeError ''unhashable type: list'')
      | _ \<Rightarrow> Inl (TypeError ''object is not subscriptable''))"

text \<open>
  \<open>{r.get('title', '')[:50]: r for r in results}\<close>: a later result with the same key
  replaces an earlier one.
\<close>

fun title_to_result :: "json list \<Rightarrow> (string \<times> dict) list \<Rightarrow> error + (string \<times> dict) list" where
  "title_to_result [] lookup = Inr lookup"
| "title_to_result (r # rest) lookup =
     (case r of
        JObj kvs \<Rightarrow>
          (case title_key (dict_get_default kvs ''title'' (JStr [])) of
             Inl e \<Rightarrow> Inl e
           | Inr key \<Rightarrow> title_to_result rest (dict_set lookup key kvs))
      | _ \<Rightarrow> Inl (AttributeError ''object has no attribute get''))"

text \<open>The loop that stores the results in the headlines and counts the updates.\<close>

definition update_headline :: "dict \<Rightarrow> dict \<Rightarrow> dict" where
  "update_headline r h =
     dict_set
       (dict_set
          (dict_set h ''sentiment''
             (dict_get_default r ''sentiment'' (dict_get_default h ''sentiment'' (JNum 0))))
          ''sectors''
          (dict_get_default r ''sectors'' (dict_get_default h ''sectors'' (JArr [JStr ''general'']))))
       ''llm_analyzed'' (JBool True)"

fun update_headlines :: "(string \<times> dict) list \<Rightarrow> json list \<Rightarrow> error + dict list \<times> nat" where
  "update_headlines lookup [] = Inr ([], 0)"
| "update_headlines lookup (h # rest) =
     (case h of
        JObj kvs \<Rightarrow>
          (case title_key (dict_get_default kvs ''title'' (JStr [])) of
             Inl e \<Rightarrow> Inl e
           | Inr key \<Rightarrow>
               (case update_headlines lookup rest of
                  Inl e \<Rightarrow> Inl e
                | Inr (hs, updated) \<Rightarrow>
                    (case map_of lookup key of
                       None \<Rightarrow> Inr (kvs # hs, updated)
                     | Some r \<Rightarrow> Inr (update_headline r kvs # hs, updated + 1))))
      | _ \<Rightarrow> Inl (AttributeError ''object has no attribute get''))"

text \<open>
  The recalculation (lines 78 to 97). \<open>sector_scores\<close> is a dictionary in insertion order
  whose keys are the sectors named by the headlines; \<open>add_score\<close> creates the entry of a
  sector that is not yet a key and appends to it.
\<close>

record json_entry =
  je_scores :: "json list"
  je_headlines :: "dict list"

type_synonym json_data = "(json \<times> json_entry) list"

fun add_score :: "json_data \<Rightarrow> json \<Rightarrow> json \<Rightarrow> dict \<Rightarrow> json_data" where
  "add_score [] sector sent h = [(sector, \<lparr>je_scores = [sent], je_headlines = [h]\<rparr>)]"
| "add_score ((k, d) # rest) sector sent h =
     (if py_key k = py_key sector
      then (k, d\<lparr>je_scores := je_scores d @ [sent], je_headlines := je_headlines d @ [h]\<rparr>) # rest
      else (k, d) # add_score rest sector sent h)"

fun add_scores :: "json_data \<Rightarrow> json list \<Rightarrow> json \<Rightarrow> dict \<Rightarrow> error + json_data" where
  "add_scores data [] sent h = Inr data"
| "add_scores data (sector # rest) sent h =
     (if hashable sector then add_scores (add_score data sector sent h) rest sent h
      else Inl (TypeError ''unhashable type''))"

fun recalculate_loop :: "dict list \<Rightarrow> json_data \<Rightarrow> error + json_data" where
  "recalculate_loop [] data = Inr data"
| "recalculate_loop (h # rest) data =
     (let sent = dict_get_default h ''sentiment'' (JNum 0)
      in case iter_json (dict_get_default h ''sectors'' (JArr [JStr ''general''])) of
           Inl e \<Rightarrow> Inl e
         | Inr sectors \<Rightarrow>
             (case add_scores data sectors sent h of
                Inl e \<Rightarrow> Inl e
              | Inr data1 \<Rightarrow> recalculate_loop rest data1))"

text \<open>
  The aggregation: \<open>sum\<close> raises on a score that is no number (a boolean counts as 1 or
  0).
\<close>

fun aggregate_scores :: "arith \<Rightarrow> json_data \<Rightarrow> error + (json \<times> sector_summary) list" where
  "aggregate_scores ar [] = Inr []"
| "aggregate_scores ar ((sector, d) # rest) =
     (if je_scores d = [] then aggregate_scores ar rest
      else
        (case those (map py_number (je_scores d)) of
           None \<Rightarrow> Inl (TypeError ''unsupported operand type(s) for +'')
         | Some scores \<Rightarrow>
             (let avg = fdiv ar (fsum ar scores) (of_nat (length scores))
              in case aggregate_scores ar rest of
                   Inl e \<Rightarrow> Inl e
                 | Inr out \<Rightarrow>
                     Inr ((sector,
                           \<lparr>r_score = fround ar avg 3,
                            r_count = length scores,
                            r_signal = (if avg > 1 / 4 then ''BUY''
                                        else if avg < - (1 / 4) then ''SELL'' else ''HOLD'')\<rparr>)
                          # out))))"

definition recalculate_sector_sentiment ::
  "arith \<Rightarrow> dict list \<Rightarrow> error + (json \<times> sector_summary) list" where
  "recalculate_sector_sentiment ar headlines =
     (case recalculate_loop headlines [] of
        Inl e \<Rightarrow> Inl e
      | Inr sector_scores \<Rightarrow> aggregate_scores ar sector_scores)"

text \<open>
  \<open>save_llm_results\<close>, on the harvest that it has read from the file. It writes the
  file at its end, so an exception leaves the file as it was. It gives back the headlines
  and the sector sentiment that it writes, and the number of updated headlines that it
  returns.
\<close>

definition save_llm_results ::
  "arith \<Rightarrow> json list \<Rightarrow> dict \<Rightarrow> error + dict list \<times> (json \<times> sector_summary) list \<times> nat" where
  "save_llm_results ar results harvest =
     (case title_to_result results [] of
        Inl e \<Rightarrow> Inl e
      | Inr lookup \<Rightarrow>
          (case iter_json (dict_get_default harvest ''headlines'' (JArr [])) of
             Inl e \<Rightarrow> Inl e
           | Inr headlines \<Rightarrow>
               (case update_headlines lookup headlines of
                  Inl e \<Rightarrow> Inl e
                | Inr (headlines1, updated) \<Rightarrow>
                    (case recalculate_sector_sentiment ar headlines1 of
                       Inl e \<Rightarrow> Inl e
                     | Inr sector_sentiment \<Rightarrow> Inr (headlines1, sector_sentiment, updated)))))"

subsection \<open>The aggregation in the words of the specification\<close>

text \<open>
  The sectors whose keyword set matches a title, and the sectors that a title is assigned
  to; the summary of a list of member scores: nothing for no member, otherwise the mean
  rounded to three decimals, the number of members, and the signal by the thresholds
  0.25 and -0.25 on the mean. The mean is the sum divided by the number, in the
  arithmetic given.
\<close>

definition matching_sectors :: "string \<Rightarrow> sector_config \<Rightarrow> string set" where
  "matching_sectors t sectors =
     {code. \<exists>info. (code, info) \<in> set sectors \<and>
                    (\<exists>keyword \<in> set (sector_keywords info). contains (lower t) (lower keyword))}"

definition spec_assigned :: "string \<Rightarrow> sector_config \<Rightarrow> string set" where
  "spec_assigned t sectors =
     (if matching_sectors t sectors = {} then {''general''} else matching_sectors t sectors)"

definition spec_mean :: "arith \<Rightarrow> rat list \<Rightarrow> rat" where
  "spec_mean ar xs = fdiv ar (fsum ar xs) (of_nat (length xs))"

definition spec_signal :: "rat \<Rightarrow> string" where
  "spec_signal mean = (if mean > 1 / 4 then ''BUY'' else if mean < - (1 / 4) then ''SELL'' else ''HOLD'')"

definition spec_summary :: "arith \<Rightarrow> rat list \<Rightarrow> sector_summary option" where
  "spec_summary ar member_scores =
     (if member_scores = [] then None
      else Some \<lparr>r_score = fround ar (spec_mean ar member_scores) 3,
                 r_count = length member_scores,
                 r_signal = spec_signal (spec_mean ar member_scores)\<rparr>)"

text \<open>
  For the stored headlines of \<open>save_llm_results\<close>: the keys of the sectors that a headline
  names, when they can be gone through and hashed; a headline that is well formed names
  each of its sectors once and carries a number as its sentiment; the members of a
  sector; the score of a member; and the entry of a sector in the result.
\<close>

definition sector_keys :: "dict \<Rightarrow> json list option" where
  "sector_keys h =
     (case iter_json (dict_get_default h ''sectors'' (JArr [JStr ''general''])) of
        Inl e \<Rightarrow> None
      | Inr sectors \<Rightarrow> if list_all hashable sectors then Some (map py_key sectors) else None)"

definition stored_sentiment :: "dict \<Rightarrow> json" where
  "stored_sentiment h = dict_get_default h ''sentiment'' (JNum 0)"

definition well_formed :: "dict \<Rightarrow> bool" where
  "well_formed h =
     ((case sector_keys h of Some ks \<Rightarrow> distinct ks | None \<Rightarrow> False) \<and>
      py_number (stored_sentiment h) \<noteq> None)"

definition stored_members :: "json \<Rightarrow> dict list \<Rightarrow> dict list" where
  "stored_members sector headlines =
     filter (\<lambda>h. case sector_keys h of Some ks \<Rightarrow> py_key sector \<in> set ks | None \<Rightarrow> False) headlines"

definition stored_score :: "dict \<Rightarrow> rat" where
  "stored_score h = (case py_number (stored_sentiment h) of Some x \<Rightarrow> x | None \<Rightarrow> 0)"

definition lookup_sector :: "(json \<times> 'a) list \<Rightarrow> json \<Rightarrow> 'a option" where
  "lookup_sector entries sector = map_of (map (\<lambda>(k, v). (py_key k, v)) entries) (py_key sector)"

text \<open>
  The stored headlines on which the recalculation does not raise: the sectors of each can
  be gone through and hashed, and each that names a sector carries a number. And the
  scores that the recalculation averages for a sector: the score of a headline once for
  every time that the headline names the sector.
\<close>

definition recalculable :: "dict \<Rightarrow> bool" where
  "recalculable h =
     (case sector_keys h of
        Some ks \<Rightarrow> ks = [] \<or> py_number (stored_sentiment h) \<noteq> None
      | None \<Rightarrow> False)"

definition named_scores :: "json \<Rightarrow> dict list \<Rightarrow> rat list" where
  "named_scores sector headlines =
     concat (map (\<lambda>h. replicate (count_list (case sector_keys h of Some ks \<Rightarrow> ks | None \<Rightarrow> [])
                                          (py_key sector))
                              (stored_score h))
               headlines)"

subsection \<open>Notions for the proofs\<close>

text \<open>
  An entry with more headlines and scores; what the loops collect for a sector, one item
  for every time a headline names it; and the headline as the first loop of
  \<open>aggregate_sentiment\<close> leaves it.
\<close>

definition bump :: "headline list \<Rightarrow> rat list \<Rightarrow> sector_entry \<Rightarrow> sector_entry" where
  "bump hs ss d = d\<lparr>sd_headlines := sd_headlines d @ hs, sd_scores := sd_scores d @ ss\<rparr>"

definition collected :: "string \<Rightarrow> (headline \<Rightarrow> 'a) \<Rightarrow> headline list \<Rightarrow> 'a list" where
  "collected k f hs = concat (map (\<lambda>h. replicate (count_list (sectors_or_general h) k) (f h)) hs)"

definition scored :: "arith \<Rightarrow> headline \<Rightarrow> headline" where
  "scored ar hl = hl\<lparr>h_sentiment := Some (fround ar (simple_sentiment ar (h_title hl)) 2)\<rparr>"

text \<open>
  The same for \<open>sector_scores\<close>: the dictionary with its keys as they are compared, the
  entry of a key (an empty one if it is no key), an entry with more scores and headlines,
  and what the loop collects for a key.
\<close>

definition normalized :: "(json \<times> 'a) list \<Rightarrow> (json \<times> 'a) list" where
  "normalized entries = map (\<lambda>(k, v). (py_key k, v)) entries"

definition entry_at :: "json_data \<Rightarrow> json \<Rightarrow> json_entry" where
  "entry_at data q =
     (case map_of (normalized data) q of
        Some d \<Rightarrow> d
      | None \<Rightarrow> \<lparr>je_scores = [], je_headlines = []\<rparr>)"

definition json_bump :: "json list \<Rightarrow> dict list \<Rightarrow> json_entry \<Rightarrow> json_entry" where
  "json_bump sents hs d = d\<lparr>je_scores := je_scores d @ sents, je_headlines := je_headlines d @ hs\<rparr>"

definition named :: "json \<Rightarrow> (dict \<Rightarrow> 'a) \<Rightarrow> dict list \<Rightarrow> 'a list" where
  "named q f hs =
     concat (map (\<lambda>h. replicate (count_list (case sector_keys h of Some ks \<Rightarrow> ks | None \<Rightarrow> []) q) (f h))
               hs)"

text \<open>The summary of an entry of \<open>sector_scores\<close> whose scores are numbers.\<close>

definition entry_summary :: "arith \<Rightarrow> json_entry \<Rightarrow> sector_summary option" where
  "entry_summary ar d =
     spec_summary ar (case those (map py_number (je_scores d)) of Some xs \<Rightarrow> xs | None \<Rightarrow> [])"

subsection \<open>Example harvest\<close>

definition example_sectors :: sector_config where
  "example_sectors =
     [(''XLK'', \<lparr>sector_name = ''Technology'', sector_keywords = [''AI'', ''chip'']\<rparr>),
      (''XLE'', \<lparr>sector_name = ''Energy'', sector_keywords = [''oil'', ''OPEC'']\<rparr>)]"

definition new_headline :: "string \<Rightarrow> headline" where
  "new_headline t =
     \<lparr>h_title = t, h_source = ''wire'', h_sectors = None, h_sentiment = None, llm_analyzed = False\<rparr>"

definition example_headlines :: "headline list" where
  "example_headlines =
     [new_headline ''Chip makers surge'',
      new_headline ''Oil and chip stocks rally'',
      new_headline ''Quiet day'']"

text \<open>
  A harvest with three stored headlines, and the result of an analysis for the second of
  them. The sentiments are halves and quarters, so that sums and means are exact in
  floats too.
\<close>

definition example_harvest :: dict where
  "example_harvest =
     [(''headlines'',
         JArr [JObj [(''title'', JStr ''Chip makers surge''), (''sectors'', JArr [JStr ''XLK'']),
                     (''sentiment'', JNum (1 / 2))],
               JObj [(''title'', JStr ''Oil and chip stocks rally''),
                     (''sectors'', JArr [JStr ''XLK'', JStr ''XLE'']), (''sentiment'', JNum (1 / 4))],
               JObj [(''title'', JStr ''Quiet day'')]])]"

definition example_results :: "json list" where
  "example_results =
     [JObj [(''title'', JStr ''Oil and chip stocks rally''), (''sentiment'', JNum (- (1 / 2))),
            (''sectors'', JArr [JStr ''XLE''])]]"

definition example_stored :: "dict list" where
  "example_stored =
     [[(''title'', JStr ''Chip makers surge''), (''sectors'', JArr [JStr ''XLK'']),
       (''sentiment'', JNum (1 / 2))],
      [(''title'', JStr ''Oil and chip stocks rally''), (''sectors'', JArr [JStr ''XLE'']),
       (''sentiment'', JNum (- (1 / 2))), (''llm_analyzed'', JBool True)],
      [(''title'', JStr ''Quiet day'')]]"

text \<open>
  Results of an analysis that name the sector XLK twice for the first headline of the
  example harvest; and results that give a sentiment as a text.
\<close>

definition twice_results :: "json list" where
  "twice_results =
     [JObj [(''title'', JStr ''Chip makers surge''), (''sentiment'', JNum 1),
            (''sectors'', JArr [JStr ''XLK'', JStr ''XLK''])],
      JObj [(''title'', JStr ''Oil and chip stocks rally''), (''sentiment'', JNum (- (1 / 2))),
            (''sectors'', JArr [JStr ''XLK''])]]"

definition text_results :: "json list" where
  "text_results =
     [JObj [(''title'', JStr ''Chip makers surge''), (''sentiment'', JStr ''0.5''),
            (''sectors'', JArr [JStr ''XLK''])]]"

text \<open>The headlines that \<open>save_llm_results\<close> stores for the first of these.\<close>

definition twice_stored :: "dict list" where
  "twice_stored =
     [[(''title'', JStr ''Chip makers surge''), (''sectors'', JArr [JStr ''XLK'', JStr ''XLK'']),
       (''sentiment'', JNum 1), (''llm_analyzed'', JBool True)],
      [(''title'', JStr ''Oil and chip stocks rally''), (''sectors'', JArr [JStr ''XLK'']),
       (''sentiment'', JNum (- (1 / 2))), (''llm_analyzed'', JBool True)],
      [(''title'', JStr ''Quiet day'')]]"

section \<open>Properties of the feedback learner\<close>

subsection \<open>What a run of the pending evaluations does\<close>























subsection \<open>The example files\<close>

lemma example_build:
  "build_evaluation exact_arith example_price_feed (4 * microseconds_per_day) 3 example_decision =
     Some example_record"
  by (simp add: build_evaluation_def example_decision_def example_price_feed_def example_record_def
      normalize_def calculate_portfolio_return_def exact_arith_def py_round_def
      round_half_even_def Let_def)

lemma unpriced_build:
  "build_evaluation ar example_price_feed now days unpriced_decision = None"
  by (simp add: build_evaluation_def unpriced_decision_def example_price_feed_def
      normalize_def calculate_portfolio_return_def Let_def)

lemma example_days: "evaluation_days (load_config ar fs) = 3" if "config_file fs = None"
  using that by (simp add: load_config_def DEFAULT_CONFIG_def)


lemma example_prints: "prints example_decision" "prints unpriced_decision"
  "\<not> prints null_confidence_decision"
  by (simp_all add: prints_def format_percent_def example_decision_def unpriced_decision_def
      null_confidence_decision_def)


lemma null_pending:
  "get_pending_evaluations 3 (4 * microseconds_per_day) null_confidence_log =
     [example_decision, unpriced_decision, null_confidence_decision]"
  by (simp add: get_pending_evaluations_def null_confidence_log_def example_decision_def
      unpriced_decision_def null_confidence_decision_def microseconds_per_day_def Let_def)

lemma null_run:
  "run_evaluations exact_arith example_price_feed (4 * microseconds_per_day) null_confidence_log =
     (Inl (TypeError ''unsupported format string passed to __format__''),
      null_confidence_log\<lparr>evaluations_file := Some [example_record]\<rparr>)"
proof -
  have c: "evaluation_days (load_config exact_arith null_confidence_log) = 3"
    by (rule example_days) (simp add: null_confidence_log_def)
  have f: "format_percent (d_confidence example_decision) = Inr ()"
    "format_percent (d_confidence unpriced_decision) = Inr ()"
    using example_prints by (simp_all add: prints_def)
  have n: "format_percent (d_confidence null_confidence_decision) =
             Inl (TypeError ''unsupported format string passed to __format__'')"
    by (simp add: format_percent_def null_confidence_decision_def)
  show ?thesis
    unfolding run_evaluations_def Let_def c null_pending
    by (simp add: f n evaluate_decision_def example_build unpriced_build
        stored_evaluations_def null_confidence_log_def)
qed

subsection \<open>Evaluating a decision at most once\<close>




subsection \<open>Decisions whose returns are not available\<close>

text \<open>
  Claim C10 fails on a decisions file that the program writes. Three decisions are
  pending: one that can be evaluated, one whose returns are not available, and one that
  was logged with the confidence \<open>null\<close>. The run evaluates the first, gets \<open>None\<close> for
  the second, and raises \<open>TypeError\<close> when it prints the third, before
  \<open>mark_decisions_evaluated\<close>: the decision whose evaluation returned \<open>None\<close> is not flagged.
  A day later all three are pending again, the run raises again, and the first decision
  has a second record.
\<close>

theorem run_evaluations_raises_before_marking:
  "get_pending_evaluations 3 (4 * microseconds_per_day) null_confidence_log =
     [example_decision, unpriced_decision, null_confidence_decision] \<and>
   fst (evaluate_decision exact_arith example_price_feed (4 * microseconds_per_day)
          unpriced_decision 3 null_confidence_log) = None \<and>
   run_evaluations exact_arith example_price_feed (4 * microseconds_per_day) null_confidence_log =
     (Inl (TypeError ''unsupported format string passed to __format__''),
      null_confidence_log\<lparr>evaluations_file := Some [example_record]\<rparr>) \<and>
   stored_decisions (null_confidence_log\<lparr>evaluations_file := Some [example_record]\<rparr>) =
     [example_decision, unpriced_decision, null_confidence_decision] \<and>
   evaluated unpriced_decision = False \<and>
   get_pending_evaluations 3 (5 * microseconds_per_day)
     (null_confidence_log\<lparr>evaluations_file := Some [example_record]\<rparr>) =
     [example_decision, unpriced_decision, null_confidence_decision] \<and>
   run_evaluations exact_arith example_price_feed (5 * microseconds_per_day)
     (null_confidence_log\<lparr>evaluations_file := Some [example_record]\<rparr>) =
     (Inl (TypeError ''unsupported format string passed to __format__''),
      null_confidence_log\<lparr>evaluations_file :=
        Some [example_record, example_record\<lparr>evaluation_timestamp := 5 * microseconds_per_day\<rparr>]\<rparr>)"
proof -
  let ?fs1 = "null_confidence_log\<lparr>evaluations_file := Some [example_record]\<rparr>"
  have p5: "get_pending_evaluations 3 (5 * microseconds_per_day) ?fs1 =
     [example_decision, unpriced_decision, null_confidence_decision]"
    by (simp add: get_pending_evaluations_def null_confidence_log_def example_decision_def
      unpriced_decision_def null_confidence_decision_def microseconds_per_day_def Let_def)
  have b5: "build_evaluation exact_arith example_price_feed (5 * microseconds_per_day) 3 example_decision =
     Some (example_record\<lparr>evaluation_timestamp := 5 * microseconds_per_day\<rparr>)"
    by (simp add: build_evaluation_def example_decision_def example_price_feed_def example_record_def
      normalize_def calculate_portfolio_return_def exact_arith_def py_round_def
      round_half_even_def Let_def)
  have c: "evaluation_days (load_config exact_arith ?fs1) = 3"
    by (rule example_days) (simp add: null_confidence_log_def)
  have f: "format_percent (d_confidence example_decision) = Inr ()"
    "format_percent (d_confidence unpriced_decision) = Inr ()"
    using example_prints by (simp_all add: prints_def)
  have n: "format_percent (d_confidence null_confidence_decision) =
             Inl (TypeError ''unsupported format string passed to __format__'')"
    by (simp add: format_percent_def null_confidence_decision_def)
  have r5: "run_evaluations exact_arith example_price_feed (5 * microseconds_per_day) ?fs1 =
     (Inl (TypeError ''unsupported format string passed to __format__''),
      null_confidence_log\<lparr>evaluations_file :=
        Some [example_record, example_record\<lparr>evaluation_timestamp := 5 * microseconds_per_day\<rparr>]\<rparr>)"
    unfolding run_evaluations_def Let_def c p5
    by (simp add: f n evaluate_decision_def b5 unpriced_build stored_evaluations_def
        null_confidence_log_def)
  have e: "fst (evaluate_decision exact_arith example_price_feed (4 * microseconds_per_day)
          unpriced_decision 3 null_confidence_log) = None"
    by (simp add: evaluate_decision_def unpriced_build)
  have d: "stored_decisions ?fs1 = [example_decision, unpriced_decision, null_confidence_decision]"
    "evaluated unpriced_decision = False"
    by (simp_all add: stored_decisions_def null_confidence_log_def unpriced_decision_def)
  from null_pending e null_run d p5 r5 show ?thesis by blast
qed

subsection \<open>Threshold adaptation\<close>

text \<open>
  Claim C4 fails on an evaluations file that the program writes. The file holds five
  evaluations of applied adjustments, all of which outperformed, with a mean delta of 1,
  and one evaluation of a decision that the threshold gate recorded as \<open>keep_low_conf\<close>.
  There are as many \<open>adjust\<close> evaluations as \<open>min_evaluations_for_learning\<close> asks for, the
  win rate is above 0.6 and the mean delta above 0, yet \<open>learn_from_evaluations\<close> raises
  \<open>KeyError\<close> in \<open>get_performance_stats\<close> and saves no configuration. On the five
  \<open>adjust\<close> evaluations alone it lowers the threshold from 0.6 to 0.55.
\<close>

theorem learn_from_evaluations_unknown_action:
  "learn_from_evaluations ar now low_conf_files = Inl (KeyError ''keep_low_conf'') \<and>
   min_evaluations_for_learning (load_config ar low_conf_files) = 5 \<and>
   length (adjust_evaluations (stored_evaluations low_conf_files)) = 5 \<and>
   list_all outperformed (adjust_evaluations (stored_evaluations low_conf_files)) \<and>
   map delta (adjust_evaluations (stored_evaluations low_conf_files)) = [1, 1, 1, 1, 1] \<and>
   map_sum id (\<lambda>(config, fs). min_confidence_threshold config)
     (learn_from_evaluations exact_arith now
        (low_conf_files\<lparr>evaluations_file :=
           Some (adjust_evaluations (stored_evaluations low_conf_files))\<rparr>)) = Inr (11 / 20)"
proof -
  have r: "replicate 5 x = [x, x, x, x, x]" for x :: evaluation
    by (simp add: numeral_eq_Suc)
  have a: "adjust_evaluations (stored_evaluations low_conf_files) =
             replicate 5 (example_evaluation (JStr ''adjust'') (JNum (3 / 4)) True 1)"
    by (simp add: adjust_evaluations_def stored_evaluations_def low_conf_files_def
        example_evaluation_def r)
  have k: "stats_step ar st (example_evaluation (JStr ''keep_low_conf'') c w d) =
             Inl (KeyError ''keep_low_conf'')" for st c w d
    by (simp add: stats_step_def stats_key_def example_evaluation_def)
  have s: "\<exists>st'. stats_step ar st (example_evaluation (JStr ''adjust'') (JNum c) w d) = Inr st'" for st c w d
    by (simp add: stats_step_def stats_key_def conf_bucket_def example_evaluation_def Let_def)
  have l: "stats_loop ar st (replicate n (example_evaluation (JStr ''adjust'') (JNum c) w d) @
                             [example_evaluation (JStr ''keep_low_conf'') c' w' d']) =
             Inl (KeyError ''keep_low_conf'')" for st n c w d c' w' d'
  proof (induction n arbitrary: st)
    case 0
    show ?case by (simp add: k)
  next
    case (Suc n)
    from s[of st c w d] obtain st' where "stats_step ar st (example_evaluation (JStr ''adjust'') (JNum c) w d) = Inr st'"
      by blast
    then show ?case by (simp add: Suc)
  qed
  have 1: "learn_from_evaluations ar now low_conf_files = Inl (KeyError ''keep_low_conf'')"
    by (simp add: learn_from_evaluations_def get_performance_stats_def low_conf_files_def l Let_def)
  have 2: "min_evaluations_for_learning (load_config ar low_conf_files) = 5"
    by (simp add: load_config_def low_conf_files_def DEFAULT_CONFIG_def)
  have 3: "length (adjust_evaluations (stored_evaluations low_conf_files)) = 5"
    "list_all outperformed (adjust_evaluations (stored_evaluations low_conf_files))"
    "map delta (adjust_evaluations (stored_evaluations low_conf_files)) = [1, 1, 1, 1, 1]"
    unfolding a r by (simp_all add: example_evaluation_def)
  have 4: "map_sum id (\<lambda>(config, fs). min_confidence_threshold config)
     (learn_from_evaluations exact_arith now
        (low_conf_files\<lparr>evaluations_file :=
           Some (adjust_evaluations (stored_evaluations low_conf_files))\<rparr>)) = Inr (11 / 20)"
    unfolding a r
    by (simp add: learn_from_evaluations_def get_performance_stats_def low_conf_files_def Let_def
        load_config_def DEFAULT_CONFIG_def exact_arith_def stats_step_def stats_key_def
        conf_bucket_def example_evaluation_def tally_def tally_bucket_def empty_stats_def
        empty_action_stats_def empty_bucket_def averages_def get_win_rate_def save_config_def)
  from 1 2 3 4 show ?thesis by blast
qed

section \<open>Properties of the learning model\<close>

subsection \<open>The two loops, sector by sector\<close>

lemma daily_update_multiplier:
  "sentiment_multiplier (daily_update sens correct) =
     (if correct then min 2 (sentiment_multiplier sens * 1.02)
      else max 0.5 (sentiment_multiplier sens * 0.98))"
  by (simp add: daily_update_def Let_def)

lemma weekly_update_multiplier:
  "sentiment_multiplier (weekly_update sens correct) =
     (if correct then min 2 (sentiment_multiplier sens * 1.05)
      else max 0.5 (sentiment_multiplier sens * 0.95))"
  by (simp add: weekly_update_def Let_def)

lemma daily_update_range:
  assumes "0.5 \<le> sentiment_multiplier sens" "sentiment_multiplier sens \<le> 2"
  shows "0.5 \<le> sentiment_multiplier (daily_update sens correct) \<and>
         sentiment_multiplier (daily_update sens correct) \<le> 2"
  using assms by (auto simp: daily_update_multiplier min_def max_def)

lemma weekly_update_range:
  assumes "0.5 \<le> sentiment_multiplier sens" "sentiment_multiplier sens \<le> 2"
  shows "0.5 \<le> sentiment_multiplier (weekly_update sens correct) \<and>
         sentiment_multiplier (weekly_update sens correct) \<le> 2"
  using assms by (auto simp: weekly_update_multiplier min_def max_def)

lemma classify_prediction_correct:
  "classify_prediction predicted actual \<noteq> Wrong \<longleftrightarrow>
     (0.1 < predicted \<and> 0 < actual) \<or> (predicted < - 0.1 \<and> actual < 0) \<or>
     (\<bar>predicted\<bar> \<le> 0.1 \<and> \<bar>actual\<bar> \<le> 1)"
  by (simp add: classify_prediction_def)

lemma daily_step_other:
  "sector \<noteq> fst item \<Longrightarrow>
   sector_sensitivity (daily_sector_step price_changes st item) sector = sector_sensitivity st sector"
  by (cases item) (simp add: daily_sector_step_def Let_def split: option.splits)

lemma daily_loop_other:
  "sector \<notin> fst ` set items \<Longrightarrow>
   sector_sensitivity (foldl (daily_sector_step price_changes) st items) sector
     = sector_sensitivity st sector"
proof (induction items arbitrary: st)
  case Nil
  then show ?case by simp
next
  case (Cons item items)
  then show ?case using daily_step_other[of sector item price_changes st] by auto
qed

lemma daily_step_entry:
  "price_changes sector = Some actual \<Longrightarrow>
   sector_sensitivity (daily_sector_step price_changes st (sector, predicted)) sector
     = Some (daily_update (sensitivity_or_default (sector_sensitivity st) sector)
              (classify_prediction predicted actual \<noteq> Wrong))"
  by (simp add: daily_sector_step_def Let_def sensitivity_or_default_def)

lemma daily_loop_entry:
  assumes "distinct (map fst items)" and "(sector, predicted) \<in> set items"
    and "price_changes sector = Some actual"
  shows "sector_sensitivity (foldl (daily_sector_step price_changes) st items) sector
     = Some (daily_update (sensitivity_or_default (sector_sensitivity st) sector)
              (classify_prediction predicted actual \<noteq> Wrong))"
  using assms(1,2)
proof (induction items arbitrary: st)
  case Nil
  then show ?case by simp
next
  case (Cons item items)
  show ?case
  proof (cases "item = (sector, predicted)")
    case True
    then have "sector \<notin> fst ` set items" using Cons.prems(1) by auto
    then show ?thesis
      using True daily_loop_other[of sector items price_changes]
        daily_step_entry[of price_changes sector actual st predicted, OF assms(3)]
      by simp
  next
    case False
    then have in_rest: "(sector, predicted) \<in> set items" using Cons.prems(2) by simp
    then have "sector \<in> fst ` set items" by force
    moreover have "fst item \<notin> fst ` set items" using Cons.prems(1) by simp
    ultimately have ne: "sector \<noteq> fst item" by blast
    have "distinct (map fst items)" using Cons.prems(1) by simp
    from Cons.IH[OF this in_rest, of "daily_sector_step price_changes st item"]
    show ?thesis
      using daily_step_other[OF ne, of price_changes st]
      by (simp add: sensitivity_or_default_def)
  qed
qed

lemma default_in_range:
  "0.5 \<le> sentiment_multiplier default_sensitivity \<and> sentiment_multiplier default_sensitivity \<le> 2"
  by (simp add: default_sensitivity_def)

lemma daily_step_range:
  assumes "multipliers_in_range (sector_sensitivity st)"
  shows "multipliers_in_range (sector_sensitivity (daily_sector_step price_changes st item))"
proof (cases item)
  case (Pair sector predicted)
  show ?thesis
  proof (cases "price_changes sector")
    case None
    with Pair assms show ?thesis by (simp add: daily_sector_step_def)
  next
    case (Some actual)
    let ?old = "case sector_sensitivity st sector of Some s \<Rightarrow> s | None \<Rightarrow> default_sensitivity"
    have "0.5 \<le> sentiment_multiplier ?old \<and> sentiment_multiplier ?old \<le> 2"
      using assms default_in_range by (auto simp: multipliers_in_range_def split: option.splits)
    then have "0.5 \<le> sentiment_multiplier (daily_update ?old c) \<and>
               sentiment_multiplier (daily_update ?old c) \<le> 2" for c
      using daily_update_range by blast
    with Pair Some assms show ?thesis
      by (auto simp: daily_sector_step_def Let_def multipliers_in_range_def)
  qed
qed

lemma daily_loop_range:
  "multipliers_in_range (sector_sensitivity st) \<Longrightarrow>
   multipliers_in_range (sector_sensitivity (foldl (daily_sector_step price_changes) st items))"
  by (induction items arbitrary: st) (simp_all add: daily_step_range)

lemma week_loop_other:
  "learn_from_week_loop prev changes sectors model = Inr model' \<Longrightarrow> sector \<notin> set sectors \<Longrightarrow>
   model' sector = model sector"
proof (induction sectors arbitrary: model)
  case Nil
  then show ?case by simp
next
  case (Cons s sectors)
  from Cons.prems obtain sens where m: "model s = Some sens"
    and l: "learn_from_week_loop prev changes sectors
              (model(s \<mapsto> weekly_update sens (week_correct (get_or_zero prev s) (get_or_zero changes s)))) = Inr model'"
    by (auto simp: Let_def split: option.splits)
  from Cons.IH[OF l] Cons.prems(2) show ?case by simp
qed

lemma week_loop_entry:
  assumes "learn_from_week_loop prev changes sectors model = Inr model'"
    and "distinct sectors" and "sector \<in> set sectors"
  shows "\<exists>sens. model sector = Some sens \<and>
           model' sector = Some (weekly_update sens
             (week_correct (get_or_zero prev sector) (get_or_zero changes sector)))"
  using assms
proof (induction sectors arbitrary: model)
  case Nil
  then show ?case by simp
next
  case (Cons s sectors)
  from Cons.prems(1) obtain sens where m: "model s = Some sens"
    and l: "learn_from_week_loop prev changes sectors
              (model(s \<mapsto> weekly_update sens (week_correct (get_or_zero prev s) (get_or_zero changes s)))) = Inr model'"
    by (auto simp: Let_def split: option.splits)
  show ?case
  proof (cases "sector = s")
    case True
    then have "sector \<notin> set sectors" using Cons.prems(2) by simp
    from week_loop_other[OF l this] m True show ?thesis by simp
  next
    case False
    then have "sector \<in> set sectors" using Cons.prems(3) by simp
    from Cons.IH[OF l _ this] Cons.prems(2) False show ?thesis by simp
  qed
qed

lemma week_loop_range:
  "learn_from_week_loop prev changes sectors model = Inr model' \<Longrightarrow>
   multipliers_in_range model \<Longrightarrow> multipliers_in_range model'"
proof (induction sectors arbitrary: model)
  case Nil
  then show ?case by simp
next
  case (Cons s sectors)
  from Cons.prems(1) obtain sens where m: "model s = Some sens"
    and l: "learn_from_week_loop prev changes sectors
              (model(s \<mapsto> weekly_update sens (week_correct (get_or_zero prev s) (get_or_zero changes s)))) = Inr model'"
    by (auto simp: Let_def split: option.splits)
  have "0.5 \<le> sentiment_multiplier sens \<and> sentiment_multiplier sens \<le> 2"
    using m Cons.prems(2) by (simp add: multipliers_in_range_def)
  then have "multipliers_in_range
     (model(s \<mapsto> weekly_update sens (week_correct (get_or_zero prev s) (get_or_zero changes s))))"
    using Cons.prems(2) weekly_update_range[of sens]
    by (auto simp: multipliers_in_range_def)
  from Cons.IH[OF l this] show ?case .
qed

lemma distinct_SECTORS: "distinct SECTORS"
  by (simp add: SECTORS_def)

subsection \<open>The update of a sector's multiplier\<close>

text \<open>
  Claim C5, as stated, fails for the weekly update. \<open>learn_from_week\<close> multiplies by
  1.05 and 0.95, and counts a prediction as correct by the signs alone: for the
  prediction 0.2 and the outcome +1.5 it takes the multiplier from 1 to 1.05, not to
  1.02, and it counts the prediction 0.05 with outcome 2 as correct where the daily rule
  counts it as wrong.
\<close>

theorem learn_from_week_counterexample:
  "map_sum id (\<lambda>m. map_option sentiment_multiplier (m ''XLV''))
     (learn_from_week [''XLV'' \<mapsto> 0.2] [''XLV'' \<mapsto> 1.5] initial_sensitivities)
     = Inr (Some 1.05) \<and>
   (1.05 :: rat) \<noteq> min 2 (sentiment_multiplier default_sensitivity * 1.02) \<and>
   week_correct 0.05 2 \<and> classify_prediction 0.05 2 = Wrong"
  by (simp add: learn_from_week_def SECTORS_def initial_sensitivities_def get_or_zero_def
      week_correct_def weekly_update_def default_sensitivity_def classify_prediction_def Let_def)

text \<open>
  Claim C5, amended. In \<open>daily_learn\<close>, a sector of the sentiment file that has a price
  change is classified as correct iff (predicted > 0.1 and actual > 0) or
  (predicted < -0.1 and actual < 0) or (|predicted| <= 0.1 and |actual| <= 1), and its
  multiplier becomes the old one (1 for a sector the model does not hold) times 1.02,
  capped at 2, when correct and times 0.98, floored at 0.5, when not. In
  \<open>learn_from_week\<close>, every configured sector is classified as correct iff
  (predicted > 0 and actual > 0) or (predicted < 0 and actual < 0) or
  (|predicted| < 0.1 and |actual| < 1), and its multiplier becomes the old one times 1.05,
  capped at 2, when correct and times 0.95, floored at 0.5, when not. Both updates keep
  all multipliers within [0.5, 2] when they were.
\<close>

theorem learning_model_update:
  assumes "distinct (map fst sector_sentiment)"
    and "(sector, predicted) \<in> set sector_sentiment"
    and "price_changes sector = Some actual"
  shows "(\<exists>sens. sector_sensitivity (daily_learn_sectors model sector_sentiment price_changes) sector
                   = Some sens \<and>
            sentiment_multiplier sens =
              (if (0.1 < predicted \<and> 0 < actual) \<or> (predicted < - 0.1 \<and> actual < 0) \<or>
                  (\<bar>predicted\<bar> \<le> 0.1 \<and> \<bar>actual\<bar> \<le> 1)
               then min 2 (sentiment_multiplier (sensitivity_or_default model sector) * 1.02)
               else max 0.5 (sentiment_multiplier (sensitivity_or_default model sector) * 0.98))) \<and>
         (multipliers_in_range model \<longrightarrow>
            multipliers_in_range
              (sector_sensitivity (daily_learn_sectors model sector_sentiment price_changes))) \<and>
         (\<forall>model'. learn_from_week previous_sentiment week_changes model = Inr model' \<longrightarrow>
            (\<forall>s \<in> set SECTORS. \<exists>old new. model s = Some old \<and> model' s = Some new \<and>
               sentiment_multiplier new =
                 (if (0 < get_or_zero previous_sentiment s \<and> 0 < get_or_zero week_changes s) \<or>
                     (get_or_zero previous_sentiment s < 0 \<and> get_or_zero week_changes s < 0) \<or>
                     (\<bar>get_or_zero previous_sentiment s\<bar> < 0.1 \<and> \<bar>get_or_zero week_changes s\<bar> < 1)
                  then min 2 (sentiment_multiplier old * 1.05)
                  else max 0.5 (sentiment_multiplier old * 0.95))) \<and>
            (multipliers_in_range model \<longrightarrow> multipliers_in_range model'))"
proof -
  let ?init = "\<lparr>sector_sensitivity = model, predictions = [], outcomes = [],
                correct_count = 0, total_count = 0\<rparr>"
  have d: "sector_sensitivity (daily_learn_sectors model sector_sentiment price_changes) sector
     = Some (daily_update (sensitivity_or_default model sector)
              (classify_prediction predicted actual \<noteq> Wrong))"
    using daily_loop_entry[where items = sector_sentiment and sector = sector
        and predicted = predicted and price_changes = price_changes and actual = actual
        and st = ?init, OF assms]
    by (simp add: daily_learn_sectors_def)
  have 1: "\<exists>sens. sector_sensitivity (daily_learn_sectors model sector_sentiment price_changes) sector
                   = Some sens \<and>
            sentiment_multiplier sens =
              (if (0.1 < predicted \<and> 0 < actual) \<or> (predicted < - 0.1 \<and> actual < 0) \<or>
                  (\<bar>predicted\<bar> \<le> 0.1 \<and> \<bar>actual\<bar> \<le> 1)
               then min 2 (sentiment_multiplier (sensitivity_or_default model sector) * 1.02)
               else max 0.5 (sentiment_multiplier (sensitivity_or_default model sector) * 0.98))"
    by (simp add: d daily_update_multiplier classify_prediction_correct)
  have 2: "multipliers_in_range
              (sector_sensitivity (daily_learn_sectors model sector_sentiment price_changes))"
    if "multipliers_in_range model"
    using daily_loop_range[of ?init price_changes sector_sentiment] that
    by (simp add: daily_learn_sectors_def)
  have 3: "\<exists>old new. model s = Some old \<and> model' s = Some new \<and>
               sentiment_multiplier new =
                 (if (0 < get_or_zero previous_sentiment s \<and> 0 < get_or_zero week_changes s) \<or>
                     (get_or_zero previous_sentiment s < 0 \<and> get_or_zero week_changes s < 0) \<or>
                     (\<bar>get_or_zero previous_sentiment s\<bar> < 0.1 \<and> \<bar>get_or_zero week_changes s\<bar> < 1)
                  then min 2 (sentiment_multiplier old * 1.05)
                  else max 0.5 (sentiment_multiplier old * 0.95))"
    if w: "learn_from_week previous_sentiment week_changes model = Inr model'" and s: "s \<in> set SECTORS"
    for model' s
  proof -
    from week_loop_entry[OF w[unfolded learn_from_week_def] distinct_SECTORS s]
    obtain old where o: "model s = Some old"
      and n: "model' s = Some (weekly_update old
             (week_correct (get_or_zero previous_sentiment s) (get_or_zero week_changes s)))"
      by blast
    show ?thesis
      by (simp add: o n weekly_update_multiplier week_correct_def)
  qed
  have 4: "multipliers_in_range model'"
    if "learn_from_week previous_sentiment week_changes model = Inr model'"
      and "multipliers_in_range model" for model'
    using week_loop_range that unfolding learn_from_week_def by blast
  show ?thesis using 1 2 3 4 by blast
qed

theorem learning_model_update_witness:
  "distinct (map fst [(''XLV'', 0.2 :: rat)]) \<and>
   (''XLV'', 0.2) \<in> set [(''XLV'', 0.2 :: rat)] \<and>
   [''XLV'' \<mapsto> 1.5 :: rat] ''XLV'' = Some 1.5 \<and>
   multipliers_in_range initial_sensitivities \<and>
   (\<exists>sens. sector_sensitivity
             (daily_learn_sectors initial_sensitivities [(''XLV'', 0.2)] [''XLV'' \<mapsto> 1.5]) ''XLV''
             = Some sens \<and> sentiment_multiplier sens = 1.02) \<and>
   multipliers_in_range
     (sector_sensitivity (daily_learn_sectors initial_sensitivities [(''XLV'', 0.2)] [''XLV'' \<mapsto> 1.5]))"
proof -
  have a: "distinct (map fst [(''XLV'', 0.2 :: rat)])" "(''XLV'', 0.2) \<in> set [(''XLV'', 0.2 :: rat)]"
    "[''XLV'' \<mapsto> 1.5 :: rat] ''XLV'' = Some 1.5" by simp_all
  have r: "multipliers_in_range initial_sensitivities"
    by (simp add: multipliers_in_range_def initial_sensitivities_def default_sensitivity_def)
  have o: "sentiment_multiplier (sensitivity_or_default initial_sensitivities ''XLV'') = 1"
    by (simp add: sensitivity_or_default_def initial_sensitivities_def SECTORS_def
        default_sensitivity_def)
  note T = learning_model_update[where sector_sentiment = "[(''XLV'', 0.2)]" and sector = "''XLV''"
      and predicted = "0.2" and price_changes = "[''XLV'' \<mapsto> 1.5]" and actual = "1.5"
      and model = initial_sensitivities and previous_sentiment = Map.empty
      and week_changes = Map.empty, OF a]
  from T have "\<exists>sens. sector_sensitivity
             (daily_learn_sectors initial_sensitivities [(''XLV'', 0.2)] [''XLV'' \<mapsto> 1.5]) ''XLV''
             = Some sens \<and> sentiment_multiplier sens = 1.02"
    unfolding o by simp
  moreover from T r have "multipliers_in_range
     (sector_sensitivity (daily_learn_sectors initial_sensitivities [(''XLV'', 0.2)] [''XLV'' \<mapsto> 1.5]))"
    by blast
  ultimately show ?thesis using a r by blast
qed

section \<open>Properties of the scenario allocator\<close>

lemma sum_list_scaled:
  fixes total :: rat
  shows "sum_list (map (\<lambda>v. (v / total) * 100) vs) = (sum_list vs / total) * 100"
  by (induction vs) (simp_all add: algebra_simps add_divide_distrib)

lemma sum_list_lower:
  fixes vs :: "rat list"
  assumes "\<And>v. v \<in> set vs \<Longrightarrow> c \<le> v"
  shows "c * of_nat (length vs) \<le> sum_list vs"
  using assms by (induction vs) (auto simp: algebra_simps add_mono)

lemma normalize_to_100_sum:
  assumes "allocations \<noteq> []" and "\<And>k v. (k, v) \<in> set allocations \<Longrightarrow> 1 \<le> v"
  shows "\<exists>alloc. normalize_to_100 allocations = Inr alloc \<and> map fst alloc = map fst allocations \<and>
           sum_list (map snd alloc) = 100 \<and> (\<forall>(k, w) \<in> set alloc. 0 \<le> w)"
proof -
  let ?total = "sum_list (map snd allocations)"
  have "1 * of_nat (length (map snd allocations)) \<le> ?total"
    by (rule sum_list_lower) (use assms(2) in auto)
  then have "of_nat (length allocations) \<le> ?total" by simp
  moreover have "(0 :: rat) < of_nat (length allocations)" using assms(1) by simp
  ultimately have pos: "0 < ?total" by linarith
  let ?alloc = "map (\<lambda>(k, v). (k, (v / ?total) * 100)) allocations"
  have r: "normalize_to_100 allocations = Inr ?alloc"
    using pos by (simp add: normalize_to_100_def Let_def)
  have s: "map snd ?alloc = map (\<lambda>v. (v / ?total) * 100) (map snd allocations)"
    by (simp add: case_prod_unfold comp_def)
  have "sum_list (map snd ?alloc) = (?total / ?total) * 100"
    unfolding s by (rule sum_list_scaled)
  then have t: "sum_list (map snd ?alloc) = 100" using pos by simp
  have n: "\<forall>(k, w) \<in> set ?alloc. 0 \<le> w"
  proof -
    have "0 \<le> v / ?total * 100" if "(k, v) \<in> set allocations" for k v
    proof -
      have "0 \<le> v" using assms(2)[OF that] by simp
      then show ?thesis using pos by simp
    qed
    then show ?thesis by auto
  qed
  have f: "map fst ?alloc = map fst allocations" by (simp add: case_prod_unfold comp_def)
  show ?thesis using r t n f by blast
qed

lemma SECTORS_length: "length SECTORS = 13"
  by (simp add: SECTORS_def)

lemma top_weights_sum:
  fixes a b :: rat
  assumes "distinct xs" "distinct ys" "set ys \<subseteq> set xs"
  shows "sum_list (map (\<lambda>s. if s \<in> set ys then a else b) xs)
         = a * of_nat (length ys) + b * of_nat (length xs - length ys)"
proof -
  have "sum_list (map (\<lambda>s. if s \<in> set ys then a else b) xs)
        = sum (\<lambda>s. if s \<in> set ys then a else b) (set xs)"
    using assms(1) by (simp add: sum_list_distinct_conv_sum_set)
  also have "\<dots> = sum (\<lambda>s. a) (set xs \<inter> {s. s \<in> set ys}) + sum (\<lambda>s. b) (set xs \<inter> - {s. s \<in> set ys})"
    by (rule sum.If_cases) simp
  also have "set xs \<inter> {s. s \<in> set ys} = set ys" using assms(3) by auto
  also have "set xs \<inter> - {s. s \<in> set ys} = set xs - set ys" by auto
  also have "sum (\<lambda>s. a) (set ys) + sum (\<lambda>s. b) (set xs - set ys)
             = a * of_nat (card (set ys)) + b * of_nat (card (set xs - set ys))"
    by (simp add: mult.commute)
  also have "card (set xs - set ys) = card (set xs) - card (set ys)"
    using assms(3) by (simp add: card_Diff_subset)
  finally show ?thesis
    using assms(1,2) by (simp add: distinct_card)
qed

lemma sorted_reverse_props:
  "set (sorted_reverse key xs) = set xs" "distinct xs \<Longrightarrow> distinct (sorted_reverse key xs)"
  "length (sorted_reverse key xs) = length xs"
  by (simp_all add: sorted_reverse_def)

lemma clamp_ge_1: "(1 :: rat) \<le> max 2 (min 20 x)"
  by simp

lemma defensive_weight_ge_1: "1 \<le> defensive_weight sector score"
  by (simp add: defensive_weight_def Let_def)

lemma aggressive_sum:
  "sum_list (map snd (map (\<lambda>sector. (sector,
       if sector \<in> set (take 3 (sorted_reverse key SECTORS)) then 30 else (1 :: rat))) SECTORS)) = 100"
proof -
  let ?top = "take 3 (sorted_reverse key SECTORS)"
  have d: "distinct ?top"
    using sorted_reverse_props(2)[OF distinct_SECTORS, of key] by simp
  have s: "set ?top \<subseteq> set SECTORS"
    using set_take_subset[of 3 "sorted_reverse key SECTORS"] sorted_reverse_props(1)[of key SECTORS]
    by simp
  have l: "length ?top = 3"
    by (simp add: sorted_reverse_props(3) SECTORS_length)
  have "sum_list (map (\<lambda>s. if s \<in> set ?top then 30 else (1 :: rat)) SECTORS)
        = 30 * of_nat (length ?top) + 1 * of_nat (length SECTORS - length ?top)"
    by (rule top_weights_sum[OF distinct_SECTORS d s])
  then have "sum_list (map (\<lambda>s. if s \<in> set ?top then 30 else (1 :: rat)) SECTORS)
        = 30 * of_nat 3 + 1 * of_nat (13 - 3)"
    unfolding l SECTORS_length .
  then have "sum_list (map (\<lambda>s. if s \<in> set ?top then 30 else (1 :: rat)) SECTORS) = 100" by simp
  moreover have "map snd (map (\<lambda>sector. (sector, if sector \<in> set ?top then 30 else (1 :: rat))) SECTORS)
        = map (\<lambda>s. if s \<in> set ?top then 30 else (1 :: rat)) SECTORS"
    by (simp add: comp_def)
  ultimately show ?thesis by (simp only:)
qed

lemma normalized_result:
  assumes "calculate_rebalance scenario sector_scores = normalize_to_100 a"
    and "a \<noteq> []" and "\<And>k v. (k, v) \<in> set a \<Longrightarrow> 1 \<le> v"
  shows "\<exists>allocations. calculate_rebalance scenario sector_scores = Inr allocations \<and>
           sum_list (map snd allocations) = 100 \<and>
           (\<forall>(sector, weight) \<in> set allocations. 0 \<le> weight)"
proof -
  have "\<exists>alloc. normalize_to_100 a = Inr alloc \<and> map fst alloc = map fst a \<and>
           sum_list (map snd alloc) = 100 \<and> (\<forall>(k, w) \<in> set alloc. 0 \<le> w)"
    by (rule normalize_to_100_sum) (use assms(2,3) in auto)
  then obtain alloc where
    "normalize_to_100 a = Inr alloc" "sum_list (map snd alloc) = 100"
    "\<forall>(k, w) \<in> set alloc. 0 \<le> w" by blast
  with assms(1) show ?thesis by simp
qed

lemma rebalance_spy_only:
  "calculate_rebalance ''spy_only'' sector_scores = Inr [(''SPY'', 100)]"
  by (simp add: calculate_rebalance_def)

lemma rebalance_benchmark:
  "calculate_rebalance ''benchmark'' sector_scores = Inr (map (\<lambda>s. (s, 100 / 13)) SECTORS)"
  by (simp add: calculate_rebalance_def Let_def SECTORS_length)

lemma rebalance_momentum:
  "calculate_rebalance ''momentum'' sector_scores =
     normalize_to_100 (map (\<lambda>sector. (sector,
        max 2 (min 20 (100 / 13 + get_or_zero sector_scores sector * 50)))) SECTORS)"
  by (simp add: calculate_rebalance_def Let_def SECTORS_length)

lemma rebalance_aggressive:
  "calculate_rebalance ''aggressive'' sector_scores =
     Inr (map (\<lambda>sector. (sector,
        if sector \<in> set (take 3 (sorted_reverse (get_or_zero sector_scores) SECTORS))
        then 30 else 1)) SECTORS)"
  by (simp add: calculate_rebalance_def Let_def)

lemma rebalance_defensive:
  "calculate_rebalance ''defensive'' sector_scores =
     normalize_to_100
       (map (\<lambda>sector. (sector, defensive_weight sector (get_or_zero sector_scores sector))) SECTORS)"
  by (simp add: calculate_rebalance_def Let_def)

lemma rebalance_contrarian:
  "calculate_rebalance ''contrarian'' sector_scores =
     normalize_to_100 (map (\<lambda>sector. (sector,
        max 2 (min 20 (100 / 13 + - get_or_zero sector_scores sector * 50)))) SECTORS)"
  by (simp add: calculate_rebalance_def Let_def SECTORS_length)

lemma example_sorted:
  "take 3 (sorted_reverse (get_or_zero example_scores) SECTORS) = [''XLK'', ''XLF'', ''XLE'']"
  by (simp add: sorted_reverse_def SECTORS_def get_or_zero_def example_scores_def)

text \<open>
  Claim C8. For each of the six scenarios and every map of sector scores,
  \<open>calculate_rebalance\<close> returns (the normalisation never divides by zero), the weights it
  returns sum to 100 (exactly, in the arithmetic of the model, so within 0.01), and no
  weight is negative.
\<close>

theorem calculate_rebalance_sums_to_100:
  assumes "scenario \<in> set SCENARIOS"
  shows "\<exists>allocations. calculate_rebalance scenario sector_scores = Inr allocations \<and>
           sum_list (map snd allocations) = 100 \<and>
           \<bar>sum_list (map snd allocations) - 100\<bar> \<le> 0.01 \<and>
           (\<forall>(sector, weight) \<in> set allocations. 0 \<le> weight)"
proof -
  have ne: "map f SECTORS \<noteq> []" for f :: "string \<Rightarrow> string \<times> rat" by (simp add: SECTORS_def)
  have core: "\<exists>allocations. calculate_rebalance scenario sector_scores = Inr allocations \<and>
           sum_list (map snd allocations) = 100 \<and>
           (\<forall>(sector, weight) \<in> set allocations. 0 \<le> weight)"
  proof -
    consider "scenario = ''spy_only''" | "scenario = ''benchmark''" | "scenario = ''momentum''"
      | "scenario = ''aggressive''" | "scenario = ''defensive''" | "scenario = ''contrarian''"
      using assms unfolding SCENARIOS_def by fastforce
    then show ?thesis
    proof cases
      case 1
      show ?thesis unfolding 1 rebalance_spy_only by simp
    next
      case 2
      have "sum_list (map snd (map (\<lambda>s. (s, 100 / (13 :: rat))) SECTORS)) = 100"
        by (simp add: comp_def sum_list_triv SECTORS_length)
      moreover have "\<forall>(sector, weight) \<in> set (map (\<lambda>s. (s, 100 / (13 :: rat))) SECTORS). 0 \<le> weight"
        by simp
      ultimately show ?thesis unfolding 2 rebalance_benchmark by blast
    next
      case 3
      show ?thesis unfolding 3
        by (rule normalized_result[OF rebalance_momentum ne]) (use clamp_ge_1 in auto)
    next
      case 4
      have "\<forall>(sector, weight) \<in> set (map (\<lambda>sector. (sector,
               if sector \<in> set (take 3 (sorted_reverse (get_or_zero sector_scores) SECTORS))
               then 30 else (1 :: rat))) SECTORS). 0 \<le> weight"
        by simp
      with aggressive_sum[of "get_or_zero sector_scores"] show ?thesis
        unfolding 4 rebalance_aggressive by blast
    next
      case 5
      show ?thesis unfolding 5
        by (rule normalized_result[OF rebalance_defensive ne]) (use defensive_weight_ge_1 in auto)
    next
      case 6
      show ?thesis unfolding 6
        by (rule normalized_result[OF rebalance_contrarian ne]) (use clamp_ge_1 in auto)
    qed
  qed
  then obtain allocations where a: "calculate_rebalance scenario sector_scores = Inr allocations"
    "sum_list (map snd allocations) = 100" "\<forall>(sector, weight) \<in> set allocations. 0 \<le> weight"
    by blast
  have "\<bar>sum_list (map snd allocations) - 100\<bar> \<le> 0.01" unfolding a(2) by simp
  with a show ?thesis by blast
qed

theorem calculate_rebalance_sums_to_100_witness:
  "''aggressive'' \<in> set SCENARIOS \<and>
   calculate_rebalance ''aggressive'' example_scores = Inr example_aggressive \<and>
   sum_list (map snd example_aggressive) = 100"
proof -
  have m: "''aggressive'' \<in> set SCENARIOS" by (simp add: SCENARIOS_def)
  have e: "calculate_rebalance ''aggressive'' example_scores = Inr example_aggressive"
    unfolding rebalance_aggressive example_sorted
    by (simp add: SECTORS_def example_aggressive_def)
  from calculate_rebalance_sums_to_100[OF m, of example_scores] e
  have "sum_list (map snd example_aggressive) = 100"
    by auto
  with m e show ?thesis by blast
qed

section \<open>Properties of the refinement engine\<close>

subsection \<open>Dictionaries\<close>

lemma dict_get_set:
  "dict_get (dict_set d k v) k' = (if k' = k then Some v else dict_get d k')"
  by (induction d) (auto simp: dict_get_def)

lemma dict_get_update_other:
  "k \<notin> fst ` set other \<Longrightarrow> dict_get (dict_update d other) k = dict_get d k"
  unfolding dict_update_def
proof (induction other arbitrary: d)
  case Nil
  then show ?case by simp
next
  case (Cons p other)
  obtain k0 v0 where p: "p = (k0, v0)" by (cases p)
  with Cons.prems have "k \<noteq> k0" "k \<notin> fst ` set other" by auto
  with Cons.IH[of "dict_set d k0 v0"] p show ?case by (simp add: dict_get_set)
qed

lemma dict_get_update_entry:
  "distinct (map fst other) \<Longrightarrow> (k, v) \<in> set other \<Longrightarrow> dict_get (dict_update d other) k = Some v"
proof (induction other arbitrary: d)
  case Nil
  then show ?case by simp
next
  case (Cons p other)
  obtain k0 v0 where p: "p = (k0, v0)" by (cases p)
  show ?case
  proof (cases "(k, v) = p")
    case True
    then have "k \<notin> fst ` set other" using Cons.prems(1) p by auto
    from dict_get_update_other[OF this, of "dict_set d k v"] True p show ?thesis
      by (simp add: dict_update_def dict_get_set)
  next
    case False
    then have "(k, v) \<in> set other" using Cons.prems(2) by simp
    moreover have "distinct (map fst other)" using Cons.prems(1) by simp
    ultimately have "dict_get (dict_update (dict_set d k0 v0) other) k = Some v"
      using Cons.IH by blast
    then show ?thesis using p by (simp add: dict_update_def)
  qed
qed

subsection \<open>The paths of \<open>refine_allocation\<close>\<close>

lemma keep_with_fields:
  "dict_get (keep_with result reasoning current) ''action'' = Some (JStr ''keep'')"
  "dict_get (keep_with result reasoning current) ''reasoning'' = Some (JStr reasoning)"
  "dict_get (keep_with result reasoning current) ''new_allocation'' = Some (alloc_json current)"
  "dict_get (keep_with result reasoning current) ''confidence'' = Some (JNum 0)"
  by (simp_all add: keep_with_def dict_get_set)

lemma keep_with_other:
  "k \<notin> {''action'', ''reasoning'', ''new_allocation'', ''confidence''} \<Longrightarrow>
   dict_get (keep_with result reasoning current) k = dict_get result k"
  by (simp add: keep_with_def dict_get_set)

lemma keep_with_noop: "is_keep_noop current (keep_with result reasoning current)"
  by (simp add: is_keep_noop_def keep_with_fields)

lemma initial_original:
  "dict_get (initial_result env embeddings sector score current scenario) ''original_allocation''
     = Some (alloc_json current)"
  by (simp add: initial_result_def dict_get_def Let_def)

lemma noop_raw_response:
  "is_keep_noop current (dict_set (keep_with result reasoning current) ''raw_response'' v)"
  by (simp add: is_keep_noop_def dict_get_set keep_with_fields)

lemma handle_text_decode_error:
  assumes "json_loads env text = Inl msg"
  shows "is_keep_noop current (handle_text env text current result)"
    and "dict_get (handle_text env text current result) ''reasoning''
           = Some (JStr (''JSON parse error: '' @ msg))"
    and "dict_get (handle_text env text current result) ''raw_response'' = Some (JStr (take 500 text))"
    and "k \<notin> {''action'', ''reasoning'', ''new_allocation'', ''confidence'', ''raw_response''} \<Longrightarrow>
         dict_get (handle_text env text current result) k = dict_get result k"
  using assms
  by (simp_all add: handle_text_def noop_raw_response dict_get_set keep_with_fields keep_with_other)

lemma handle_text_not_noop:
  assumes "\<not> is_keep_noop current (handle_text env text current result)"
  shows "\<exists>kvs tot. json_loads env text = Inr (JObj kvs) \<and>
           allocation_total (dict_get_default kvs ''new_allocation'' (JObj [])) = Inr tot \<and>
           handle_text env text current result =
             (if 5 < \<bar>tot - 100\<bar>
              then dict_set (dict_update result kvs) ''warning''
                     (JStr (''Allocation sums to '' @ format_number env tot @ ''%, expected 100%''))
              else dict_update result kvs)"
proof (cases "json_loads env text")
  case (Inl msg)
  with assms handle_text_decode_error(1)[OF Inl] show ?thesis by simp
next
  case (Inr decision)
  obtain result1 eo where u: "result_update result decision = (result1, eo)"
    by (cases "result_update result decision")
  show ?thesis
  proof (cases eo)
    case (Some e)
    with assms Inr u show ?thesis by (simp add: handle_text_def keep_with_noop)
  next
    case None
    show ?thesis
    proof (cases decision)
      case (JObj kvs)
      with u have r1: "result1 = dict_update result kvs" by (simp add: result_update_def)
      show ?thesis
      proof (cases "allocation_total (dict_get_default kvs ''new_allocation'' (JObj []))")
        case (Inl e)
        with assms Inr u None JObj show ?thesis by (simp add: handle_text_def keep_with_noop)
      next
        case (Inr tot)
        with \<open>json_loads env text = Inr decision\<close> u None JObj r1 show ?thesis
          by (simp add: handle_text_def)
      qed
    qed (use assms Inr u None in \<open>simp_all add: handle_text_def keep_with_noop\<close>)
  qed
qed

lemma handle_reply_raised:
  "handle_reply env (PostRaised msg) current result = keep_with result (''Exception: '' @ msg) current"
  by (simp add: handle_reply_def)

lemma handle_reply_status:
  "status \<noteq> 200 \<Longrightarrow>
   handle_reply env (Response status body) current result
     = keep_with result (''Ollama error: '' @ show_nat status) current"
  by (simp add: handle_reply_def)

lemma handle_reply_not_json:
  "handle_reply env (Response 200 (BodyNotJson msg)) current result
     = keep_with result (''Exception: '' @ msg) current"
  by (simp add: handle_reply_def)

lemma handle_reply_text:
  "response_text body = Inr text \<Longrightarrow>
   handle_reply env (Response 200 (BodyJson body)) current result
     = handle_text env (extract_json_text text) current result"
  by (simp add: handle_reply_def)

lemma handle_reply_not_noop:
  assumes "\<not> is_keep_noop current (handle_reply env reply current result)"
  shows "\<exists>body text kvs tot. reply = Response 200 (BodyJson body) \<and> response_text body = Inr text \<and>
           json_loads env (extract_json_text text) = Inr (JObj kvs) \<and>
           allocation_total (dict_get_default kvs ''new_allocation'' (JObj [])) = Inr tot \<and>
           handle_reply env reply current result =
             (if 5 < \<bar>tot - 100\<bar>
              then dict_set (dict_update result kvs) ''warning''
                     (JStr (''Allocation sums to '' @ format_number env tot @ ''%, expected 100%''))
              else dict_update result kvs)"
proof (cases reply)
  case (PostRaised msg)
  with assms show ?thesis by (simp add: handle_reply_raised keep_with_noop)
next
  case (Response status body)
  show ?thesis
  proof (cases "status = 200")
    case False
    with assms Response show ?thesis by (simp add: handle_reply_status keep_with_noop)
  next
    case True
    show ?thesis
    proof (cases body)
      case (BodyNotJson msg)
      with assms Response True show ?thesis by (simp add: handle_reply_not_json keep_with_noop)
    next
      case (BodyJson j)
      show ?thesis
      proof (cases "response_text j")
        case (Inl e)
        with assms Response True BodyJson show ?thesis by (simp add: handle_reply_def keep_with_noop)
      next
        case (Inr t)
        have eq: "handle_reply env reply current result
                    = handle_text env (extract_json_text t) current result"
          using Response True BodyJson handle_reply_text[OF Inr] by simp
        with assms have "\<not> is_keep_noop current (handle_text env (extract_json_text t) current result)"
          by simp
        from handle_text_not_noop[OF this] eq Response True BodyJson Inr show ?thesis by auto
      qed
    qed
  qed
qed

lemma refine_short_circuit:
  assumes "\<forall>t \<in> set (map fst current). embeddings t = None"
  shows "refine_allocation env embeddings prompt reply sector score current scenario world =
           Inr (keep_with (initial_result env embeddings sector score current scenario)
                  ''No embeddings available for refinement'' current, world)"
proof -
  have "filter (\<lambda>t. embeddings t \<noteq> None) (map fst current) = []"
    using assms by (simp add: filter_empty_conv)
  then show ?thesis by (simp add: refine_allocation_def Let_def)
qed

lemma refine_calls_backend:
  assumes "\<exists>t \<in> set (map fst current). embeddings t \<noteq> None" and "prompt = Inr p"
  shows "refine_allocation env embeddings prompt reply sector score current scenario world =
           Inr (handle_reply env reply current (initial_result env embeddings sector score current scenario),
                world\<lparr>posts := posts world @ [p],
                      refined_log := refined_log world @
                        [handle_reply env reply current
                           (initial_result env embeddings sector score current scenario)]\<rparr>)"
proof -
  have "filter (\<lambda>t. embeddings t \<noteq> None) (map fst current) \<noteq> []"
    using assms(1) by (simp add: filter_empty_conv)
  then show ?thesis using assms(2) by (simp add: refine_allocation_def Let_def)
qed

lemma handle_text_decoded:
  assumes "json_loads env text = Inr (JObj kvs)"
    and "allocation_total (dict_get_default kvs ''new_allocation'' (JObj [])) = Inr tot"
  shows "handle_text env text current result =
           (if 5 < \<bar>tot - 100\<bar>
            then dict_set (dict_update result kvs) ''warning''
                   (JStr (''Allocation sums to '' @ format_number env tot @ ''%, expected 100%''))
            else dict_update result kvs)"
  using assms by (simp add: handle_text_def result_update_def)

lemma handle_text_decoded_field:
  assumes "json_loads env text = Inr (JObj kvs)"
    and "allocation_total (dict_get_default kvs ''new_allocation'' (JObj [])) = Inr tot"
    and "distinct (map fst kvs)" and "(k, v) \<in> set kvs" and "k \<noteq> ''warning''"
  shows "dict_get (handle_text env text current result) k = Some v"
  using dict_get_update_entry[OF assms(3,4), of result] assms(5)
  by (simp add: handle_text_decoded[OF assms(1,2)] dict_get_set)

lemma failed_reply_keeps:
  assumes "backend_failed env reply"
  shows "dict_get (handle_reply env reply current
            (initial_result env embeddings sector score current scenario)) ''action''
           = Some (JStr ''keep'') \<and>
         dict_get (handle_reply env reply current
            (initial_result env embeddings sector score current scenario)) ''new_allocation''
           = Some (alloc_json current) \<and>
         dict_get (handle_reply env reply current
            (initial_result env embeddings sector score current scenario)) ''original_allocation''
           = Some (alloc_json current)"
proof -
  let ?r0 = "initial_result env embeddings sector score current scenario"
  have k: "dict_get (keep_with ?r0 reasoning current) ''original_allocation'' = Some (alloc_json current)"
    for reasoning
    by (simp add: keep_with_other initial_original)
  show ?thesis
  proof (cases reply)
    case (PostRaised msg)
    then show ?thesis by (simp add: handle_reply_raised keep_with_fields k)
  next
    case (Response status body)
    show ?thesis
    proof (cases "status = 200")
      case False
      with Response show ?thesis by (simp add: handle_reply_status keep_with_fields k)
    next
      case True
      show ?thesis
      proof (cases body)
        case (BodyNotJson msg)
        with Response True show ?thesis by (simp add: handle_reply_not_json keep_with_fields k)
      next
        case (BodyJson j)
        show ?thesis
        proof (cases "response_text j")
          case (Inl e)
          with Response True BodyJson show ?thesis
            by (simp add: handle_reply_def keep_with_fields k)
        next
          case (Inr t)
          from assms Response True BodyJson Inr
          obtain msg where d: "json_loads env (extract_json_text t) = Inl msg"
            by (auto simp: backend_failed_def split: sum.splits)
          have n: "is_keep_noop current (handle_text env (extract_json_text t) current ?r0)"
            by (rule handle_text_decode_error(1)[OF d])
          have o: "dict_get (handle_text env (extract_json_text t) current ?r0) ''original_allocation''
                   = Some (alloc_json current)"
            using handle_text_decode_error(4)[OF d, of "''original_allocation''" current ?r0]
            by (simp add: initial_original)
          from n o Response True BodyJson Inr show ?thesis
            by (simp add: handle_reply_text is_keep_noop_def)
        qed
      qed
    qed
  qed
qed

lemma example_has_profile: "\<exists>t \<in> set (map fst example_allocation). example_embeddings t \<noteq> None"
  by (simp add: example_allocation_def example_embeddings_def)

lemma keep_text_plain: "extract_json_text (strip keep_response_text) = keep_response_text"
  by (simp add: extract_json_text_def strip_def keep_response_text_def is_space_def)

lemma keep_reply_text:
  "response_text (JObj [(''model'', JStr ''llama3.1:8b''), (''response'', JStr keep_response_text)])
     = Inr (strip keep_response_text)"
  by (simp add: response_text_def dict_get_default_def)

lemma keep_reply_result:
  "handle_reply example_env keep_reply current result =
     dict_update result
       [(''action'', JStr ''keep''), (''reasoning'', JStr ''Stable outlook''),
        (''new_allocation'', JObj [(''AAPL'', JNum 50), (''MSFT'', JNum 50)]),
        (''confidence'', JNum 0.9)]"
  unfolding keep_reply_def handle_reply_text[OF keep_reply_text] keep_text_plain
  by (simp add: handle_text_def example_env_def keep_decision_def result_update_def
      allocation_total_def dict_get_default_def py_number_def)

subsection \<open>Never worse than a no-op\<close>

text \<open>
  Claim C6. When no ticker of the current allocation has a profile, \<open>refine_allocation\<close>
  returns the action \<open>keep\<close> with confidence 0 and the current allocation, and leaves the
  world as it is: nothing is posted to the backend (and nothing is logged). When some
  ticker has a profile, it posts one request and logs its result; if the request raises
  (a timeout), if the status is not 200, if the body is not JSON, or if the text of the
  response does not parse, the result is the action \<open>keep\<close> with confidence 0, the current
  allocation as \<open>new_allocation\<close> and the error in \<open>reasoning\<close>. More generally, a result
  that is not such a no-op comes from a status 200 whose text parsed to an object with a
  summable \<open>new_allocation\<close>.
\<close>

theorem refine_allocation_keep_on_failure:
  "((\<forall>t \<in> set (map fst current). embeddings t = None) \<longrightarrow>
      (\<exists>result. refine_allocation env embeddings prompt reply sector score current scenario world
                   = Inr (result, world) \<and>
         is_keep_noop current result \<and>
         dict_get result ''reasoning'' = Some (JStr ''No embeddings available for refinement''))) \<and>
   ((\<exists>t \<in> set (map fst current). embeddings t \<noteq> None) \<and> prompt = Inr p \<longrightarrow>
      (\<exists>result. refine_allocation env embeddings prompt reply sector score current scenario world
                   = Inr (result, world\<lparr>posts := posts world @ [p],
                                         refined_log := refined_log world @ [result]\<rparr>) \<and>
         (\<forall>msg. reply = PostRaised msg \<longrightarrow>
            is_keep_noop current result \<and>
            dict_get result ''reasoning'' = Some (JStr (''Exception: '' @ msg))) \<and>
         (\<forall>status body. reply = Response status body \<and> status \<noteq> 200 \<longrightarrow>
            is_keep_noop current result \<and>
            dict_get result ''reasoning'' = Some (JStr (''Ollama error: '' @ show_nat status))) \<and>
         (\<forall>msg. reply = Response 200 (BodyNotJson msg) \<longrightarrow>
            is_keep_noop current result \<and>
            dict_get result ''reasoning'' = Some (JStr (''Exception: '' @ msg))) \<and>
         (\<forall>body text msg. reply = Response 200 (BodyJson body) \<and> response_text body = Inr text \<and>
            json_loads env (extract_json_text text) = Inl msg \<longrightarrow>
            is_keep_noop current result \<and>
            dict_get result ''reasoning'' = Some (JStr (''JSON parse error: '' @ msg))) \<and>
         (\<not> is_keep_noop current result \<longrightarrow>
            (\<exists>body text kvs tot. reply = Response 200 (BodyJson body) \<and>
               response_text body = Inr text \<and>
               json_loads env (extract_json_text text) = Inr (JObj kvs) \<and>
               allocation_total (dict_get_default kvs ''new_allocation'' (JObj [])) = Inr tot))))"
proof (intro conjI impI)
  assume "\<forall>t \<in> set (map fst current). embeddings t = None"
  from refine_short_circuit[OF this]
  show "\<exists>result. refine_allocation env embeddings prompt reply sector score current scenario world
                   = Inr (result, world) \<and>
         is_keep_noop current result \<and>
         dict_get result ''reasoning'' = Some (JStr ''No embeddings available for refinement'')"
    by (simp add: keep_with_noop keep_with_fields)
next
  assume a: "(\<exists>t \<in> set (map fst current). embeddings t \<noteq> None) \<and> prompt = Inr p"
  let ?r0 = "initial_result env embeddings sector score current scenario"
  let ?result = "handle_reply env reply current ?r0"
  have run: "refine_allocation env embeddings prompt reply sector score current scenario world
         = Inr (?result, world\<lparr>posts := posts world @ [p],
                                 refined_log := refined_log world @ [?result]\<rparr>)"
    using refine_calls_backend[of current embeddings prompt p] a by blast
  have 1: "\<forall>msg. reply = PostRaised msg \<longrightarrow>
            is_keep_noop current ?result \<and>
            dict_get ?result ''reasoning'' = Some (JStr (''Exception: '' @ msg))"
    by (simp add: handle_reply_raised keep_with_noop keep_with_fields)
  have 2: "\<forall>status body. reply = Response status body \<and> status \<noteq> 200 \<longrightarrow>
            is_keep_noop current ?result \<and>
            dict_get ?result ''reasoning'' = Some (JStr (''Ollama error: '' @ show_nat status))"
    by (simp add: handle_reply_status keep_with_noop keep_with_fields)
  have 3: "\<forall>msg. reply = Response 200 (BodyNotJson msg) \<longrightarrow>
            is_keep_noop current ?result \<and>
            dict_get ?result ''reasoning'' = Some (JStr (''Exception: '' @ msg))"
    by (simp add: handle_reply_not_json keep_with_noop keep_with_fields)
  have 4: "\<forall>body text msg. reply = Response 200 (BodyJson body) \<and> response_text body = Inr text \<and>
            json_loads env (extract_json_text text) = Inl msg \<longrightarrow>
            is_keep_noop current ?result \<and>
            dict_get ?result ''reasoning'' = Some (JStr (''JSON parse error: '' @ msg))"
    by (simp add: handle_reply_text handle_text_decode_error)
  have 5: "\<not> is_keep_noop current ?result \<longrightarrow>
            (\<exists>body text kvs tot. reply = Response 200 (BodyJson body) \<and>
               response_text body = Inr text \<and>
               json_loads env (extract_json_text text) = Inr (JObj kvs) \<and>
               allocation_total (dict_get_default kvs ''new_allocation'' (JObj [])) = Inr tot)"
    using handle_reply_not_noop[of current env reply ?r0] by blast
  show "\<exists>result. refine_allocation env embeddings prompt reply sector score current scenario world
                   = Inr (result, world\<lparr>posts := posts world @ [p],
                                         refined_log := refined_log world @ [result]\<rparr>) \<and>
         (\<forall>msg. reply = PostRaised msg \<longrightarrow>
            is_keep_noop current result \<and>
            dict_get result ''reasoning'' = Some (JStr (''Exception: '' @ msg))) \<and>
         (\<forall>status body. reply = Response status body \<and> status \<noteq> 200 \<longrightarrow>
            is_keep_noop current result \<and>
            dict_get result ''reasoning'' = Some (JStr (''Ollama error: '' @ show_nat status))) \<and>
         (\<forall>msg. reply = Response 200 (BodyNotJson msg) \<longrightarrow>
            is_keep_noop current result \<and>
            dict_get result ''reasoning'' = Some (JStr (''Exception: '' @ msg))) \<and>
         (\<forall>body text msg. reply = Response 200 (BodyJson body) \<and> response_text body = Inr text \<and>
            json_loads env (extract_json_text text) = Inl msg \<longrightarrow>
            is_keep_noop current result \<and>
            dict_get result ''reasoning'' = Some (JStr (''JSON parse error: '' @ msg))) \<and>
         (\<not> is_keep_noop current result \<longrightarrow>
            (\<exists>body text kvs tot. reply = Response 200 (BodyJson body) \<and>
               response_text body = Inr text \<and>
               json_loads env (extract_json_text text) = Inr (JObj kvs) \<and>
               allocation_total (dict_get_default kvs ''new_allocation'' (JObj [])) = Inr tot))"
    using run 1 2 3 4 5 by blast
qed

theorem refine_allocation_keep_on_failure_witness:
  "list_all (\<lambda>t. (Map.empty :: string \<rightharpoonup> json) t = None) (map fst example_allocation) \<and>
   (\<exists>result. refine_allocation example_env Map.empty (Inr ''prompt'') keep_reply ''XLK'' 0.5
                example_allocation ''benchmark'' empty_world = Inr (result, empty_world) \<and>
              is_keep_noop example_allocation result) \<and>
   (\<exists>t \<in> set (map fst example_allocation). example_embeddings t \<noteq> None) \<and>
   (\<exists>result. refine_allocation example_env example_embeddings (Inr ''prompt'')
                (PostRaised ''Read timed out.'') ''XLK'' 0.5 example_allocation ''benchmark''
                empty_world
              = Inr (result, \<lparr>posts = [''prompt''], refined_log = [result]\<rparr>) \<and>
              is_keep_noop example_allocation result \<and>
              dict_get result ''reasoning'' = Some (JStr ''Exception: Read timed out.''))"
proof -
  have n: "\<forall>t \<in> set (map fst example_allocation). (Map.empty :: string \<rightharpoonup> json) t = None" by simp
  have 1: "\<exists>result. refine_allocation example_env Map.empty (Inr ''prompt'') keep_reply ''XLK'' 0.5
                example_allocation ''benchmark'' empty_world = Inr (result, empty_world) \<and>
              is_keep_noop example_allocation result"
    using refine_allocation_keep_on_failure[of example_allocation Map.empty example_env
        "Inr ''prompt''" keep_reply "''XLK''" "0.5" "''benchmark''" empty_world "''prompt''"] n
    by blast
  have 2: "\<exists>result. refine_allocation example_env example_embeddings (Inr ''prompt'')
                (PostRaised ''Read timed out.'') ''XLK'' 0.5 example_allocation ''benchmark''
                empty_world
              = Inr (result, empty_world\<lparr>posts := posts empty_world @ [''prompt''],
                       refined_log := refined_log empty_world @ [result]\<rparr>) \<and>
              is_keep_noop example_allocation result \<and>
              dict_get result ''reasoning'' = Some (JStr (''Exception: '' @ ''Read timed out.''))"
    using refine_allocation_keep_on_failure[of example_allocation example_embeddings example_env
        "Inr ''prompt''" "PostRaised ''Read timed out.''" "''XLK''" "0.5" "''benchmark''"
        empty_world "''prompt''"] example_has_profile
    by blast
  have w: "empty_world\<lparr>posts := posts empty_world @ [''prompt''],
                       refined_log := refined_log empty_world @ [result]\<rparr>
           = \<lparr>posts = [''prompt''], refined_log = [result]\<rparr>" for result
    by (simp add: empty_world_def)
  from 1 2 example_has_profile show ?thesis
    unfolding w by (simp add: list_all_iff)
qed

subsection \<open>The action \<open>keep\<close> and the new allocation\<close>

text \<open>
  Claim C7, as stated, fails: a response that parses is merged into the result as it is.
  For a response with the action \<open>keep\<close> and a new allocation of 50/50, the result has the
  action \<open>keep\<close> and that new allocation, which is not the original 60/40.
\<close>

theorem refine_allocation_keep_counterexample:
  "map_sum id (\<lambda>(result, world). (dict_get result ''action'', dict_get result ''new_allocation'',
                                    dict_get result ''original_allocation''))
     (refine_allocation example_env example_embeddings (Inr ''prompt'') keep_reply ''XLK'' 0.5
        example_allocation ''benchmark'' empty_world)
   = Inr (Some (JStr ''keep''), Some (alloc_json [(''AAPL'', 50), (''MSFT'', 50)]),
          Some (alloc_json [(''AAPL'', 60), (''MSFT'', 40)])) \<and>
   alloc_json [(''AAPL'', 50), (''MSFT'', 50)] \<noteq> alloc_json [(''AAPL'', 60), (''MSFT'', 40)]"
  unfolding refine_calls_backend[OF example_has_profile refl] keep_reply_result
  by (simp add: dict_update_def dict_get_set initial_original alloc_json_def example_allocation_def)

text \<open>
  Claim C7, amended. On the path without profiles and on every failed reply, the result
  has the action \<open>keep\<close> and both \<open>new_allocation\<close> and \<open>original_allocation\<close> are the
  current allocation. For a response that parses to an object whose \<open>new_allocation\<close> can
  be summed, every field of the response (other than \<open>warning\<close>) is the field of the
  result: the action and the new allocation are the backend's, unchecked.
\<close>

theorem refine_allocation_keep_allocation:
  "((\<forall>t \<in> set (map fst current). embeddings t = None) \<or>
    ((\<exists>t \<in> set (map fst current). embeddings t \<noteq> None) \<and> prompt = Inr p \<and>
     backend_failed env reply) \<longrightarrow>
      (\<exists>result world'.
         refine_allocation env embeddings prompt reply sector score current scenario world
           = Inr (result, world') \<and>
         dict_get result ''action'' = Some (JStr ''keep'') \<and>
         dict_get result ''new_allocation'' = Some (alloc_json current) \<and>
         dict_get result ''original_allocation'' = Some (alloc_json current))) \<and>
   ((\<exists>t \<in> set (map fst current). embeddings t \<noteq> None) \<and> prompt = Inr p \<and>
    reply = Response 200 (BodyJson body) \<and> response_text body = Inr body_text \<and>
    json_loads env (extract_json_text body_text) = Inr (JObj kvs) \<and>
    allocation_total (dict_get_default kvs ''new_allocation'' (JObj [])) = Inr tot \<and>
    distinct (map fst kvs) \<and> (k, v) \<in> set kvs \<and> k \<noteq> ''warning'' \<longrightarrow>
      (\<exists>result world'.
         refine_allocation env embeddings prompt reply sector score current scenario world
           = Inr (result, world') \<and>
         dict_get result k = Some v))"
proof (intro conjI impI)
  assume a: "(\<forall>t \<in> set (map fst current). embeddings t = None) \<or>
    ((\<exists>t \<in> set (map fst current). embeddings t \<noteq> None) \<and> prompt = Inr p \<and>
     backend_failed env reply)"
  show "\<exists>result world'.
         refine_allocation env embeddings prompt reply sector score current scenario world
           = Inr (result, world') \<and>
         dict_get result ''action'' = Some (JStr ''keep'') \<and>
         dict_get result ''new_allocation'' = Some (alloc_json current) \<and>
         dict_get result ''original_allocation'' = Some (alloc_json current)"
  proof (cases "\<forall>t \<in> set (map fst current). embeddings t = None")
    case True
    from refine_short_circuit[OF True] show ?thesis
      by (simp add: keep_with_fields keep_with_other initial_original)
  next
    case False
    with a have h: "\<exists>t \<in> set (map fst current). embeddings t \<noteq> None" "prompt = Inr p"
      "backend_failed env reply" by blast+
    from refine_calls_backend[OF h(1,2)] failed_reply_keeps[OF h(3)] show ?thesis by simp
  qed
next
  assume a: "(\<exists>t \<in> set (map fst current). embeddings t \<noteq> None) \<and> prompt = Inr p \<and>
    reply = Response 200 (BodyJson body) \<and> response_text body = Inr body_text \<and>
    json_loads env (extract_json_text body_text) = Inr (JObj kvs) \<and>
    allocation_total (dict_get_default kvs ''new_allocation'' (JObj [])) = Inr tot \<and>
    distinct (map fst kvs) \<and> (k, v) \<in> set kvs \<and> k \<noteq> ''warning''"
  then have h: "\<exists>t \<in> set (map fst current). embeddings t \<noteq> None" "prompt = Inr p"
    and r: "reply = Response 200 (BodyJson body)" "response_text body = Inr body_text"
    and d: "json_loads env (extract_json_text body_text) = Inr (JObj kvs)"
      "allocation_total (dict_get_default kvs ''new_allocation'' (JObj [])) = Inr tot"
      "distinct (map fst kvs)" "(k, v) \<in> set kvs" "k \<noteq> ''warning''"
    by blast+
  have "dict_get (handle_reply env reply current
          (initial_result env embeddings sector score current scenario)) k = Some v"
    unfolding r(1) handle_reply_text[OF r(2)]
    by (rule handle_text_decoded_field[OF d])
  with refine_calls_backend[OF h] show "\<exists>result world'.
         refine_allocation env embeddings prompt reply sector score current scenario world
           = Inr (result, world') \<and>
         dict_get result k = Some v"
    by simp
qed

theorem refine_allocation_keep_allocation_witness:
  "(\<exists>t \<in> set (map fst example_allocation). example_embeddings t \<noteq> None) \<and>
   backend_failed example_env (Response 503 (BodyNotJson ''Service Unavailable'')) \<and>
   (\<exists>result world'.
      refine_allocation example_env example_embeddings (Inr ''prompt'')
        (Response 503 (BodyNotJson ''Service Unavailable'')) ''XLK'' 0.5 example_allocation
        ''benchmark'' empty_world = Inr (result, world') \<and>
      dict_get result ''action'' = Some (JStr ''keep'') \<and>
      dict_get result ''new_allocation'' = Some (alloc_json example_allocation) \<and>
      dict_get result ''original_allocation'' = Some (alloc_json example_allocation)) \<and>
   json_loads example_env (extract_json_text (strip keep_response_text)) = Inr keep_decision \<and>
   (\<exists>result world'.
      refine_allocation example_env example_embeddings (Inr ''prompt'') keep_reply ''XLK'' 0.5
        example_allocation ''benchmark'' empty_world = Inr (result, world') \<and>
      dict_get result ''new_allocation'' = Some (JObj [(''AAPL'', JNum 50), (''MSFT'', JNum 50)]))"
proof -
  have f: "backend_failed example_env (Response 503 (BodyNotJson ''Service Unavailable''))"
    by (simp add: backend_failed_def)
  have l: "json_loads example_env (extract_json_text (strip keep_response_text)) = Inr keep_decision"
    by (simp add: keep_text_plain example_env_def)
  have l': "json_loads example_env (extract_json_text (strip keep_response_text))
      = Inr (JObj [(''action'', JStr ''keep''), (''reasoning'', JStr ''Stable outlook''),
           (''new_allocation'', JObj [(''AAPL'', JNum 50), (''MSFT'', JNum 50)]),
           (''confidence'', JNum 0.9)])"
    using l by (simp add: keep_decision_def)
  have t: "allocation_total (dict_get_default
             [(''action'', JStr ''keep''), (''reasoning'', JStr ''Stable outlook''),
              (''new_allocation'', JObj [(''AAPL'', JNum 50), (''MSFT'', JNum 50)]),
              (''confidence'', JNum 0.9)] ''new_allocation'' (JObj [])) = Inr 100"
    by (simp add: allocation_total_def dict_get_default_def py_number_def)
  note T1 = refine_allocation_keep_allocation[THEN conjunct1, rule_format,
      of example_allocation example_embeddings "Inr ''prompt''" "''prompt''" example_env
         "Response 503 (BodyNotJson ''Service Unavailable'')" "''XLK''" "0.5" "''benchmark''"
         empty_world]
  have 1: "\<exists>result world'.
      refine_allocation example_env example_embeddings (Inr ''prompt'')
        (Response 503 (BodyNotJson ''Service Unavailable'')) ''XLK'' 0.5 example_allocation
        ''benchmark'' empty_world = Inr (result, world') \<and>
      dict_get result ''action'' = Some (JStr ''keep'') \<and>
      dict_get result ''new_allocation'' = Some (alloc_json example_allocation) \<and>
      dict_get result ''original_allocation'' = Some (alloc_json example_allocation)"
    by (rule T1) (use example_has_profile f in blast)
  note T2 = refine_allocation_keep_allocation[THEN conjunct2, rule_format,
      where current = example_allocation and embeddings = example_embeddings
        and prompt = "Inr ''prompt''" and p = "''prompt''" and env = example_env
        and reply = keep_reply and body_text = "strip keep_response_text"
        and k = "''new_allocation''" and v = "JObj [(''AAPL'', JNum 50), (''MSFT'', JNum 50)]"
        and tot = 100
        and kvs = "[(''action'', JStr ''keep''), (''reasoning'', JStr ''Stable outlook''),
           (''new_allocation'', JObj [(''AAPL'', JNum 50), (''MSFT'', JNum 50)]),
           (''confidence'', JNum 0.9)]"
        and body = "JObj [(''model'', JStr ''llama3.1:8b''), (''response'', JStr keep_response_text)]"
        and sector = "''XLK''" and score = "0.5" and scenario = "''benchmark''" and world = empty_world]
  have 2: "\<exists>result world'.
      refine_allocation example_env example_embeddings (Inr ''prompt'') keep_reply ''XLK'' 0.5
        example_allocation ''benchmark'' empty_world = Inr (result, world') \<and>
      dict_get result ''new_allocation'' = Some (JObj [(''AAPL'', JNum 50), (''MSFT'', JNum 50)])"
    by (rule T2) (use example_has_profile keep_reply_text l' t in \<open>simp add: keep_reply_def\<close>)
  from example_has_profile f 1 l 2 show ?thesis by blast
qed

section \<open>Properties of the two callers\<close>

subsection \<open>The backend's \<open>adjust\<close> reply of the examples\<close>







subsection \<open>Imports\<close>



subsection \<open>The threshold gate of \<open>run_phase2_refinement\<close>\<close>











section \<open>Properties of the Phase-1 selection\<close>

text \<open>
  Whatever path produced them, the tickers of the returned assets are candidates of the
  sector.
\<close>

lemma filter_valid_tickers:
  "filter_valid valid_tickers assets = Inr selected \<Longrightarrow> a \<in> set selected \<Longrightarrow>
   \<exists>t \<in> set valid_tickers. dict_get_default a ''ticker'' JNull = JStr t"
proof (induction assets arbitrary: selected)
  case Nil
  then show ?case by simp
next
  case (Cons asset rest)
  from Cons.prems(1) obtain sel where r: "filter_valid valid_tickers rest = Inr sel"
    and s: "selected = (if (\<exists>t \<in> set valid_tickers. dict_get_default asset ''ticker'' JNull = JStr t)
                        then asset # sel else sel)"
    by (auto split: json.splits sum.splits)
  show ?case
  proof (cases "a \<in> set sel")
    case True
    with Cons.IH[OF r] show ?thesis by blast
  next
    case False
    with s Cons.prems(2) have "a = asset"
      and "\<exists>t \<in> set valid_tickers. dict_get_default asset ''ticker'' JNull = JStr t"
      by (auto split: if_splits)
    then show ?thesis by blast
  qed
qed

lemma structured_assets_tickers:
  "structured_assets available_stocks budget data = Inr selected \<Longrightarrow> a \<in> set selected \<Longrightarrow>
   \<exists>s \<in> set available_stocks. dict_get_default a ''ticker'' JNull = JStr (s_ticker s)"
  by (auto simp: structured_assets_def split: json.splits sum.splits dest!: filter_valid_tickers)

lemma fallback_assets_tickers:
  assumes "fallback_assets with_reason available_stocks budget response = Some assets"
    and "a \<in> set assets"
  shows "\<exists>s \<in> set available_stocks. dict_get_default a ''ticker'' JNull = JStr (s_ticker s)"
proof -
  let ?m = "mentioned_tickers available_stocks response"
  from assms obtain t where t: "t \<in> set (take 5 ?m)"
    and a: "dict_get_default a ''ticker'' JNull = JStr t"
    by (auto simp: fallback_assets_def Let_def dict_get_default_def split: if_splits)
  from t have "t \<in> set ?m" by (rule in_set_takeD)
  then have "t \<in> s_ticker ` set available_stocks"
    by (auto simp: mentioned_tickers_def)
  with a show ?thesis by auto
qed

text \<open>The two example responses, step by step.\<close>

lemma half_invalid_match: "json_match half_invalid_text = Some half_invalid_text"
  by (simp add: json_match_def half_invalid_text_def Let_def)

lemma half_invalid_assets:
  "structured_assets two_stocks 10000 half_invalid_data =
     Inr [[(''ticker'', JStr ''AAPL''), (''weight'', JNum 0.5), (''amount'', JNum 5000)]]"
  by (simp add: structured_assets_def half_invalid_data_def selected_list_def dict_get_default_def
      py_number_def two_stocks_def py_round_def round_half_even_def Let_def)

lemma prose_no_match: "json_match prose_text = None"
  by (simp add: json_match_def prose_text_def Let_def)

lemma prose_mentioned:
  "mentioned_tickers six_stocks prose_text = [''AAPL'', ''MSFT'', ''NVDA'', ''GOOGL'', ''META'', ''ORCL'']"
  by (simp add: mentioned_tickers_def six_stocks_def prose_text_def upper_def upper_char_def Let_def)

lemma six_fallback:
  "fallback_assets with_reason six_stocks 10000 prose_text =
     Some (map (\<lambda>t. [(''ticker'', JStr t), (''weight'', JNum (1 / 6)), (''amount'', JNum (166667 / 100))]
                     @ (if with_reason then [(''reason'', JStr ''mentioned in response'')] else []))
             [''AAPL'', ''MSFT'', ''NVDA'', ''GOOGL'', ''META''])"
proof -
  have f: "\<lfloor>500000 / 3 :: rat\<rfloor> = 166666"
    by (simp add: floor_eq_iff)
  show ?thesis
    unfolding fallback_assets_def prose_mentioned
    by (simp add: py_round_def round_half_even_def Let_def f)
qed

text \<open>
  Claim C1. The weights are divided by their total before the assets with an unknown
  ticker are removed, and the fallback divides by the number of all mentioned tickers
  before it keeps the first five. On a response that gives half of the weight to
  \<open>AAPL\<close> and half to \<open>ZZZZ\<close>, which is no candidate, both versions return \<open>AAPL\<close> alone
  with the weight 0.5 and the amount 5000 of a budget of 10000; on a prose response that
  mentions six candidates the fallback returns five assets whose weights sum to 5/6. The
  returned weights do not sum to 1.
\<close>

theorem selection_weights_not_renormalized:
  "parse_portfolio_response example_loads half_invalid_text two_stocks 10000 =
     Inr (Some [(''selected_assets'',
                   JArr [JObj [(''ticker'', JStr ''AAPL''), (''weight'', JNum (1 / 2)),
                               (''amount'', JNum 5000)]]),
                (''rationale'', JStr ''Split''), (''risk_level'', JStr ''medium'')]) \<and>
   select_assets_v2_parse example_loads ''XLK'' (1 / 2) half_invalid_text two_stocks 10000 =
     Some [(''sector'', JStr ''XLK''), (''sentiment'', JNum (1 / 2)),
           (''selected_assets'',
              JArr [JObj [(''ticker'', JStr ''AAPL''), (''weight'', JNum (1 / 2)),
                          (''amount'', JNum 5000)]]),
           (''rationale'', JStr ''Split''), (''risk_level'', JStr ''medium''), (''phase'', JNum 1)] \<and>
   map_option (sum_list \<circ> asset_weights) (fallback_assets True six_stocks 10000 prose_text) = Some (5 / 6) \<and>
   map_option (sum_list \<circ> asset_weights) (fallback_assets False six_stocks 10000 prose_text) = Some (5 / 6)"
proof -
  have a: "parse_portfolio_response example_loads half_invalid_text two_stocks 10000 =
     Inr (Some [(''selected_assets'',
                   JArr [JObj [(''ticker'', JStr ''AAPL''), (''weight'', JNum (1 / 2)),
                               (''amount'', JNum 5000)]]),
                (''rationale'', JStr ''Split''), (''risk_level'', JStr ''medium'')])"
    unfolding parse_portfolio_response_def half_invalid_match
    by (simp add: example_loads_def half_invalid_assets Let_def)
      (simp add: half_invalid_data_def dict_get_default_def)
  have b: "select_assets_v2_parse example_loads ''XLK'' (1 / 2) half_invalid_text two_stocks 10000 =
     Some [(''sector'', JStr ''XLK''), (''sentiment'', JNum (1 / 2)),
           (''selected_assets'',
              JArr [JObj [(''ticker'', JStr ''AAPL''), (''weight'', JNum (1 / 2)),
                          (''amount'', JNum 5000)]]),
           (''rationale'', JStr ''Split''), (''risk_level'', JStr ''medium''), (''phase'', JNum 1)]"
    unfolding select_assets_v2_parse_def half_invalid_match
    by (simp add: example_loads_def half_invalid_assets Let_def)
      (simp add: half_invalid_data_def dict_get_default_def)
  have c: "map_option (sum_list \<circ> asset_weights) (fallback_assets w six_stocks 10000 prose_text) = Some (5 / 6)" for w
    unfolding six_fallback
    by (simp add: asset_weights_def dict_get_default_def py_number_def)
  from a b c show ?thesis by blast
qed

section \<open>Properties of the sentiment aggregation\<close>

subsection \<open>Classification by keywords\<close>

text \<open>
  \<open>classify_sectors\<close> returns the sectors whose keyword set matches the title, in the order
  of the configuration and each once, or \<open>general\<close> alone when none matches.
\<close>

lemma classify_loop_eq:
  "classify_loop title_lower sectors matched =
     matched @ map fst (filter (\<lambda>(code, info). list_ex (\<lambda>keyword. contains title_lower (lower keyword))
                                                   (sector_keywords info)) sectors)"
  by (induction sectors arbitrary: matched) auto

lemma matching_sectors_eq:
  "matching_sectors t sectors =
     set (map fst (filter (\<lambda>(code, info). list_ex (\<lambda>keyword. contains (lower t) (lower keyword))
                                               (sector_keywords info)) sectors))"
  by (fastforce simp: matching_sectors_def list_ex_iff image_iff)

lemma classify_sectors_set:
  "set (classify_sectors hl sectors) =
     (if matching_sectors (h_title hl) sectors = {} then {''general''}
      else matching_sectors (h_title hl) sectors)"
  unfolding matching_sectors_eq classify_sectors_def classify_loop_eq Let_def
  by (simp del: set_map)

lemma classify_sectors_distinct:
  "distinct (map fst sectors) \<Longrightarrow> distinct (classify_sectors hl sectors)"
  unfolding classify_sectors_def classify_loop_eq Let_def
  by (simp add: distinct_map_filter)

lemma classify_sectors_keys:
  "set (classify_sectors hl sectors) \<subseteq> insert ''general'' (fst ` set sectors)"
  unfolding classify_sectors_def classify_loop_eq Let_def
  by auto

subsection \<open>The aggregation of the harvester\<close>

text \<open>
  The loop of \<open>aggregate_sentiment\<close> leaves, for every sector of the configuration and for
  \<open>general\<close>, the headlines that name it and their scores, in the order of the headlines.
\<close>

lemma append_score_keys: "map fst (append_score data sector hl s) = map fst data"
  by (induction data) auto

lemma bump_Nil: "bump [] [] d = d"
  by (simp add: bump_def)

lemma bump_bump: "bump hs' ss' (bump hs ss d) = bump (hs @ hs') (ss @ ss') d"
  by (simp add: bump_def)

lemma append_score_map_of:
  "map_of (append_score data sector hl s) k =
     (if k = sector then map_option (bump [hl] [s]) (map_of data k) else map_of data k)"
  by (induction data) (auto simp: bump_def[abs_def])

lemma append_scores_keys:
  "map fst (foldl (\<lambda>data sector. append_score data sector hl s) data ss) = map fst data"
  by (induction ss arbitrary: data) (simp_all add: append_score_keys)

lemma append_scores_map_of:
  "map_of (foldl (\<lambda>data sector. append_score data sector hl s) data ss) k =
     map_option (bump (replicate (count_list ss k) hl) (replicate (count_list ss k) s))
       (map_of data k)"
proof (induction ss arbitrary: data)
  case Nil
  show ?case by (simp add: bump_Nil[abs_def] option.map_ident)
next
  case (Cons x xs)
  show ?case
  proof (cases "x = k")
    case True
    then show ?thesis
      by (simp add: Cons.IH append_score_map_of option.map_comp comp_def bump_bump
          replicate_app_Cons_same)
  next
    case False
    then show ?thesis
      by (simp add: Cons.IH append_score_map_of)
  qed
qed

lemma sectors_or_general_scored: "sectors_or_general (scored ar hl) = sectors_or_general hl"
  by (simp add: sectors_or_general_def scored_def)

lemma score_headline_eq:
  "score_headline ar data hl =
     (scored ar hl,
      foldl (\<lambda>data sector. append_score data sector (scored ar hl) (simple_sentiment ar (h_title hl)))
        data (sectors_or_general hl))"
  by (simp add: score_headline_def Let_def scored_def sectors_or_general_def)

lemma aggregate_loop_Cons:
  "aggregate_loop ar (hl # rest) data =
     (let data1 = foldl (\<lambda>data sector. append_score data sector (scored ar hl)
                                         (simple_sentiment ar (h_title hl)))
                    data (sectors_or_general hl)
      in (scored ar hl # fst (aggregate_loop ar rest data1), snd (aggregate_loop ar rest data1)))"
  by (simp add: score_headline_eq Let_def case_prod_beta)

lemma aggregate_loop_headlines: "fst (aggregate_loop ar hs data) = map (scored ar) hs"
  by (induction hs arbitrary: data) (simp_all add: aggregate_loop_Cons Let_def del: aggregate_loop.simps(2))

lemma aggregate_loop_keys: "map fst (snd (aggregate_loop ar hs data)) = map fst data"
  by (induction hs arbitrary: data)
    (simp_all add: aggregate_loop_Cons Let_def append_scores_keys del: aggregate_loop.simps(2))

lemma aggregate_loop_map_of:
  "map_of (snd (aggregate_loop ar hs data)) k =
     map_option (bump (collected k (scored ar) hs) (collected k (\<lambda>h. simple_sentiment ar (h_title h)) hs))
       (map_of data k)"
proof (induction hs arbitrary: data)
  case Nil
  show ?case by (simp add: collected_def bump_Nil[abs_def] option.map_ident)
next
  case (Cons hl rest)
  let ?data1 = "foldl (\<lambda>data sector. append_score data sector (scored ar hl) (simple_sentiment ar (h_title hl)))
        data (sectors_or_general hl)"
  have "snd (aggregate_loop ar (hl # rest) data) = snd (aggregate_loop ar rest ?data1)"
    by (simp add: aggregate_loop_Cons Let_def del: aggregate_loop.simps(2))
  then show ?case
    by (simp add: Cons.IH append_scores_map_of option.map_comp comp_def bump_bump collected_def)
qed

lemma map_filter_keys:
  "fst ` set (List.map_filter (\<lambda>(sector, d). if P d then Some (sector, f d) else None) data)
     \<subseteq> fst ` set data"
  by (force simp: List.map_filter_def split: if_splits)

lemma map_of_map_filter_entries:
  assumes "distinct (map fst data)"
  shows "map_of (List.map_filter (\<lambda>(sector, d). if P d then Some (sector, f d) else None) data) k =
           (case map_of data k of None \<Rightarrow> None | Some d \<Rightarrow> if P d then Some (f d) else None)"
  using assms
proof (induction data)
  case Nil
  show ?case by (simp add: List.map_filter_simps)
next
  case (Cons p data)
  obtain sector d where p: "p = (sector, d)" by (cases p)
  from Cons.prems have d: "distinct (map fst data)" and n: "sector \<notin> fst ` set data"
    by (auto simp: p)
  from n have "sector \<notin> fst ` set (List.map_filter (\<lambda>(sector, d). if P d then Some (sector, f d) else None) data)"
    using map_filter_keys[of P f data] by blast
  then have none: "map_of (List.map_filter (\<lambda>(sector, d). if P d then Some (sector, f d) else None) data) sector = None"
    by (simp add: map_of_eq_None_iff)
  show ?case
    using Cons.IH[OF d] none
    by (auto simp: p List.map_filter_simps)
qed

lemma dict_set_map_of: "map_of (dict_set d k v) k' = (if k' = k then Some v else map_of d k')"
  by (induction d) auto

lemma dict_set_keys:
  "map fst (dict_set d k v) = (if k \<in> fst ` set d then map fst d else map fst d @ [k])"
  by (induction d) force+

lemma map_of_constant:
  "map_of (map (\<lambda>code. (code, v)) ks) k = (if k \<in> set ks then Some v else None)"
  by (induction ks) auto

lemma initial_sector_data_map_of:
  "map_of (initial_sector_data sectors) k =
     (if k = ''general'' \<or> k \<in> fst ` set sectors then Some empty_entry else None)"
  by (simp add: initial_sector_data_def dict_set_map_of map_of_constant del: map_map)

lemma initial_sector_data_distinct:
  "distinct (map fst sectors) \<Longrightarrow> distinct (map fst (initial_sector_data sectors))"
  by (simp add: initial_sector_data_def dict_set_keys comp_def image_image)

lemma bump_empty: "bump hs ss empty_entry = \<lparr>sd_headlines = hs, sd_scores = ss\<rparr>"
  by (simp add: bump_def empty_entry_def)

lemma aggregate_sentiment_map_of:
  assumes "distinct (map fst sectors)"
  shows "map_of (snd (aggregate_sentiment ar hs sectors)) k =
     (if (k = ''general'' \<or> k \<in> fst ` set sectors) \<and>
         collected k (\<lambda>h. simple_sentiment ar (h_title h)) hs \<noteq> []
      then Some (sector_result_of ar
                  \<lparr>sd_headlines = collected k (scored ar) hs,
                   sd_scores = collected k (\<lambda>h. simple_sentiment ar (h_title h)) hs\<rparr>)
      else None)"
proof -
  let ?loop = "snd (aggregate_loop ar hs (initial_sector_data sectors))"
  have r: "snd (aggregate_sentiment ar hs sectors) = aggregate_results ar ?loop"
    by (simp add: aggregate_sentiment_def case_prod_beta)
  have d: "distinct (map fst ?loop)"
    by (simp add: aggregate_loop_keys initial_sector_data_distinct[OF assms])
  show ?thesis
    unfolding r aggregate_results_def map_of_map_filter_entries[OF d]
    by (simp add: aggregate_loop_map_of initial_sector_data_map_of bump_empty)
qed

lemma count_list_distinct:
  "distinct xs \<Longrightarrow> count_list xs k = (if k \<in> set xs then 1 else 0)"
  by (induction xs) auto

text \<open>
  A headline of the harvest names each of its sectors once, so that the scores collected
  for a sector are those of the headlines assigned to it.
\<close>

lemma collected_distinct:
  assumes "\<forall>h \<in> set hs. distinct (sectors_or_general h)"
  shows "collected k f hs = map f (filter (\<lambda>h. k \<in> set (sectors_or_general h)) hs)"
  using assms
  by (induction hs) (simp_all add: collected_def count_list_distinct)

lemma truncate_result:
  "sector_summary.truncate (sector_result_of ar \<lparr>sd_headlines = H, sd_scores = S\<rparr>) =
     \<lparr>r_score = fround ar (spec_mean ar S) 3, r_count = length S,
      r_signal = spec_signal (spec_mean ar S)\<rparr>"
  by (simp add: sector_result_of_def sector_summary.truncate_def spec_mean_def spec_signal_def
      Let_def)

lemma classified_distinct:
  assumes "distinct (map fst sectors)"
  shows "\<forall>h \<in> set (classify_all hs sectors). distinct (sectors_or_general h)"
  using classify_sectors_distinct[OF assms]
  by (auto simp: classify_all_def sectors_or_general_def)

lemma classified_members:
  "map f (filter (\<lambda>h. k \<in> set (sectors_or_general h)) (classify_all hs sectors)) =
     map (\<lambda>h. f (h\<lparr>h_sectors := Some (classify_sectors h sectors)\<rparr>))
       (filter (\<lambda>h. k \<in> set (classify_sectors h sectors)) hs)"
  by (simp add: classify_all_def filter_map comp_def sectors_or_general_def)

lemma harvest_summary:
  assumes "distinct (map fst sectors)"
  shows "map_option sector_summary.truncate (map_of (snd (harvest_sentiment ar hs sectors)) k) =
           spec_summary ar (map (\<lambda>h. simple_sentiment ar (h_title h))
                              (filter (\<lambda>h. k \<in> spec_assigned (h_title h) sectors) hs))"
proof -
  let ?members = "filter (\<lambda>h. k \<in> set (classify_sectors h sectors)) hs"
  let ?S = "map (\<lambda>h. simple_sentiment ar (h_title h)) ?members"
  have a: "(\<lambda>h. k \<in> spec_assigned (h_title h) sectors) = (\<lambda>h. k \<in> set (classify_sectors h sectors))"
    by (simp add: spec_assigned_def classify_sectors_set)
  have c: "collected k (\<lambda>h. simple_sentiment ar (h_title h)) (classify_all hs sectors) = ?S"
    unfolding collected_distinct[OF classified_distinct[OF assms]] classified_members
    by simp
  have key: "k = ''general'' \<or> k \<in> fst ` set sectors" if "?S \<noteq> []"
  proof -
    from that obtain h where "k \<in> set (classify_sectors h sectors)"
      by (auto simp: filter_empty_conv)
    with classify_sectors_keys[of h sectors] show ?thesis by auto
  qed
  show ?thesis
    unfolding harvest_sentiment_def aggregate_sentiment_map_of[OF assms] c a
    using key
    by (auto simp: truncate_result spec_summary_def)
qed

subsection \<open>The recalculation of \<open>save_llm_results\<close>\<close>

text \<open>
  The loop over the stored headlines returns when the sectors of each headline can be gone
  through and hashed. The entry of a sector then holds the sentiment of a headline once
  for every time that the headline names the sector, and no entry is empty.
\<close>

lemma py_key_idem: "py_key (py_key k) = py_key k"
  by (simp add: py_key_def split: json.splits)

lemma add_score_lookup:
  "map_of (normalized (add_score data s x h)) q =
     (if q = py_key s then Some (json_bump [x] [h] (entry_at data q))
      else map_of (normalized data) q)"
  by (induction data) (auto simp: normalized_def entry_at_def json_bump_def)

lemma add_score_entry: 
  "entry_at (add_score data s x h) q =
     (if q = py_key s then json_bump [x] [h] (entry_at data q) else entry_at data q)"
  by (simp add: entry_at_def[of "add_score data s x h"] add_score_lookup) (simp add: entry_at_def)

lemma add_score_keys:
  "map fst (normalized (add_score data s x h)) =
     (if py_key s \<in> fst ` set (normalized data) then map fst (normalized data)
      else map fst (normalized data) @ [py_key s])"
  by (induction data) (force simp: normalized_def)+

lemma json_bump_bump: "json_bump a b (json_bump c d e) = json_bump (c @ a) (d @ b) e"
  by (simp add: json_bump_def)

lemma json_bump_Nil: "json_bump [] [] e = e"
  by (simp add: json_bump_def)

lemma add_score_nonempty:
  assumes "\<forall>(k, d) \<in> set data. je_scores d \<noteq> []"
  shows "\<forall>(k, d) \<in> set (add_score data s x h). je_scores d \<noteq> []"
  using assms by (induction data) (auto split: if_splits)

lemma add_scores_result:
  "add_scores data xs x h =
     (if list_all hashable xs then Inr (foldl (\<lambda>d s. add_score d s x h) data xs)
      else Inl (TypeError ''unhashable type''))"
  by (induction xs arbitrary: data) simp_all

lemma add_all_entry:
  "entry_at (foldl (\<lambda>d s. add_score d s x h) data xs) q =
     json_bump (replicate (count_list (map py_key xs) q) x)
       (replicate (count_list (map py_key xs) q) h) (entry_at data q)"
proof (induction xs arbitrary: data)
  case Nil
  show ?case by (simp add: json_bump_Nil)
next
  case (Cons s xs)
  show ?case
    by (simp add: Cons add_score_entry json_bump_bump replicate_app_Cons_same)
qed

lemma add_all_nonempty:
  assumes "\<forall>(k, d) \<in> set data. je_scores d \<noteq> []"
  shows "\<forall>(k, d) \<in> set (foldl (\<lambda>d s. add_score d s x h) data xs). je_scores d \<noteq> []"
  using assms
proof (induction xs arbitrary: data)
  case Nil
  then show ?case by simp
next
  case (Cons s xs)
  from Cons.prems have "\<forall>(k, d) \<in> set (add_score data s x h). je_scores d \<noteq> []"
    by (rule add_score_nonempty)
  from Cons.IH[OF this] show ?case by simp
qed

lemma named_Cons:
  "named q f (h # hs) =
     replicate (count_list (case sector_keys h of Some ks \<Rightarrow> ks | None \<Rightarrow> []) q) (f h) @ named q f hs"
  by (simp add: named_def)

lemma named_Nil: "named q f [] = []"
  by (simp add: named_def)

lemma recalculate_loop_returns:
  "(\<exists>d. recalculate_loop hs data = Inr d) = list_all (\<lambda>h. sector_keys h \<noteq> None) hs"
proof (induction hs arbitrary: data)
  case Nil
  show ?case by simp
next
  case (Cons h hs)
  show ?case
  proof (cases "iter_json (dict_get_default h ''sectors'' (JArr [JStr ''general'']))")
    case (Inl e)
    then show ?thesis by (simp add: sector_keys_def)
  next
    case (Inr xs)
    then show ?thesis
      by (simp add: sector_keys_def add_scores_result Cons)
  qed
qed

lemma recalculate_loop_entry:
  assumes "recalculate_loop hs data = Inr d"
  shows "entry_at d q = json_bump (named q stored_sentiment hs) (named q (\<lambda>h. h) hs) (entry_at data q)"
  using assms
proof (induction hs arbitrary: data)
  case Nil
  then show ?case by (simp add: named_Nil json_bump_Nil)
next
  case (Cons h hs)
  from Cons.prems obtain xs where
    xs: "iter_json (dict_get_default h ''sectors'' (JArr [JStr ''general''])) = Inr xs"
    by (cases "iter_json (dict_get_default h ''sectors'' (JArr [JStr ''general'']))") simp_all
  with Cons.prems have hx: "list_all hashable xs"
    by (simp add: add_scores_result split: if_splits)
  let ?d1 = "foldl (\<lambda>d s. add_score d s (stored_sentiment h) h) data xs"
  from Cons.prems xs hx have "recalculate_loop hs ?d1 = Inr d"
    by (simp add: add_scores_result stored_sentiment_def)
  from Cons.IH[OF this] have "entry_at d q = json_bump (named q stored_sentiment hs) (named q (\<lambda>h. h) hs) (entry_at ?d1 q)" .
  moreover have "sector_keys h = Some (map py_key xs)"
    using xs hx by (simp add: sector_keys_def)
  ultimately show ?case
    by (simp add: add_all_entry json_bump_bump named_Cons)
qed

lemma recalculate_loop_nonempty:
  assumes "recalculate_loop hs data = Inr d" and "\<forall>(k, d) \<in> set data. je_scores d \<noteq> []"
  shows "\<forall>(k, d) \<in> set d. je_scores d \<noteq> []"
  using assms
proof (induction hs arbitrary: data)
  case Nil
  then show ?case by simp
next
  case (Cons h hs)
  from Cons.prems(1) obtain xs where
    xs: "iter_json (dict_get_default h ''sectors'' (JArr [JStr ''general''])) = Inr xs"
    by (cases "iter_json (dict_get_default h ''sectors'' (JArr [JStr ''general'']))") simp_all
  with Cons.prems(1) have hx: "list_all hashable xs"
    by (simp add: add_scores_result split: if_splits)
  let ?d1 = "foldl (\<lambda>d s. add_score d s (stored_sentiment h) h) data xs"
  from Cons.prems(1) xs hx have "recalculate_loop hs ?d1 = Inr d"
    by (simp add: add_scores_result stored_sentiment_def)
  from Cons.IH[OF this add_all_nonempty[OF Cons.prems(2)]] show ?case .
qed

text \<open>
  The aggregation returns when all the scores are numbers, and the entry that it writes
  for a sector is the summary of the scores of the sector.
\<close>

lemma aggregate_scores_returns:
  "(\<exists>out. aggregate_scores ar data = Inr out) =
     (\<forall>(k, d) \<in> set data. those (map py_number (je_scores d)) \<noteq> None)"
proof (induction data)
  case Nil
  show ?case by simp
next
  case (Cons p data)
  obtain k d where p: "p = (k, d)" by (cases p)
  show ?case
  proof (cases "je_scores d = []")
    case True
    then show ?thesis using Cons by (simp add: p)
  next
    case False
    show ?thesis
    proof (cases "those (map py_number (je_scores d))")
      case None
      then show ?thesis using False by (simp add: p)
    next
      case (Some scores)
      show ?thesis
      proof (cases "aggregate_scores ar data")
        case (Inl e)
        with Cons have "\<not> (\<forall>(k, d) \<in> set data. those (map py_number (je_scores d)) \<noteq> None)"
          by simp
        with Inl Some False show ?thesis by (simp add: p Let_def)
      next
        case (Inr out)
        with Cons have "\<forall>(k, d) \<in> set data. those (map py_number (je_scores d)) \<noteq> None"
          by auto
        with Inr Some False show ?thesis by (simp add: p Let_def)
      qed
    qed
  qed
qed

lemma those_length: "those xs = Some ys \<Longrightarrow> length ys = length xs"
  by (induction xs arbitrary: ys) (auto split: option.splits)

lemma aggregate_scores_lookup:
  assumes "aggregate_scores ar data = Inr out" and "\<forall>(k, d) \<in> set data. je_scores d \<noteq> []"
  shows "map_of (normalized out) q = entry_summary ar (entry_at data q)"
  using assms
proof (induction data arbitrary: out)
  case Nil
  then show ?case
    by (simp add: normalized_def entry_at_def entry_summary_def spec_summary_def)
next
  case (Cons p data)
  obtain k d where p: "p = (k, d)" by (cases p)
  from Cons.prems(2) have ne: "je_scores d \<noteq> []" by (simp add: p)
  from Cons.prems(1) ne obtain scores where
    scores: "those (map py_number (je_scores d)) = Some scores"
    by (cases "those (map py_number (je_scores d))") (simp_all add: p)
  from Cons.prems(1) ne scores obtain rest where
    rest: "aggregate_scores ar data = Inr rest"
    by (cases "aggregate_scores ar data") (simp_all add: p Let_def)
  from Cons.prems(2) have "\<forall>(k, d) \<in> set data. je_scores d \<noteq> []" by simp
  from Cons.IH[OF rest this] have ih: "map_of (normalized rest) q = entry_summary ar (entry_at data q)" .
  from those_length[OF scores] ne have sne: "scores \<noteq> []" by auto
  from Cons.prems(1) ne scores rest have out:
    "out = (k, \<lparr>r_score = fround ar (spec_mean ar scores) 3, r_count = length scores,
                r_signal = spec_signal (spec_mean ar scores)\<rparr>) # rest"
    by (simp add: p Let_def spec_mean_def spec_signal_def)
  show ?case
  proof (cases "q = py_key k")
    case True
    then show ?thesis
      using sne scores
      by (simp add: out p normalized_def entry_at_def entry_summary_def spec_summary_def)
  next
    case False
    then have "entry_at (p # data) q = entry_at data q"
      by (simp add: p normalized_def entry_at_def)
    moreover from False have "map_of (normalized out) q = map_of (normalized rest) q"
      by (simp add: out normalized_def)
    ultimately show ?thesis using ih by simp
  qed
qed

lemma those_numbers:
  "(those (map py_number xs) \<noteq> None) = (\<forall>x \<in> set xs. py_number x \<noteq> None)"
  by (induction xs) (auto split: option.splits)

lemma those_values:
  "those (map py_number xs) = Some ys \<Longrightarrow>
     ys = map (\<lambda>x. case py_number x of Some v \<Rightarrow> v | None \<Rightarrow> 0) xs"
  by (induction xs arbitrary: ys) (auto split: option.splits)

lemma map_named: "map g (named q f hs) = named q (\<lambda>h. g (f h)) hs"
  by (induction hs) (simp_all add: named_Nil named_Cons)

lemma named_scores_named: "named_scores k hs = named (py_key k) stored_score hs"
  by (simp add: named_scores_def named_def)

lemma add_score_numbers:
  assumes "\<forall>(k, d) \<in> set data. \<forall>s \<in> set (je_scores d). py_number s \<noteq> None"
    and "py_number x \<noteq> None"
  shows "\<forall>(k, d) \<in> set (add_score data s x h). \<forall>s \<in> set (je_scores d). py_number s \<noteq> None"
  using assms by (induction data) (fastforce split: if_splits)+

lemma add_all_numbers:
  assumes "\<forall>(k, d) \<in> set data. \<forall>s \<in> set (je_scores d). py_number s \<noteq> None"
    and "xs = [] \<or> py_number x \<noteq> None"
  shows "\<forall>(k, d) \<in> set (foldl (\<lambda>d s. add_score d s x h) data xs).
           \<forall>s \<in> set (je_scores d). py_number s \<noteq> None"
  using assms
proof (induction xs arbitrary: data)
  case Nil
  then show ?case by simp
next
  case (Cons s xs)
  from Cons.prems have x: "py_number x \<noteq> None" by simp
  from add_score_numbers[OF Cons.prems(1) x]
  have "\<forall>(k, d) \<in> set (add_score data s x h). \<forall>s \<in> set (je_scores d). py_number s \<noteq> None" .
  from Cons.IH[OF this] x show ?case by simp
qed

lemma recalculate_loop_numbers:
  assumes "recalculate_loop hs data = Inr d"
    and "\<forall>(k, d) \<in> set data. \<forall>s \<in> set (je_scores d). py_number s \<noteq> None"
    and "list_all recalculable hs"
  shows "\<forall>(k, d) \<in> set d. \<forall>s \<in> set (je_scores d). py_number s \<noteq> None"
  using assms
proof (induction hs arbitrary: data)
  case Nil
  then show ?case by simp
next
  case (Cons h hs)
  from Cons.prems(1) obtain xs where
    xs: "iter_json (dict_get_default h ''sectors'' (JArr [JStr ''general''])) = Inr xs"
    by (cases "iter_json (dict_get_default h ''sectors'' (JArr [JStr ''general'']))") simp_all
  with Cons.prems(1) have hx: "list_all hashable xs"
    by (simp add: add_scores_result split: if_splits)
  let ?d1 = "foldl (\<lambda>d s. add_score d s (stored_sentiment h) h) data xs"
  from Cons.prems(1) xs hx have loop: "recalculate_loop hs ?d1 = Inr d"
    by (simp add: add_scores_result stored_sentiment_def)
  from Cons.prems(3) xs hx have "xs = [] \<or> py_number (stored_sentiment h) \<noteq> None"
    by (simp add: recalculable_def sector_keys_def)
  from add_all_numbers[OF Cons.prems(2) this]
  have "\<forall>(k, d) \<in> set ?d1. \<forall>s \<in> set (je_scores d). py_number s \<noteq> None" .
  from Cons.IH[OF loop this] Cons.prems(3) show ?case by simp
qed

lemma entry_at_member:
  assumes "je_scores (entry_at d q) \<noteq> []"
  shows "\<exists>k. (k, entry_at d q) \<in> set d"
proof -
  from assms obtain e where e: "map_of (normalized d) q = Some e"
    by (cases "map_of (normalized d) q") (simp_all add: entry_at_def)
  then have "(q, e) \<in> set (normalized d)" by (rule map_of_SomeD)
  then obtain k where "(k, e) \<in> set d" by (auto simp: normalized_def)
  with e show ?thesis by (auto simp: entry_at_def)
qed

lemma loop_scores:
  assumes "recalculate_loop hs [] = Inr d"
  shows "je_scores (entry_at d q) = named q stored_sentiment hs"
  unfolding recalculate_loop_entry[OF assms]
  by (simp add: json_bump_def entry_at_def normalized_def)

lemma named_member:
  assumes "h \<in> set hs" and "sector_keys h = Some ks" and "q \<in> set ks"
  shows "f h \<in> set (named q f hs)"
  using assms
  by (induction hs) (auto simp: named_Cons named_Nil count_list_0_iff)

text \<open>Together: when the recalculation returns, and what it returns.\<close>

lemma recalculate_returns:
  "(\<exists>ss. recalculate_sector_sentiment ar hs = Inr ss) = list_all recalculable hs"
proof
  assume "\<exists>ss. recalculate_sector_sentiment ar hs = Inr ss"
  then obtain ss where ss: "recalculate_sector_sentiment ar hs = Inr ss" ..
  then obtain d where d: "recalculate_loop hs [] = Inr d"
    by (cases "recalculate_loop hs []") (simp_all add: recalculate_sector_sentiment_def)
  with ss have agg: "aggregate_scores ar d = Inr ss"
    by (simp add: recalculate_sector_sentiment_def)
  from d have keys: "list_all (\<lambda>h. sector_keys h \<noteq> None) hs"
    using recalculate_loop_returns[of hs "[]"] by auto
  from agg have nums: "\<forall>(k, e) \<in> set d. those (map py_number (je_scores e)) \<noteq> None"
    using aggregate_scores_returns[of ar d] by auto
  have "recalculable h" if h: "h \<in> set hs" for h
  proof -
    from keys h obtain ks where ks: "sector_keys h = Some ks"
      by (auto simp: list_all_iff)
    show ?thesis
    proof (cases ks)
      case Nil
      with ks show ?thesis by (simp add: recalculable_def)
    next
      case (Cons q rest)
      with ks h have m: "stored_sentiment h \<in> set (named q stored_sentiment hs)"
        by (intro named_member[of h hs ks q]) simp_all
      then have "je_scores (entry_at d q) \<noteq> []"
        unfolding loop_scores[OF d] by auto
      from entry_at_member[OF this] obtain k where "(k, entry_at d q) \<in> set d" ..
      with nums have "those (map py_number (je_scores (entry_at d q))) \<noteq> None" by auto
      then have "\<forall>x \<in> set (named q stored_sentiment hs). py_number x \<noteq> None"
        unfolding loop_scores[OF d] those_numbers .
      with m have "py_number (stored_sentiment h) \<noteq> None" by auto
      with ks show ?thesis by (simp add: recalculable_def)
    qed
  qed
  then show "list_all recalculable hs" by (simp add: list_all_iff)
next
  assume r: "list_all recalculable hs"
  then have "list_all (\<lambda>h. sector_keys h \<noteq> None) hs"
    by (auto simp: list_all_iff recalculable_def split: option.splits)
  then obtain d where d: "recalculate_loop hs [] = Inr d"
    using recalculate_loop_returns[of hs "[]"] by auto
  from recalculate_loop_numbers[OF d _ r]
  have "\<forall>(k, d) \<in> set d. \<forall>s \<in> set (je_scores d). py_number s \<noteq> None" by simp
  then have "\<forall>(k, e) \<in> set d. those (map py_number (je_scores e)) \<noteq> None"
    by (simp only: those_numbers)
  then obtain ss where "aggregate_scores ar d = Inr ss"
    using aggregate_scores_returns[of ar d] by auto
  with d show "\<exists>ss. recalculate_sector_sentiment ar hs = Inr ss"
    by (simp add: recalculate_sector_sentiment_def)
qed

lemma recalculate_lookup:
  assumes "recalculate_sector_sentiment ar hs = Inr ss"
  shows "lookup_sector ss k = spec_summary ar (named_scores k hs)"
proof -
  from assms obtain d where d: "recalculate_loop hs [] = Inr d"
    by (cases "recalculate_loop hs []") (simp_all add: recalculate_sector_sentiment_def)
  with assms have agg: "aggregate_scores ar d = Inr ss"
    by (simp add: recalculate_sector_sentiment_def)
  from agg have nums: "\<forall>(k, e) \<in> set d. those (map py_number (je_scores e)) \<noteq> None"
    using aggregate_scores_returns[of ar d] by auto
  let ?q = "py_key k"
  let ?xs = "named ?q stored_sentiment hs"
  have "those (map py_number ?xs) \<noteq> None"
  proof (cases "?xs = []")
    case True
    then show ?thesis by simp
  next
    case False
    then have "je_scores (entry_at d ?q) \<noteq> []" by (simp add: loop_scores[OF d])
    from entry_at_member[OF this] obtain k' where "(k', entry_at d ?q) \<in> set d" ..
    with nums have "those (map py_number (je_scores (entry_at d ?q))) \<noteq> None" by auto
    then show ?thesis by (simp add: loop_scores[OF d])
  qed
  then obtain ys where ys: "those (map py_number ?xs) = Some ys" by auto
  from those_values[OF ys] have "ys = named ?q stored_score hs"
    by (simp add: map_named stored_score_def[abs_def])
  with ys have e: "entry_summary ar (entry_at d ?q) = spec_summary ar (named_scores k hs)"
    by (simp add: entry_summary_def loop_scores[OF d] named_scores_named)
  from recalculate_loop_nonempty[OF d] have "\<forall>(k, d) \<in> set d. je_scores d \<noteq> []" by simp
  from aggregate_scores_lookup[OF agg this, of ?q] e show ?thesis
    by (simp add: lookup_sector_def normalized_def)
qed

lemma well_formed_recalculable: "well_formed h \<Longrightarrow> recalculable h"
  by (auto simp: well_formed_def recalculable_def split: option.splits)

lemma named_scores_members:
  assumes "list_all well_formed hs"
  shows "named_scores k hs = map stored_score (stored_members k hs)"
  using assms
  by (induction hs)
    (auto simp: named_scores_def stored_members_def well_formed_def count_list_distinct
      split: option.splits)

lemma save_llm_results_recalculates:
  assumes "save_llm_results ar results harvest = Inr (stored, ss, updated)"
  shows "recalculate_sector_sentiment ar stored = Inr ss"
  using assms
  by (auto simp: save_llm_results_def split: sum.splits prod.splits)

subsection \<open>The example harvest\<close>

lemma example_save:
  "save_llm_results exact_arith example_results example_harvest =
     Inr (example_stored,
          [(JStr ''XLK'', \<lparr>r_score = 1 / 2, r_count = 1, r_signal = ''BUY''\<rparr>),
           (JStr ''XLE'', \<lparr>r_score = - (1 / 2), r_count = 1, r_signal = ''SELL''\<rparr>),
           (JStr ''general'', \<lparr>r_score = 0, r_count = 1, r_signal = ''HOLD''\<rparr>)],
          1)"
  by code_simp

lemma twice_save:
  "save_llm_results exact_arith twice_results example_harvest =
     Inr (twice_stored,
          [(JStr ''XLK'', \<lparr>r_score = 1 / 2, r_count = 3, r_signal = ''BUY''\<rparr>),
           (JStr ''general'', \<lparr>r_score = 0, r_count = 1, r_signal = ''HOLD''\<rparr>)],
          2)"
  by code_simp

lemma text_save:
  "save_llm_results exact_arith text_results example_harvest =
     Inl (TypeError ''unsupported operand type(s) for +'')"
  by code_simp

lemma twice_members:
  "spec_summary exact_arith (map stored_score (stored_members (JStr ''XLK'') twice_stored)) =
     Some \<lparr>r_score = 1 / 4, r_count = 2, r_signal = ''HOLD''\<rparr>"
  by code_simp

lemma example_well_formed: "list_all well_formed example_stored"
  by code_simp

lemma example_members:
  "map stored_score (stored_members (JStr ''XLE'') example_stored) = [- (1 / 2)]"
  by code_simp

lemma example_distinct: "distinct (map fst example_sectors)"
  by code_simp

lemma example_assigned:
  "set (classify_sectors (new_headline ''Oil and chip stocks rally'') example_sectors) = {''XLK'', ''XLE''}"
  by code_simp

lemma example_scores:
  "map (\<lambda>h. simple_sentiment exact_arith (h_title h))
     (filter (\<lambda>h. ''XLK'' \<in> set (classify_sectors h example_sectors)) example_headlines) = [2 / 5, 3 / 20]"
  by code_simp

lemma example_summary:
  "spec_summary exact_arith [2 / 5, 3 / 20] = Some \<lparr>r_score = 11 / 40, r_count = 2, r_signal = ''BUY''\<rparr>"
  "spec_summary exact_arith [- (1 / 2)] = Some \<lparr>r_score = - (1 / 2), r_count = 1, r_signal = ''SELL''\<rparr>"
  by code_simp+

lemma assigned_members:
  "filter (\<lambda>h. k \<in> spec_assigned (h_title h) sectors) hs =
     filter (\<lambda>h. k \<in> set (classify_sectors h sectors)) hs"
  by (simp add: spec_assigned_def classify_sectors_set)

subsection \<open>Sector sentiment\<close>

text \<open>
  Claim C9, as stated, fails in \<open>save_llm_results\<close>. The sectors and the sentiment of a
  stored headline are what the results of the analysis say, unchecked. For results that
  name the sector XLK twice for one headline, with the sentiment 1, and once for another,
  with the sentiment -0.5, the function stores the score 0.5, the count 3 and the signal
  BUY for XLK, though the mean of the scores of the two member headlines is 0.25, which
  gives HOLD. For a result whose sentiment is a text, the function raises and stores
  nothing.
\<close>

theorem save_llm_results_counts_repeated_sector:
  "save_llm_results exact_arith twice_results example_harvest =
     Inr (twice_stored,
          [(JStr ''XLK'', \<lparr>r_score = 1 / 2, r_count = 3, r_signal = ''BUY''\<rparr>),
           (JStr ''general'', \<lparr>r_score = 0, r_count = 1, r_signal = ''HOLD''\<rparr>)],
          2) \<and>
   spec_summary exact_arith (map stored_score (stored_members (JStr ''XLK'') twice_stored)) =
     Some \<lparr>r_score = 1 / 4, r_count = 2, r_signal = ''HOLD''\<rparr> \<and>
   save_llm_results exact_arith text_results example_harvest =
     Inl (TypeError ''unsupported operand type(s) for +'')"
  by (simp add: twice_save twice_members text_save)

text \<open>
  Claim C9, amended. In the harvester, \<open>classify_sectors\<close> assigns a headline to every
  sector whose keyword set matches its title, or to \<open>general\<close> if none matches; and for the
  sectors of a configuration, \<open>aggregate_sentiment\<close> on the headlines so classified gives
  every sector that has a member the mean of the keyword scores of its members (the
  scores as computed, before they are rounded to two decimals for the headline), rounded
  to three decimals, the number of its members, and the signal \<open>BUY\<close> if the mean is above
  0.25, \<open>SELL\<close> if it is below -0.25 and \<open>HOLD\<close> otherwise; a sector without a member gets no
  entry. The recalculation of \<open>save_llm_results\<close> returns exactly when the sectors of every
  stored headline can be gone through and hashed and every headline that names a sector
  carries a number as its sentiment; otherwise it raises. When it returns, the entry of a
  sector is the same summary of the sentiments of the headlines that name it, where a
  headline counts once for every time that it names the sector; this is the summary of
  the scores of the member headlines when every headline names each of its sectors once
  and carries a number. What \<open>save_llm_results\<close> stores as the sector sentiment is this
  recalculation on the headlines that it stores. The mean is the sum divided by the
  number, in the arithmetic of the program, which is a parameter here.
\<close>

theorem sentiment_aggregation:
  "set (classify_sectors hl sectors) = spec_assigned (h_title hl) sectors \<and>
   (distinct (map fst sectors) \<longrightarrow>
      map_option sector_summary.truncate (map_of (snd (harvest_sentiment ar hs sectors)) k) =
        spec_summary ar (map (\<lambda>h. simple_sentiment ar (h_title h))
                           (filter (\<lambda>h. k \<in> spec_assigned (h_title h) sectors) hs))) \<and>
   ((\<exists>ss. recalculate_sector_sentiment ar stored = Inr ss) = list_all recalculable stored) \<and>
   (recalculate_sector_sentiment ar stored = Inr ss \<longrightarrow>
      lookup_sector ss sector = spec_summary ar (named_scores sector stored)) \<and>
   (list_all well_formed stored \<longrightarrow>
      list_all recalculable stored \<and>
      named_scores sector stored = map stored_score (stored_members sector stored)) \<and>
   (save_llm_results ar results harvest = Inr (stored, ss, updated) \<longrightarrow>
      recalculate_sector_sentiment ar stored = Inr ss)"
proof (intro conjI impI)
  show "set (classify_sectors hl sectors) = spec_assigned (h_title hl) sectors"
    by (simp add: spec_assigned_def classify_sectors_set)
next
  assume "distinct (map fst sectors)"
  then show "map_option sector_summary.truncate (map_of (snd (harvest_sentiment ar hs sectors)) k) =
        spec_summary ar (map (\<lambda>h. simple_sentiment ar (h_title h))
                           (filter (\<lambda>h. k \<in> spec_assigned (h_title h) sectors) hs))"
    by (rule harvest_summary)
next
  show "(\<exists>ss. recalculate_sector_sentiment ar stored = Inr ss) = list_all recalculable stored"
    by (rule recalculate_returns)
next
  assume "recalculate_sector_sentiment ar stored = Inr ss"
  then show "lookup_sector ss sector = spec_summary ar (named_scores sector stored)"
    by (rule recalculate_lookup)
next
  assume "list_all well_formed stored"
  then show "list_all recalculable stored"
    by (auto simp: list_all_iff well_formed_recalculable)
next
  assume "list_all well_formed stored"
  then show "named_scores sector stored = map stored_score (stored_members sector stored)"
    by (rule named_scores_members)
next
  assume "save_llm_results ar results harvest = Inr (stored, ss, updated)"
  then show "recalculate_sector_sentiment ar stored = Inr ss"
    by (rule save_llm_results_recalculates)
qed

theorem sentiment_aggregation_witness:
  "spec_assigned ''Oil and chip stocks rally'' example_sectors = {''XLK'', ''XLE''} \<and>
   distinct (map fst example_sectors) \<and>
   map_option sector_summary.truncate
     (map_of (snd (harvest_sentiment exact_arith example_headlines example_sectors)) ''XLK'') =
     Some \<lparr>r_score = 11 / 40, r_count = 2, r_signal = ''BUY''\<rparr> \<and>
   save_llm_results exact_arith example_results example_harvest =
     Inr (example_stored,
          [(JStr ''XLK'', \<lparr>r_score = 1 / 2, r_count = 1, r_signal = ''BUY''\<rparr>),
           (JStr ''XLE'', \<lparr>r_score = - (1 / 2), r_count = 1, r_signal = ''SELL''\<rparr>),
           (JStr ''general'', \<lparr>r_score = 0, r_count = 1, r_signal = ''HOLD''\<rparr>)],
          1) \<and>
   list_all well_formed example_stored \<and>
   list_all recalculable example_stored \<and>
   named_scores (JStr ''XLE'') example_stored = [- (1 / 2)] \<and>
   lookup_sector
     [(JStr ''XLK'', \<lparr>r_score = 1 / 2, r_count = 1, r_signal = ''BUY''\<rparr>),
      (JStr ''XLE'', \<lparr>r_score = - (1 / 2), r_count = 1, r_signal = ''SELL''\<rparr>),
      (JStr ''general'', \<lparr>r_score = 0, r_count = 1, r_signal = ''HOLD''\<rparr>)]
     (JStr ''XLE'') =
     Some \<lparr>r_score = - (1 / 2), r_count = 1, r_signal = ''SELL''\<rparr>"
proof -
  note T = sentiment_aggregation[where hl = "new_headline ''Oil and chip stocks rally''"
      and sectors = example_sectors and ar = exact_arith and hs = example_headlines
      and k = "''XLK''" and stored = example_stored and sector = "JStr ''XLE''"
      and results = example_results and harvest = example_harvest and updated = 1
      and ss = "[(JStr ''XLK'', \<lparr>r_score = 1 / 2, r_count = 1, r_signal = ''BUY''\<rparr>),
                 (JStr ''XLE'', \<lparr>r_score = - (1 / 2), r_count = 1, r_signal = ''SELL''\<rparr>),
                 (JStr ''general'', \<lparr>r_score = 0, r_count = 1, r_signal = ''HOLD''\<rparr>)]"]
  note assigned = T[THEN conjunct1]
  note harvested = T[THEN conjunct2, THEN conjunct1, rule_format, OF example_distinct]
  note looked_up = T[THEN conjunct2, THEN conjunct2, THEN conjunct2, THEN conjunct1, rule_format]
  note members = T[THEN conjunct2, THEN conjunct2, THEN conjunct2, THEN conjunct2, THEN conjunct1,
      rule_format, OF example_well_formed]
  note recalculated = T[THEN conjunct2, THEN conjunct2, THEN conjunct2, THEN conjunct2,
      THEN conjunct2, rule_format, OF example_save]
  have t: "h_title (new_headline ''Oil and chip stocks rally'') = ''Oil and chip stocks rally''"
    by (simp add: new_headline_def)
  have a: "spec_assigned ''Oil and chip stocks rally'' example_sectors = {''XLK'', ''XLE''}"
    by (simp only: assigned[unfolded t, symmetric] example_assigned)
  have h: "map_option sector_summary.truncate
             (map_of (snd (harvest_sentiment exact_arith example_headlines example_sectors)) ''XLK'') =
           Some \<lparr>r_score = 11 / 40, r_count = 2, r_signal = ''BUY''\<rparr>"
    by (simp only: harvested assigned_members example_scores example_summary)
  have n: "named_scores (JStr ''XLE'') example_stored = [- (1 / 2)]"
    by (simp only: members[THEN conjunct2] example_members)
  have l: "lookup_sector
             [(JStr ''XLK'', \<lparr>r_score = 1 / 2, r_count = 1, r_signal = ''BUY''\<rparr>),
              (JStr ''XLE'', \<lparr>r_score = - (1 / 2), r_count = 1, r_signal = ''SELL''\<rparr>),
              (JStr ''general'', \<lparr>r_score = 0, r_count = 1, r_signal = ''HOLD''\<rparr>)]
             (JStr ''XLE'') =
           Some \<lparr>r_score = - (1 / 2), r_count = 1, r_signal = ''SELL''\<rparr>"
    by (simp only: looked_up[OF recalculated] n example_summary)
  from a h n l example_distinct example_save example_well_formed members[THEN conjunct1]
  show ?thesis
    by (intro conjI)
qed

end
